theory Spec2Isabelle
  imports Main "HOL-Library.AList" "HOL-Library.Sublist"
begin

section \<open>Python strings\<close>

text \<open>
  A Python \<^verbatim>\<open>str\<close> is a sequence of Unicode code points, and \<^verbatim>\<open>len\<close> counts code
  points. A string is therefore a list of code points (natural numbers); \<open>lit\<close> turns
  an ASCII literal into that form.
\<close>

type_synonym pystr = "nat list"

definition lit :: "string \<Rightarrow> pystr" where
  "lit s = map of_char s"

text \<open>
  \<^verbatim>\<open>str.isspace\<close> for one code point: the characters CPython treats as whitespace in
  \<^verbatim>\<open>strip()\<close> and \<^verbatim>\<open>split()\<close> (U+0009..U+000D, U+001C..U+0020, U+0085, U+00A0, U+1680,
  U+2000..U+200A, U+2028, U+2029, U+202F, U+205F, U+3000).
\<close>

definition is_space :: "nat \<Rightarrow> bool" where
  "is_space c \<longleftrightarrow>
     (9 \<le> c \<and> c \<le> 13) \<or> (28 \<le> c \<and> c \<le> 32) \<or> c = 133 \<or> c = 160 \<or> c = 5760 \<or>
     (8192 \<le> c \<and> c \<le> 8202) \<or> c = 8232 \<or> c = 8233 \<or> c = 8239 \<or> c = 8287 \<or> c = 12288"

text \<open>\<^verbatim>\<open>s.strip()\<close>: leading and trailing whitespace removed.\<close>

definition strip :: "pystr \<Rightarrow> pystr" where
  "strip s = rev (dropWhile is_space (rev (dropWhile is_space s)))"

text \<open>
  \<^verbatim>\<open>s.split()\<close> without arguments: the maximal runs of non-whitespace, in order. The
  first argument is the word being read.
\<close>

fun split_acc :: "pystr \<Rightarrow> pystr \<Rightarrow> pystr list" where
  "split_acc cur [] = (if cur = [] then [] else [cur])"
| "split_acc cur (c # cs) =
     (if is_space c then (if cur = [] then split_acc [] cs else cur # split_acc [] cs)
      else split_acc (cur @ [c]) cs)"

definition py_split :: "pystr \<Rightarrow> pystr list" where
  "py_split s = split_acc [] s"

text \<open>\<^verbatim>\<open>sep.join(xs)\<close>.\<close>

fun str_join :: "pystr \<Rightarrow> pystr list \<Rightarrow> pystr" where
  "str_join sep [] = []"
| "str_join sep [x] = x"
| "str_join sep (x # y # ys) = x @ sep @ str_join sep (y # ys)"

text \<open>
  \<^verbatim>\<open>s.replace(old, new)\<close>: the non-overlapping occurrences of \<open>old\<close>, leftmost first.
  With an empty \<open>old\<close> Python inserts \<open>new\<close> before every character and at the end.
\<close>

function str_replace :: "pystr \<Rightarrow> pystr \<Rightarrow> pystr \<Rightarrow> pystr" where
  "str_replace old new s =
     (if old = [] then new @ concat (map (\<lambda>c. c # new) s)
      else if s = [] then []
      else if prefix old s then new @ str_replace old new (drop (length old) s)
      else hd s # str_replace old new (tl s))"
  by pat_completeness auto
termination
  by (relation "measure (\<lambda>(old, new, s). length s)") (auto simp: neq_Nil_conv)

declare str_replace.simps [simp del]

section \<open>Values of untyped Python data\<close>

text \<open>
  The dictionaries the parser passes around hold whatever \<^verbatim>\<open>json.loads\<close> or the regular
  expressions produced; Python checks no annotation. \<open>pyval\<close> is the type of such a
  value, a dictionary is an association list in insertion order.
\<close>

datatype pyval =
    PNone
  | PBool bool
  | PInt int
  | PFloat pystr
  | PStr pystr
  | PList "pyval list"
  | PDict "(pystr \<times> pyval) list"

type_synonym pydict = "(pystr \<times> pyval) list"

text \<open>\<^verbatim>\<open>d.get(k, default)\<close> and \<^verbatim>\<open>d.get(k)\<close>.\<close>

definition dict_get :: "pydict \<Rightarrow> pystr \<Rightarrow> pyval \<Rightarrow> pyval" where
  "dict_get d k dflt = (case map_of d k of None \<Rightarrow> dflt | Some v \<Rightarrow> v)"

abbreviation dict_get0 :: "pydict \<Rightarrow> pystr \<Rightarrow> pyval" where
  "dict_get0 d k \<equiv> dict_get d k PNone"

text \<open>The ASCII digits and the number a string of them denotes.\<close>

definition is_digit :: "nat \<Rightarrow> bool" where
  "is_digit c \<longleftrightarrow> 48 \<le> c \<and> c \<le> 57"

definition digits_value :: "pystr \<Rightarrow> nat" where
  "digits_value ds = foldl (\<lambda>a c. 10 * a + (c - 48)) 0 ds"

text \<open>
  A float read from JSON is kept as its lexeme (digits, an optional fraction, an optional
  exponent, or one of \<^verbatim>\<open>NaN\<close>, \<^verbatim>\<open>Infinity\<close>, \<^verbatim>\<open>-Infinity\<close>). The lexeme denotes
  \<open>m * 10 ^ e\<close>, with \<open>m\<close> the digits before the exponent; the nearest double is zero when
  \<open>m\<close> is zero or the value is at most \<open>1 / 2 ^ 1075\<close>, half the least positive double.
\<close>

definition float_is_zero :: "pystr \<Rightarrow> bool" where
  "float_is_zero s =
     (let s1 = (if s \<noteq> [] \<and> hd s = 45 then tl s else s);
          whole = takeWhile is_digit s1;
          s2 = drop (length whole) s1;
          frac = (if s2 \<noteq> [] \<and> hd s2 = 46 then takeWhile is_digit (tl s2) else []);
          s3 = (if s2 \<noteq> [] \<and> hd s2 = 46 then drop (length frac) (tl s2) else s2);
          t = (if s3 \<noteq> [] \<and> (hd s3 = 101 \<or> hd s3 = 69) then tl s3 else []);
          ds = (if t \<noteq> [] \<and> (hd t = 43 \<or> hd t = 45) then tl t else t);
          ex = (if t \<noteq> [] \<and> hd t = 45 then - int (digits_value ds) else int (digits_value ds));
          m = digits_value (whole @ frac);
          e = ex - int (length frac)
      in whole \<noteq> [] \<and> (m = 0 \<or> (e < 0 \<and> m * 2 ^ 1075 \<le> 10 ^ nat (- e))))"

text \<open>Truthiness (\<^verbatim>\<open>if x:\<close>, \<^verbatim>\<open>not x\<close>, the operands of \<^verbatim>\<open>and\<close>/\<^verbatim>\<open>any\<close>).\<close>

fun truthy :: "pyval \<Rightarrow> bool" where
  "truthy PNone = False"
| "truthy (PBool b) = b"
| "truthy (PInt i) = (i \<noteq> 0)"
| "truthy (PFloat s) = (\<not> float_is_zero s)"
| "truthy (PStr s) = (s \<noteq> [])"
| "truthy (PList xs) = (xs \<noteq> [])"
| "truthy (PDict d) = (d \<noteq> [])"

section \<open>ForeClosureData\<close>

text \<open>
  The dataclass of \<^verbatim>\<open>parse_foreclosure_pdfs.py\<close>. Every field defaults to \<^verbatim>\<open>None\<close>; the
  generated \<^verbatim>\<open>__init__\<close> stores the arguments and then runs \<^verbatim>\<open>__post_init__\<close>.
\<close>

record ForeClosureData =
  case_number :: pyval
  filing_date :: pyval
  case_type :: pyval
  court :: pyval
  plaintiff :: pyval
  defendant :: pyval
  trustee :: pyval
  property_address :: pyval
  legal_description :: pyval
  parcel_number :: pyval
  lot_block_subdivision :: pyval
  original_loan_amount :: pyval
  unpaid_balance :: pyval
  total_debt :: pyval
  deed_of_trust_date :: pyval
  deed_of_trust_recording_date :: pyval
  deed_of_trust_volume_page :: pyval
  deed_of_trust_instrument_number :: pyval
  deed_of_trust_number :: pyval
  sale_date :: pyval
  sale_time :: pyval
  sale_location :: pyval
  borrower_names :: pyval
  lender_name :: pyval
  attorney_info :: pyval
  ai_confidence :: pyval
  extraction_timestamp :: pyval
  source_pdf_file :: pyval

definition post_init :: "ForeClosureData \<Rightarrow> ForeClosureData" where
  "post_init self =
     (let self = (if borrower_names self = PNone then self\<lparr>borrower_names := PList []\<rparr> else self);
          self = (if attorney_info self = PNone then self\<lparr>attorney_info := PDict []\<rparr> else self)
      in self)"

text \<open>Construction: the record of the arguments, then \<^verbatim>\<open>__post_init__\<close>.\<close>

definition new_ForeClosureData :: "ForeClosureData \<Rightarrow> ForeClosureData" where
  "new_ForeClosureData args = post_init args"

text \<open>The declared types of the two fields: \<^verbatim>\<open>List[str]\<close> and \<^verbatim>\<open>Dict[str, str]\<close>.\<close>

definition is_str :: "pyval \<Rightarrow> bool" where
  "is_str v = (case v of PStr _ \<Rightarrow> True | _ \<Rightarrow> False)"

definition is_list :: "pyval \<Rightarrow> bool" where
  "is_list v = (case v of PList _ \<Rightarrow> True | _ \<Rightarrow> False)"

definition is_dict :: "pyval \<Rightarrow> bool" where
  "is_dict v = (case v of PDict _ \<Rightarrow> True | _ \<Rightarrow> False)"

text \<open>The dataclass defaults: every field \<^verbatim>\<open>None\<close>.\<close>

definition default_args :: ForeClosureData where
  "default_args =
     \<lparr>case_number = PNone, filing_date = PNone, case_type = PNone, court = PNone,
      plaintiff = PNone, defendant = PNone, trustee = PNone, property_address = PNone,
      legal_description = PNone, parcel_number = PNone, lot_block_subdivision = PNone,
      original_loan_amount = PNone, unpaid_balance = PNone, total_debt = PNone,
      deed_of_trust_date = PNone, deed_of_trust_recording_date = PNone,
      deed_of_trust_volume_page = PNone, deed_of_trust_instrument_number = PNone,
      deed_of_trust_number = PNone, sale_date = PNone, sale_time = PNone,
      sale_location = PNone, borrower_names = PNone, lender_name = PNone,
      attorney_info = PNone, ai_confidence = PNone, extraction_timestamp = PNone,
      source_pdf_file = PNone\<rparr>"

section \<open>Text extraction: \<^verbatim>\<open>extract_pdf_text\<close>\<close>

text \<open>
  The three libraries are collaborators. What a call into one of them does is either to
  raise an exception (any subclass of \<^verbatim>\<open>Exception\<close>, which is what the handlers catch) or
  to return a value.
\<close>

datatype 'a outcome = Raised | Returned 'a

text \<open>
  One run of the pdfplumber block is the list of what happens in it, in order: a
  \<open>Returned\<close> entry is one page's \<^verbatim>\<open>page.extract_text()\<close> (\<^verbatim>\<open>None\<close> or a string), a
  \<open>Raised\<close> entry is an exception at that point (from \<^verbatim>\<open>pdfplumber.open\<close> when it is
  first, from a page, or from closing the file when it is last). The text read so far
  stays in the variable \<^verbatim>\<open>text\<close>; the flag says whether the block was left by an
  exception.
\<close>

fun plumber_loop :: "pystr \<Rightarrow> pystr option outcome list \<Rightarrow> pystr \<times> bool" where
  "plumber_loop text [] = (text, False)"
| "plumber_loop text (Raised # es) = (text, True)"
| "plumber_loop text (Returned None # es) = plumber_loop text es"
| "plumber_loop text (Returned (Some page_text) # es) =
     plumber_loop (if page_text \<noteq> [] then text @ page_text @ [10] else text) es"

text \<open>
  The PyPDF2 block appends \<^verbatim>\<open>page.extract_text() + "\n"\<close> for every page, to the same
  variable; a page whose text is \<^verbatim>\<open>None\<close> raises (\<^verbatim>\<open>None + "\n"\<close>).
\<close>

fun pypdf_loop :: "pystr \<Rightarrow> pystr option outcome list \<Rightarrow> pystr \<times> bool" where
  "pypdf_loop text [] = (text, False)"
| "pypdf_loop text (Raised # es) = (text, True)"
| "pypdf_loop text (Returned None # es) = (text, True)"
| "pypdf_loop text (Returned (Some page_text) # es) =
     pypdf_loop (text @ page_text @ [10]) es"

text \<open>\<^verbatim>\<open>str(n)\<close> for a natural number.\<close>

fun str_of_nat :: "nat \<Rightarrow> pystr" where
  "str_of_nat n = (if n < 10 then [48 + n] else str_of_nat (n div 10) @ [48 + n mod 10])"

text \<open>
  The OCR loop over the page images: a page whose recognition raises is skipped, a page
  with non-blank text adds \<^verbatim>\<open>f"PAGE {i+1}:\n{page_text}\n\n"\<close>.
\<close>

fun ocr_loop :: "nat \<Rightarrow> pystr \<Rightarrow> pystr outcome list \<Rightarrow> pystr" where
  "ocr_loop i ocr_text [] = ocr_text"
| "ocr_loop i ocr_text (Raised # images) = ocr_loop (i + 1) ocr_text images"
| "ocr_loop i ocr_text (Returned page_text # images) =
     ocr_loop (i + 1)
       (if strip page_text \<noteq> []
        then ocr_text @ lit ''PAGE '' @ str_of_nat (i + 1) @ lit '':'' @ [10] @ page_text @ [10, 10]
        else ocr_text)
       images"

text \<open>The test \<^verbatim>\<open>text.strip() and len(text.strip()) > n\<close>.\<close>

definition meaningful :: "nat \<Rightarrow> pystr \<Rightarrow> bool" where
  "meaningful n text \<longleftrightarrow> strip text \<noteq> [] \<and> length (strip text) > n"

text \<open>
  \<^verbatim>\<open>extract_pdf_text\<close>, given what pdfplumber, PyPDF2 and the OCR chain
  (\<^verbatim>\<open>convert_from_path\<close>, then \<^verbatim>\<open>image_to_string\<close> per image) do on the document.
\<close>

definition extract_pdf_text ::
  "pystr option outcome list \<Rightarrow> pystr option outcome list \<Rightarrow> pystr outcome list outcome
     \<Rightarrow> pystr outcome" where
  "extract_pdf_text plumber pypdf ocr =
     (case plumber_loop [] plumber of (text, raised) \<Rightarrow>
        if \<not> raised \<and> meaningful 100 text then Returned text
        else (case pypdf_loop text pypdf of (text, raised) \<Rightarrow>
          if \<not> raised \<and> meaningful 100 text then Returned text
          else (case ocr of
              Raised \<Rightarrow> Returned []
            | Returned images \<Rightarrow>
                (let ocr_text = ocr_loop 0 [] images
                 in if meaningful 50 ocr_text then Returned ocr_text else Returned []))))"

text \<open>
  When each strategy, taken by itself, produces acceptable text: it finishes without an
  exception and the text it read itself passes the test. \<open>pypdf_text\<close> is what PyPDF2 reads
  when the variable \<^verbatim>\<open>text\<close> is empty before its block.
\<close>

definition plumber_text :: "pystr option outcome list \<Rightarrow> pystr" where
  "plumber_text plumber = fst (plumber_loop [] plumber)"

definition plumber_accepts :: "pystr option outcome list \<Rightarrow> bool" where
  "plumber_accepts plumber \<longleftrightarrow>
     \<not> snd (plumber_loop [] plumber) \<and> meaningful 100 (plumber_text plumber)"

definition pypdf_text :: "pystr option outcome list \<Rightarrow> pystr" where
  "pypdf_text pypdf = fst (pypdf_loop [] pypdf)"

definition pypdf_accepts :: "pystr option outcome list \<Rightarrow> bool" where
  "pypdf_accepts pypdf \<longleftrightarrow>
     \<not> snd (pypdf_loop [] pypdf) \<and> meaningful 100 (pypdf_text pypdf)"

definition ocr_text_of :: "pystr outcome list outcome \<Rightarrow> pystr" where
  "ocr_text_of ocr = (case ocr of Raised \<Rightarrow> [] | Returned images \<Rightarrow> ocr_loop 0 [] images)"

definition ocr_accepts :: "pystr outcome list outcome \<Rightarrow> bool" where
  "ocr_accepts ocr \<longleftrightarrow> ocr \<noteq> Raised \<and> meaningful 50 (ocr_text_of ocr)"


text \<open>A document whose text layer is one page of 60 letters, for either parser.\<close>

definition short_pages :: "pystr option outcome list" where
  "short_pages = [Returned (Some (replicate 60 120))]"

section \<open>Checkpoint keys of the scraper\<close>

text \<open>
  \<^verbatim>\<open>v.strip()\<close> on an untyped value: only a string has the method, anything else raises
  \<^verbatim>\<open>AttributeError\<close>.
\<close>

definition val_strip :: "pyval \<Rightarrow> pystr outcome" where
  "val_strip v = (case v of PStr s \<Rightarrow> Returned (strip s) | _ \<Rightarrow> Raised)"

text \<open>
  The address normalisation both functions apply:
  \<^verbatim>\<open>" ".join(address.replace("\r\n", " ").replace("\n", " ").split())\<close>.
\<close>

definition normalize_address :: "pystr \<Rightarrow> pystr" where
  "normalize_address address =
     str_join [32] (py_split (str_replace [10] [32] (str_replace [13, 10] [32] address)))"

text \<open>
  \<^verbatim>\<open>create_checkpoint_key(snap)\<close>. \<open>snap\<close> is a dictionary; a key that is absent reads as
  \<^verbatim>\<open>""\<close> (as \<^verbatim>\<open>False\<close> for \<^verbatim>\<open>pdf_downloaded\<close>). The caller compares keys as
  \<^verbatim>\<open>tuple(sorted(key.items()))\<close>; all keys list the same six entries, so two such tuples
  are equal exactly when the dictionaries below are.
\<close>

definition create_checkpoint_key :: "pydict \<Rightarrow> pydict outcome" where
  "create_checkpoint_key snap =
     (case val_strip (dict_get snap (lit ''address'') (PStr [])) of
        Raised \<Rightarrow> Raised
      | Returned address \<Rightarrow>
     (let address = normalize_address address in
      case val_strip (dict_get snap (lit ''city'') (PStr [])) of
        Raised \<Rightarrow> Raised
      | Returned city \<Rightarrow>
     (case val_strip (dict_get snap (lit ''sale_date'') (PStr [])) of
        Raised \<Rightarrow> Raised
      | Returned sale_date_v \<Rightarrow>
     (case val_strip (dict_get snap (lit ''file_date'') (PStr [])) of
        Raised \<Rightarrow> Raised
      | Returned file_date \<Rightarrow>
     (case val_strip (dict_get snap (lit ''property_type'') (PStr [])) of
        Raised \<Rightarrow> Raised
      | Returned property_type \<Rightarrow>
          Returned
            [(lit ''address'', PStr address),
             (lit ''city'', PStr city),
             (lit ''sale_date'', PStr sale_date_v),
             (lit ''file_date'', PStr file_date),
             (lit ''property_type'', PStr property_type),
             (lit ''pdf_downloaded'', dict_get snap (lit ''pdf_downloaded'') (PBool False))])))))"

text \<open>
  What \<^verbatim>\<open>load_processed_checkpoints\<close> does to one stored checkpoint \<open>cp\<close> (a non-empty
  dictionary): a truthy \<^verbatim>\<open>address\<close> is normalised again and stored back. A truthy address
  that is no string has no \<^verbatim>\<open>replace\<close> and raises.
\<close>

definition load_normalize :: "pydict \<Rightarrow> pydict outcome" where
  "load_normalize cp =
     (case map_of cp (lit ''address'') of
        None \<Rightarrow> Returned cp
      | Some address \<Rightarrow>
          if truthy address then
            (case address of
               PStr a \<Rightarrow> Returned (AList.update (lit ''address'') (PStr (normalize_address a)) cp)
             | _ \<Rightarrow> Raised)
          else Returned cp)"

text \<open>The fingerprint of a listing that has only an address.\<close>

definition fingerprint :: "pystr \<Rightarrow> pydict outcome" where
  "fingerprint address = create_checkpoint_key [(lit ''address'', PStr address)]"

section \<open>The ledger of processed documents\<close>

text \<open>
  \<^verbatim>\<open>ForeClosureJSONUpdater\<close> keeps the set \<^verbatim>\<open>processed_pdfs\<close> in memory and two JSON files.
  A file is described by what reading it gives: it is missing, it cannot be read (opening
  or parsing raises), or it holds a value. For the checkpoint file the value is the set
  that \<^verbatim>\<open>set(data.get('processed_pdfs', []))\<close> builds from it; for the file of parsed
  records it is the parsed JSON.
\<close>

datatype 'a json_file = Missing | Unreadable | Holds 'a

text \<open>
  A write (\<^verbatim>\<open>open(path, 'w')\<close>, then \<^verbatim>\<open>json.dump\<close>) succeeds, fails before the file is
  touched, or fails after the file was truncated.
\<close>

datatype write_result = Written | OpenFailed | Truncated

record updater =
  processed_pdfs :: "pyval set"
  checkpoint_file :: "pyval set json_file"
  parsed_data_file :: "pyval json_file"

definition load_checkpoints :: "updater \<Rightarrow> pyval set" where
  "load_checkpoints self =
     (case checkpoint_file self of Holds data \<Rightarrow> data | Missing \<Rightarrow> {} | Unreadable \<Rightarrow> {})"

text \<open>\<^verbatim>\<open>__init__\<close> on two existing files.\<close>

definition new_updater :: "pyval json_file \<Rightarrow> pyval set json_file \<Rightarrow> updater" where
  "new_updater parsed checkpoints =
     (let self = \<lparr>processed_pdfs = {}, checkpoint_file = checkpoints, parsed_data_file = parsed\<rparr>
      in self\<lparr>processed_pdfs := load_checkpoints self\<rparr>)"

text \<open>\<^verbatim>\<open>save_checkpoints\<close> has no handler: a failed write raises.\<close>

definition save_checkpoints :: "write_result \<Rightarrow> updater \<Rightarrow> unit outcome \<times> updater" where
  "save_checkpoints w self =
     (case w of
        Written \<Rightarrow> (Returned (), self\<lparr>checkpoint_file := Holds (processed_pdfs self)\<rparr>)
      | OpenFailed \<Rightarrow> (Raised, self)
      | Truncated \<Rightarrow> (Raised, self\<lparr>checkpoint_file := Unreadable\<rparr>))"

definition load_parsed_data :: "updater \<Rightarrow> pyval" where
  "load_parsed_data self =
     (case parsed_data_file self of Holds data \<Rightarrow> data | Missing \<Rightarrow> PList [] | Unreadable \<Rightarrow> PList [])"

text \<open>\<^verbatim>\<open>save_parsed_data\<close> catches and prints a failed write.\<close>

definition save_parsed_data :: "write_result \<Rightarrow> pyval \<Rightarrow> updater \<Rightarrow> updater" where
  "save_parsed_data w data self =
     (case w of
        Written \<Rightarrow> self\<lparr>parsed_data_file := Holds data\<rparr>
      | OpenFailed \<Rightarrow> self
      | Truncated \<Rightarrow> self\<lparr>parsed_data_file := Unreadable\<rparr>)"

text \<open>
  Iterating over a JSON value (\<^verbatim>\<open>for record in parsed_records\<close>): a list gives its
  elements, a string its characters, a dictionary its keys; anything else raises.
\<close>

definition py_iter :: "pyval \<Rightarrow> pyval list outcome" where
  "py_iter v =
     (case v of
        PList xs \<Rightarrow> Returned xs
      | PStr s \<Rightarrow> Returned (map (\<lambda>c. PStr [c]) s)
      | PDict d \<Rightarrow> Returned (map (\<lambda>kv. PStr (fst kv)) d)
      | _ \<Rightarrow> Raised)"

text \<open>
  The loop of \<^verbatim>\<open>check_if_already_parsed\<close>: \<^verbatim>\<open>record.get('detail_id') == detail_id\<close>; a
  record that is no dictionary has no \<^verbatim>\<open>get\<close>.
\<close>

fun find_detail_id :: "pystr \<Rightarrow> pyval list \<Rightarrow> bool outcome" where
  "find_detail_id detail_id [] = Returned False"
| "find_detail_id detail_id (PDict r # records) =
     (if dict_get0 r (lit ''detail_id'') = PStr detail_id then Returned True
      else find_detail_id detail_id records)"
| "find_detail_id detail_id (_ # records) = Raised"

definition check_if_already_parsed :: "ForeClosureData \<Rightarrow> pyval \<Rightarrow> bool outcome" where
  "check_if_already_parsed foreclosure_data parsed_records =
     (let pdf_filename = source_pdf_file foreclosure_data in
      if \<not> truthy pdf_filename then Returned False
      else (case pdf_filename of
          PStr name \<Rightarrow>
            (case py_iter parsed_records of
               Raised \<Rightarrow> Raised
             | Returned records \<Rightarrow> find_detail_id (str_replace (lit ''.pdf'') [] name) records)
        | _ \<Rightarrow> Raised))"

text \<open>Only lists and dictionaries among these values cannot be put into a set.\<close>

definition hashable :: "pyval \<Rightarrow> bool" where
  "hashable v = (case v of PList _ \<Rightarrow> False | PDict _ \<Rightarrow> False | _ \<Rightarrow> True)"

text \<open>
  \<^verbatim>\<open>save_parsed_pdf_data\<close>. \<^verbatim>\<open>create_parsed_record\<close> builds the record from its argument and
  the clock and touches neither the set nor the files; it is the parameter \<open>create\<close>,
  which may return any record or raise. The two writes are \<open>w_data\<close> and \<open>w_ckpt\<close>. The
  result is the returned flag and the updater afterwards; every exception in the body is
  caught and gives \<^verbatim>\<open>False\<close>.
\<close>

definition save_parsed_pdf_data ::
  "(ForeClosureData \<Rightarrow> pyval outcome) \<Rightarrow> write_result \<Rightarrow> write_result \<Rightarrow> ForeClosureData
     \<Rightarrow> updater \<Rightarrow> bool \<times> updater" where
  "save_parsed_pdf_data create w_data w_ckpt foreclosure_data self =
     (let parsed_records = load_parsed_data self in
      case check_if_already_parsed foreclosure_data parsed_records of
        Raised \<Rightarrow> (False, self)
      | Returned True \<Rightarrow> (True, self)
      | Returned False \<Rightarrow>
          (case create foreclosure_data of
             Raised \<Rightarrow> (False, self)
           | Returned parsed_record \<Rightarrow>
               (case parsed_records of
                  PList records \<Rightarrow>
                    (let self = save_parsed_data w_data (PList (records @ [parsed_record])) self in
                     if \<not> hashable (source_pdf_file foreclosure_data) then (False, self)
                     else
                       (let self = self\<lparr>processed_pdfs :=
                              insert (source_pdf_file foreclosure_data) (processed_pdfs self)\<rparr>
                        in case save_checkpoints w_ckpt self of
                             (Raised, self) \<Rightarrow> (False, self)
                           | (Returned _, self) \<Rightarrow> (True, self)))
                | _ \<Rightarrow> (False, self))))"

text \<open>
  The operations on the ledger, and a run of them. The program loads the checkpoints in one
  place only, the constructor, which replaces the set by what the file gives: \<open>Reopen\<close> is
  a new updater constructed on the two files as they are. \<^verbatim>\<open>load_parsed_data\<close> returns a
  value and changes nothing.
\<close>

datatype ledger_op =
    Reopen
  | Save_checkpoints write_result
  | Load_parsed_data
  | Save_parsed_data write_result pyval
  | Save_parsed_pdf_data write_result write_result ForeClosureData

fun ledger_step :: "(ForeClosureData \<Rightarrow> pyval outcome) \<Rightarrow> updater \<Rightarrow> ledger_op \<Rightarrow> updater" where
  "ledger_step create self Reopen = new_updater (parsed_data_file self) (checkpoint_file self)"
| "ledger_step create self (Save_checkpoints w) = snd (save_checkpoints w self)"
| "ledger_step create self Load_parsed_data = self"
| "ledger_step create self (Save_parsed_data w data) = save_parsed_data w data self"
| "ledger_step create self (Save_parsed_pdf_data w_data w_ckpt foreclosure_data) =
     snd (save_parsed_pdf_data create w_data w_ckpt foreclosure_data self)"

definition ledger_run :: "(ForeClosureData \<Rightarrow> pyval outcome) \<Rightarrow> updater \<Rightarrow> ledger_op list \<Rightarrow> updater" where
  "ledger_run create self ops = foldl (ledger_step create) self ops"

text \<open>
  An operation that does not reload, an operation whose checkpoint write (if it has one)
  succeeds, and an updater whose set is contained in what its checkpoint file gives.
\<close>

definition keeps_instance :: "ledger_op \<Rightarrow> bool" where
  "keeps_instance op = (case op of Reopen \<Rightarrow> False | _ \<Rightarrow> True)"

definition checkpoint_written :: "ledger_op \<Rightarrow> bool" where
  "checkpoint_written op =
     (case op of
        Save_checkpoints w \<Rightarrow> w = Written
      | Save_parsed_pdf_data w_data w_ckpt foreclosure_data \<Rightarrow> w_ckpt = Written
      | _ \<Rightarrow> True)"

definition synced :: "updater \<Rightarrow> bool" where
  "synced self \<longleftrightarrow> processed_pdfs self \<subseteq> load_checkpoints self"

text \<open>A parsed document with a file name, and a \<^verbatim>\<open>create_parsed_record\<close> that returns.\<close>

definition document_named :: "string \<Rightarrow> ForeClosureData" where
  "document_named name = default_args\<lparr>source_pdf_file := PStr (lit name)\<rparr>"

definition plain_record :: "ForeClosureData \<Rightarrow> pyval outcome" where
  "plain_record foreclosure_data = Returned (PDict [])"

text \<open>The query of \<^verbatim>\<open>get_unprocessed_pdfs\<close>: \<^verbatim>\<open>filename in self.updater.processed_pdfs\<close>.\<close>

definition is_processed :: "updater \<Rightarrow> pyval \<Rightarrow> bool" where
  "is_processed self filename \<longleftrightarrow> filename \<in> processed_pdfs self"

text \<open>
  The scraper's ledger (\<^verbatim>\<open>scrape_all\<close> of the backup script): the set
  \<^verbatim>\<open>processed_checkpoints\<close> and its file. One listing is marked by
  \<^verbatim>\<open>processed_checkpoints.add(key)\<close> followed by \<^verbatim>\<open>save_checkpoint\<close>, which has no handler.
\<close>

record scraper =
  processed_checkpoints :: "pydict set"
  checkpoints_stored :: "pydict set json_file"

definition save_checkpoint :: "write_result \<Rightarrow> scraper \<Rightarrow> unit outcome \<times> scraper" where
  "save_checkpoint w st =
     (case w of
        Written \<Rightarrow> (Returned (), st\<lparr>checkpoints_stored := Holds (processed_checkpoints st)\<rparr>)
      | OpenFailed \<Rightarrow> (Raised, st)
      | Truncated \<Rightarrow> (Raised, st\<lparr>checkpoints_stored := Unreadable\<rparr>))"

definition mark_listing :: "write_result \<Rightarrow> pydict \<Rightarrow> scraper \<Rightarrow> unit outcome \<times> scraper" where
  "mark_listing w snap st =
     (case create_checkpoint_key snap of
        Raised \<Rightarrow> (Raised, st)
      | Returned updated_checkpoint_key \<Rightarrow>
          save_checkpoint w
            (st\<lparr>processed_checkpoints := insert updated_checkpoint_key (processed_checkpoints st)\<rparr>))"

section \<open>Regular expressions\<close>

text \<open>
  The patterns of the parser are values of \<open>regex\<close>, and \<open>re_match\<close> is a backtracking
  matcher with the priorities of Python's \<^verbatim>\<open>re\<close>: alternatives left to right, greedy
  repetitions longest first, lazy ones shortest first, the first success wins. The
  patterns are strings, so the character classes are the Unicode ones: \<^verbatim>\<open>\d\<close> is a decimal
  digit, \<^verbatim>\<open>\w\<close> an alphanumeric character or the underscore, \<^verbatim>\<open>\s\<close> is \<open>is_space\<close>.
\<close>

datatype citem = Ch nat | Rng nat nat | Digit | Space | Word

definition ascii_lower :: "nat \<Rightarrow> nat" where
  "ascii_lower c = (if 65 \<le> c \<and> c \<le> 90 then c + 32 else c)"

definition ascii_upper :: "nat \<Rightarrow> nat" where
  "ascii_upper c = (if 97 \<le> c \<and> c \<le> 122 then c - 32 else c)"

text \<open>
  With \<^verbatim>\<open>IGNORECASE\<close> the matcher compares the lower-case form of the character of the text.
  For the ASCII letters of a pattern that is: the two cases of the letter, and also U+0130
  and U+0131 for \<^verbatim>\<open>i\<close>, U+017F for \<^verbatim>\<open>s\<close> and U+212A for \<^verbatim>\<open>k\<close>. The patterns of the program
  are ASCII.
\<close>

definition fold_case :: "nat \<Rightarrow> nat" where
  "fold_case c =
     (if c = 304 \<or> c = 305 then 105 else if c = 383 then 115 else if c = 8490 then 107
      else ascii_lower c)"

text \<open>
  The characters of \<^verbatim>\<open>\d\<close> and \<^verbatim>\<open>\w\<close> above the ASCII range (Unicode 14, as ranges of code
  points): the decimal digits, which come in runs of ten from the digit zero on, and the
  alphanumeric characters.
\<close>

definition unicode_decimal_ranges :: "(nat \<times> nat) list" where
  "unicode_decimal_ranges =
     [(1632, 1641), (1776, 1785), (1984, 1993), (2406, 2415), (2534, 2543), (2662, 2671),
      (2790, 2799), (2918, 2927), (3046, 3055), (3174, 3183), (3302, 3311), (3430, 3439),
      (3558, 3567), (3664, 3673), (3792, 3801), (3872, 3881), (4160, 4169), (4240, 4249),
      (6112, 6121), (6160, 6169), (6470, 6479), (6608, 6617), (6784, 6793), (6800, 6809),
      (6992, 7001), (7088, 7097), (7232, 7241), (7248, 7257), (42528, 42537), (43216, 43225),
      (43264, 43273), (43472, 43481), (43504, 43513), (43600, 43609), (44016, 44025),
      (65296, 65305), (66720, 66729), (68912, 68921), (69734, 69743), (69872, 69881),
      (69942, 69951), (70096, 70105), (70384, 70393), (70736, 70745), (70864, 70873),
      (71248, 71257), (71360, 71369), (71472, 71481), (71904, 71913), (72016, 72025),
      (72784, 72793), (73040, 73049), (73120, 73129), (92768, 92777), (92864, 92873),
      (93008, 93017), (120782, 120831), (123200, 123209), (123632, 123641), (125264, 125273),
      (130032, 130041)]"

definition unicode_word_ranges :: "(nat \<times> nat) list" where
  "unicode_word_ranges =
     [(170, 170), (178, 179), (181, 181), (185, 186), (188, 190), (192, 214), (216, 246),
      (248, 705), (710, 721), (736, 740), (748, 748), (750, 750), (880, 884), (886, 887),
      (890, 893), (895, 895), (902, 902), (904, 906), (908, 908), (910, 929), (931, 1013),
      (1015, 1153), (1162, 1327), (1329, 1366), (1369, 1369), (1376, 1416), (1488, 1514),
      (1519, 1522), (1568, 1610), (1632, 1641), (1646, 1647), (1649, 1747), (1749, 1749),
      (1765, 1766), (1774, 1788), (1791, 1791), (1808, 1808), (1810, 1839), (1869, 1957),
      (1969, 1969), (1984, 2026), (2036, 2037), (2042, 2042), (2048, 2069), (2074, 2074),
      (2084, 2084), (2088, 2088), (2112, 2136), (2144, 2154), (2160, 2183), (2185, 2190),
      (2208, 2249), (2308, 2361), (2365, 2365), (2384, 2384), (2392, 2401), (2406, 2415),
      (2417, 2432), (2437, 2444), (2447, 2448), (2451, 2472), (2474, 2480), (2482, 2482),
      (2486, 2489), (2493, 2493), (2510, 2510), (2524, 2525), (2527, 2529), (2534, 2545),
      (2548, 2553), (2556, 2556), (2565, 2570), (2575, 2576), (2579, 2600), (2602, 2608),
      (2610, 2611), (2613, 2614), (2616, 2617), (2649, 2652), (2654, 2654), (2662, 2671),
      (2674, 2676), (2693, 2701), (2703, 2705), (2707, 2728), (2730, 2736), (2738, 2739),
      (2741, 2745), (2749, 2749), (2768, 2768), (2784, 2785), (2790, 2799), (2809, 2809),
      (2821, 2828), (2831, 2832), (2835, 2856), (2858, 2864), (2866, 2867), (2869, 2873),
      (2877, 2877), (2908, 2909), (2911, 2913), (2918, 2927), (2929, 2935), (2947, 2947),
      (2949, 2954), (2958, 2960), (2962, 2965), (2969, 2970), (2972, 2972), (2974, 2975),
      (2979, 2980), (2984, 2986), (2990, 3001), (3024, 3024), (3046, 3058), (3077, 3084),
      (3086, 3088), (3090, 3112), (3114, 3129), (3133, 3133), (3160, 3162), (3165, 3165),
      (3168, 3169), (3174, 3183), (3192, 3198), (3200, 3200), (3205, 3212), (3214, 3216),
      (3218, 3240), (3242, 3251), (3253, 3257), (3261, 3261), (3293, 3294), (3296, 3297),
      (3302, 3311), (3313, 3314), (3332, 3340), (3342, 3344), (3346, 3386), (3389, 3389),
      (3406, 3406), (3412, 3414), (3416, 3425), (3430, 3448), (3450, 3455), (3461, 3478),
      (3482, 3505), (3507, 3515), (3517, 3517), (3520, 3526), (3558, 3567), (3585, 3632),
      (3634, 3635), (3648, 3654), (3664, 3673), (3713, 3714), (3716, 3716), (3718, 3722),
      (3724, 3747), (3749, 3749), (3751, 3760), (3762, 3763), (3773, 3773), (3776, 3780),
      (3782, 3782), (3792, 3801), (3804, 3807), (3840, 3840), (3872, 3891), (3904, 3911),
      (3913, 3948), (3976, 3980), (4096, 4138), (4159, 4169), (4176, 4181), (4186, 4189),
      (4193, 4193), (4197, 4198), (4206, 4208), (4213, 4225), (4238, 4238), (4240, 4249),
      (4256, 4293), (4295, 4295), (4301, 4301), (4304, 4346), (4348, 4680), (4682, 4685),
      (4688, 4694), (4696, 4696), (4698, 4701), (4704, 4744), (4746, 4749), (4752, 4784),
      (4786, 4789), (4792, 4798), (4800, 4800), (4802, 4805), (4808, 4822), (4824, 4880),
      (4882, 4885), (4888, 4954), (4969, 4988), (4992, 5007), (5024, 5109), (5112, 5117),
      (5121, 5740), (5743, 5759), (5761, 5786), (5792, 5866), (5870, 5880), (5888, 5905),
      (5919, 5937), (5952, 5969), (5984, 5996), (5998, 6000), (6016, 6067), (6103, 6103),
      (6108, 6108), (6112, 6121), (6128, 6137), (6160, 6169), (6176, 6264), (6272, 6276),
      (6279, 6312), (6314, 6314), (6320, 6389), (6400, 6430), (6470, 6509), (6512, 6516),
      (6528, 6571), (6576, 6601), (6608, 6618), (6656, 6678), (6688, 6740), (6784, 6793),
      (6800, 6809), (6823, 6823), (6917, 6963), (6981, 6988), (6992, 7001), (7043, 7072),
      (7086, 7141), (7168, 7203), (7232, 7241), (7245, 7293), (7296, 7304), (7312, 7354),
      (7357, 7359), (7401, 7404), (7406, 7411), (7413, 7414), (7418, 7418), (7424, 7615),
      (7680, 7957), (7960, 7965), (7968, 8005), (8008, 8013), (8016, 8023), (8025, 8025),
      (8027, 8027), (8029, 8029), (8031, 8061), (8064, 8116), (8118, 8124), (8126, 8126),
      (8130, 8132), (8134, 8140), (8144, 8147), (8150, 8155), (8160, 8172), (8178, 8180),
      (8182, 8188), (8304, 8305), (8308, 8313), (8319, 8329), (8336, 8348), (8450, 8450),
      (8455, 8455), (8458, 8467), (8469, 8469), (8473, 8477), (8484, 8484), (8486, 8486),
      (8488, 8488), (8490, 8493), (8495, 8505), (8508, 8511), (8517, 8521), (8526, 8526),
      (8528, 8585), (9312, 9371), (9450, 9471), (10102, 10131), (11264, 11492), (11499, 11502),
      (11506, 11507), (11517, 11517), (11520, 11557), (11559, 11559), (11565, 11565),
      (11568, 11623), (11631, 11631), (11648, 11670), (11680, 11686), (11688, 11694),
      (11696, 11702), (11704, 11710), (11712, 11718), (11720, 11726), (11728, 11734),
      (11736, 11742), (11823, 11823), (12293, 12295), (12321, 12329), (12337, 12341),
      (12344, 12348), (12353, 12438), (12445, 12447), (12449, 12538), (12540, 12543),
      (12549, 12591), (12593, 12686), (12690, 12693), (12704, 12735), (12784, 12799),
      (12832, 12841), (12872, 12879), (12881, 12895), (12928, 12937), (12977, 12991),
      (13312, 19903), (19968, 42124), (42192, 42237), (42240, 42508), (42512, 42539),
      (42560, 42606), (42623, 42653), (42656, 42735), (42775, 42783), (42786, 42888),
      (42891, 42954), (42960, 42961), (42963, 42963), (42965, 42969), (42994, 43009),
      (43011, 43013), (43015, 43018), (43020, 43042), (43056, 43061), (43072, 43123),
      (43138, 43187), (43216, 43225), (43250, 43255), (43259, 43259), (43261, 43262),
      (43264, 43301), (43312, 43334), (43360, 43388), (43396, 43442), (43471, 43481),
      (43488, 43492), (43494, 43518), (43520, 43560), (43584, 43586), (43588, 43595),
      (43600, 43609), (43616, 43638), (43642, 43642), (43646, 43695), (43697, 43697),
      (43701, 43702), (43705, 43709), (43712, 43712), (43714, 43714), (43739, 43741),
      (43744, 43754), (43762, 43764), (43777, 43782), (43785, 43790), (43793, 43798),
      (43808, 43814), (43816, 43822), (43824, 43866), (43868, 43881), (43888, 44002),
      (44016, 44025), (44032, 55203), (55216, 55238), (55243, 55291), (63744, 64109),
      (64112, 64217), (64256, 64262), (64275, 64279), (64285, 64285), (64287, 64296),
      (64298, 64310), (64312, 64316), (64318, 64318), (64320, 64321), (64323, 64324),
      (64326, 64433), (64467, 64829), (64848, 64911), (64914, 64967), (65008, 65019),
      (65136, 65140), (65142, 65276), (65296, 65305), (65313, 65338), (65345, 65370),
      (65382, 65470), (65474, 65479), (65482, 65487), (65490, 65495), (65498, 65500),
      (65536, 65547), (65549, 65574), (65576, 65594), (65596, 65597), (65599, 65613),
      (65616, 65629), (65664, 65786), (65799, 65843), (65856, 65912), (65930, 65931),
      (66176, 66204), (66208, 66256), (66273, 66299), (66304, 66339), (66349, 66378),
      (66384, 66421), (66432, 66461), (66464, 66499), (66504, 66511), (66513, 66517),
      (66560, 66717), (66720, 66729), (66736, 66771), (66776, 66811), (66816, 66855),
      (66864, 66915), (66928, 66938), (66940, 66954), (66956, 66962), (66964, 66965),
      (66967, 66977), (66979, 66993), (66995, 67001), (67003, 67004), (67072, 67382),
      (67392, 67413), (67424, 67431), (67456, 67461), (67463, 67504), (67506, 67514),
      (67584, 67589), (67592, 67592), (67594, 67637), (67639, 67640), (67644, 67644),
      (67647, 67669), (67672, 67702), (67705, 67742), (67751, 67759), (67808, 67826),
      (67828, 67829), (67835, 67867), (67872, 67897), (67968, 68023), (68028, 68047),
      (68050, 68096), (68112, 68115), (68117, 68119), (68121, 68149), (68160, 68168),
      (68192, 68222), (68224, 68255), (68288, 68295), (68297, 68324), (68331, 68335),
      (68352, 68405), (68416, 68437), (68440, 68466), (68472, 68497), (68521, 68527),
      (68608, 68680), (68736, 68786), (68800, 68850), (68858, 68899), (68912, 68921),
      (69216, 69246), (69248, 69289), (69296, 69297), (69376, 69415), (69424, 69445),
      (69457, 69460), (69488, 69505), (69552, 69579), (69600, 69622), (69635, 69687),
      (69714, 69743), (69745, 69746), (69749, 69749), (69763, 69807), (69840, 69864),
      (69872, 69881), (69891, 69926), (69942, 69951), (69956, 69956), (69959, 69959),
      (69968, 70002), (70006, 70006), (70019, 70066), (70081, 70084), (70096, 70106),
      (70108, 70108), (70113, 70132), (70144, 70161), (70163, 70187), (70272, 70278),
      (70280, 70280), (70282, 70285), (70287, 70301), (70303, 70312), (70320, 70366),
      (70384, 70393), (70405, 70412), (70415, 70416), (70419, 70440), (70442, 70448),
      (70450, 70451), (70453, 70457), (70461, 70461), (70480, 70480), (70493, 70497),
      (70656, 70708), (70727, 70730), (70736, 70745), (70751, 70753), (70784, 70831),
      (70852, 70853), (70855, 70855), (70864, 70873), (71040, 71086), (71128, 71131),
      (71168, 71215), (71236, 71236), (71248, 71257), (71296, 71338), (71352, 71352),
      (71360, 71369), (71424, 71450), (71472, 71483), (71488, 71494), (71680, 71723),
      (71840, 71922), (71935, 71942), (71945, 71945), (71948, 71955), (71957, 71958),
      (71960, 71983), (71999, 71999), (72001, 72001), (72016, 72025), (72096, 72103),
      (72106, 72144), (72161, 72161), (72163, 72163), (72192, 72192), (72203, 72242),
      (72250, 72250), (72272, 72272), (72284, 72329), (72349, 72349), (72368, 72440),
      (72704, 72712), (72714, 72750), (72768, 72768), (72784, 72812), (72818, 72847),
      (72960, 72966), (72968, 72969), (72971, 73008), (73030, 73030), (73040, 73049),
      (73056, 73061), (73063, 73064), (73066, 73097), (73112, 73112), (73120, 73129),
      (73440, 73458), (73648, 73648), (73664, 73684), (73728, 74649), (74752, 74862),
      (74880, 75075), (77712, 77808), (77824, 78894), (82944, 83526), (92160, 92728),
      (92736, 92766), (92768, 92777), (92784, 92862), (92864, 92873), (92880, 92909),
      (92928, 92975), (92992, 92995), (93008, 93017), (93019, 93025), (93027, 93047),
      (93053, 93071), (93760, 93846), (93952, 94026), (94032, 94032), (94099, 94111),
      (94176, 94177), (94179, 94179), (94208, 100343), (100352, 101589), (101632, 101640),
      (110576, 110579), (110581, 110587), (110589, 110590), (110592, 110882), (110928, 110930),
      (110948, 110951), (110960, 111355), (113664, 113770), (113776, 113788), (113792, 113800),
      (113808, 113817), (119520, 119539), (119648, 119672), (119808, 119892), (119894, 119964),
      (119966, 119967), (119970, 119970), (119973, 119974), (119977, 119980), (119982, 119993),
      (119995, 119995), (119997, 120003), (120005, 120069), (120071, 120074), (120077, 120084),
      (120086, 120092), (120094, 120121), (120123, 120126), (120128, 120132), (120134, 120134),
      (120138, 120144), (120146, 120485), (120488, 120512), (120514, 120538), (120540, 120570),
      (120572, 120596), (120598, 120628), (120630, 120654), (120656, 120686), (120688, 120712),
      (120714, 120744), (120746, 120770), (120772, 120779), (120782, 120831), (122624, 122654),
      (123136, 123180), (123191, 123197), (123200, 123209), (123214, 123214), (123536, 123565),
      (123584, 123627), (123632, 123641), (124896, 124902), (124904, 124907), (124909, 124910),
      (124912, 124926), (124928, 125124), (125127, 125135), (125184, 125251), (125259, 125259),
      (125264, 125273), (126065, 126123), (126125, 126127), (126129, 126132), (126209, 126253),
      (126255, 126269), (126464, 126467), (126469, 126495), (126497, 126498), (126500, 126500),
      (126503, 126503), (126505, 126514), (126516, 126519), (126521, 126521), (126523, 126523),
      (126530, 126530), (126535, 126535), (126537, 126537), (126539, 126539), (126541, 126543),
      (126545, 126546), (126548, 126548), (126551, 126551), (126553, 126553), (126555, 126555),
      (126557, 126557), (126559, 126559), (126561, 126562), (126564, 126564), (126567, 126570),
      (126572, 126578), (126580, 126583), (126585, 126588), (126590, 126590), (126592, 126601),
      (126603, 126619), (126625, 126627), (126629, 126633), (126635, 126651), (127232, 127244),
      (130032, 130041), (131072, 173791), (173824, 177976), (177984, 178205), (178208, 183969),
      (183984, 191456), (194560, 195101), (196608, 201546)]"

definition in_ranges :: "(nat \<times> nat) list \<Rightarrow> nat \<Rightarrow> bool" where
  "in_ranges rs c = list_ex (\<lambda>r. fst r \<le> c \<and> c \<le> snd r) rs"

fun in_item :: "citem \<Rightarrow> nat \<Rightarrow> bool" where
  "in_item (Ch a) c = (c = a)"
| "in_item (Rng a b) c = (a \<le> c \<and> c \<le> b)"
| "in_item Digit c =
     (if c < 128 then 48 \<le> c \<and> c \<le> 57 else in_ranges unicode_decimal_ranges c)"
| "in_item Space c = is_space c"
| "in_item Word c =
     (if c < 128
      then (48 \<le> c \<and> c \<le> 57) \<or> (65 \<le> c \<and> c \<le> 90) \<or> (97 \<le> c \<and> c \<le> 122) \<or> c = 95
      else in_ranges unicode_word_ranges c)"

text \<open>
  Membership in a character class \<^verbatim>\<open>[...]\<close> (\<open>neg\<close> for \<^verbatim>\<open>[^...]\<close>); with \<^verbatim>\<open>IGNORECASE\<close> a
  character is in the class when its lower-case form is, or the upper-case form of that.
\<close>

definition in_class :: "bool \<Rightarrow> bool \<Rightarrow> citem list \<Rightarrow> nat \<Rightarrow> bool" where
  "in_class ic neg items c \<longleftrightarrow>
     neg \<noteq> list_ex (\<lambda>i. in_item i c \<or>
                             (ic \<and> (in_item i (fold_case c) \<or> in_item i (ascii_upper (fold_case c)))))
             items"

text \<open>
  \<open>Rep m n greedy r\<close> is \<^verbatim>\<open>r{m,n}\<close> (\<open>None\<close> for no upper bound), \<open>Grp n r\<close> the capturing
  group number \<open>n\<close>, \<open>Ahead\<close> a lookahead and \<open>Behind\<close> a lookbehind of one character
  class (the flag says positive), \<open>Bol\<close> and \<open>Eol\<close> are \<^verbatim>\<open>^\<close> and \<^verbatim>\<open>$\<close>.
\<close>

datatype regex =
    Lit pystr
  | Cls bool "citem list"
  | Dot
  | Cat regex regex
  | Alt regex regex
  | Rep nat "nat option" bool regex
  | Grp nat regex
  | Ahead bool regex
  | Behind bool "citem list"
  | Bol
  | Eol

record flags =
  ignorecase :: bool
  multiline :: bool
  dotall :: bool

text \<open>
  A matcher state: the text before the current position (reversed), the text from it on,
  and the groups captured so far (the latest capture of a group first).
\<close>

type_synonym mstate = "pystr \<times> pystr \<times> (nat \<times> pystr) list"

fun lit_prefix :: "bool \<Rightarrow> pystr \<Rightarrow> pystr \<Rightarrow> pystr option" where
  "lit_prefix ic [] text = Some text"
| "lit_prefix ic (c # cs) [] = None"
| "lit_prefix ic (c # cs) (t # ts) =
     (if (if ic then fold_case c = fold_case t else c = t) then lit_prefix ic cs ts else None)"

text \<open>
  \<open>re_match fl r k st\<close> matches \<open>r\<close> at \<open>st\<close> and hands every way of doing so, in priority
  order, to the continuation \<open>k\<close> until one succeeds. An iteration of a repetition has to
  consume a character (none of the repeated expressions below can match the empty string).
\<close>

function (sequential) re_match ::
    "flags \<Rightarrow> regex \<Rightarrow> (mstate \<Rightarrow> mstate option) \<Rightarrow> mstate \<Rightarrow> mstate option"
  and re_rep ::
    "flags \<Rightarrow> regex \<Rightarrow> nat \<Rightarrow> nat option \<Rightarrow> bool \<Rightarrow> nat \<Rightarrow> (mstate \<Rightarrow> mstate option)
       \<Rightarrow> mstate \<Rightarrow> mstate option" where
  "re_match fl (Lit s) k (b, text, caps) =
     (case lit_prefix (ignorecase fl) s text of
        None \<Rightarrow> None
      | Some text' \<Rightarrow> k (rev (take (length s) text) @ b, text', caps))"
| "re_match fl (Cls neg items) k (b, [], caps) = None"
| "re_match fl (Cls neg items) k (b, c # cs, caps) =
     (if in_class (ignorecase fl) neg items c then k (c # b, cs, caps) else None)"
| "re_match fl Dot k (b, [], caps) = None"
| "re_match fl Dot k (b, c # cs, caps) =
     (if dotall fl \<or> c \<noteq> 10 then k (c # b, cs, caps) else None)"
| "re_match fl (Cat r1 r2) k st = re_match fl r1 (\<lambda>st'. re_match fl r2 k st') st"
| "re_match fl (Alt r1 r2) k st =
     (case re_match fl r1 k st of Some m \<Rightarrow> Some m | None \<Rightarrow> re_match fl r2 k st)"
| "re_match fl (Rep mn mx greedy r) k st = re_rep fl r mn mx greedy 0 k st"
| "re_match fl (Grp n r) k (b, text, caps) =
     re_match fl r
       (\<lambda>(b', text', caps'). k (b', text', (n, take (length text - length text') text) # caps'))
       (b, text, caps)"
| "re_match fl (Ahead positive r) k (b, text, caps) =
     (case re_match fl r Some (b, text, caps) of
        Some (b', text', caps') \<Rightarrow> if positive then k (b, text, caps') else None
      | None \<Rightarrow> if positive then None else k (b, text, caps))"
| "re_match fl (Behind positive items) k (b, text, caps) =
     (if positive = (b \<noteq> [] \<and> in_class (ignorecase fl) False items (hd b))
      then k (b, text, caps) else None)"
| "re_match fl Bol k (b, text, caps) =
     (if b = [] \<or> (multiline fl \<and> hd b = 10) then k (b, text, caps) else None)"
| "re_match fl Eol k (b, text, caps) =
     (if text = [] \<or> text = [10] \<or> (multiline fl \<and> hd text = 10) then k (b, text, caps)
      else None)"
| "re_rep fl r mn mx greedy cnt k (b, [], caps) =
     (if mn \<le> cnt then k (b, [], caps) else None)"
| "re_rep fl r mn mx greedy cnt k (b, c # cs, caps) =
     (if greedy then
        (case (if (case mx of None \<Rightarrow> True | Some m \<Rightarrow> cnt < m)
               then re_match fl r
                      (\<lambda>(b', text', caps').
                          if length text' < length (c # cs)
                          then re_rep fl r mn mx greedy (cnt + 1) k (b', text', caps') else None)
                      (b, c # cs, caps)
               else None) of
           Some m \<Rightarrow> Some m
         | None \<Rightarrow> if mn \<le> cnt then k (b, c # cs, caps) else None)
      else
        (case (if mn \<le> cnt then k (b, c # cs, caps) else None) of
           Some m \<Rightarrow> Some m
         | None \<Rightarrow>
             if (case mx of None \<Rightarrow> True | Some m \<Rightarrow> cnt < m)
             then re_match fl r
                    (\<lambda>(b', text', caps').
                        if length text' < length (c # cs)
                        then re_rep fl r mn mx greedy (cnt + 1) k (b', text', caps') else None)
                    (b, c # cs, caps)
             else None))"
  by pat_completeness auto
termination
  by (relation "inv_image (less_than <*lex*> less_than <*lex*> less_than)
      (\<lambda>x. case x of
          Inl (fl, r, k, (b, text, caps)) \<Rightarrow> (size r, 0::nat, length text)
        | Inr (fl, r, mn, mx, greedy, cnt, k, (b, text, caps)) \<Rightarrow> (size r, 1, length text))")
    auto

text \<open>Sequences, alternatives and the usual quantifiers.\<close>

fun seq :: "regex list \<Rightarrow> regex" where
  "seq [] = Lit []"
| "seq [r] = r"
| "seq (r # rs) = Cat r (seq rs)"

fun alts :: "regex list \<Rightarrow> regex" where
  "alts [] = Cls False []"
| "alts [r] = r"
| "alts (r # rs) = Alt r (alts rs)"

abbreviation re_star :: "regex \<Rightarrow> regex" where "re_star r \<equiv> Rep 0 None True r"
abbreviation re_plus :: "regex \<Rightarrow> regex" where "re_plus r \<equiv> Rep 1 None True r"
abbreviation re_opt :: "regex \<Rightarrow> regex" where "re_opt r \<equiv> Rep 0 (Some 1) True r"
abbreviation lazy_star :: "regex \<Rightarrow> regex" where "lazy_star r \<equiv> Rep 0 None False r"
abbreviation re_words :: "string list \<Rightarrow> regex" where
  "re_words ws \<equiv> alts (map (\<lambda>w. Lit (lit w)) ws)"

text \<open>A match: group 0 (the matched text) and the numbered groups that took part.\<close>

type_synonym re_m = "pystr \<times> (nat \<times> pystr) list"

definition mk_match :: "pystr \<Rightarrow> mstate \<Rightarrow> re_m" where
  "mk_match text e =
     (case e of (b', text', caps') \<Rightarrow> (take (length text - length text') text, caps'))"

text \<open>\<^verbatim>\<open>m.group(n)\<close>; \<open>None\<close> for a group that took no part.\<close>

definition group :: "re_m \<Rightarrow> nat \<Rightarrow> pystr option" where
  "group m n = (if n = 0 then Some (fst m) else map_of (snd m) n)"

text \<open>\<^verbatim>\<open>re.search\<close>: the first position, from the left, where the pattern matches.\<close>

fun search_from :: "flags \<Rightarrow> regex \<Rightarrow> pystr \<Rightarrow> pystr \<Rightarrow> re_m option" where
  "search_from fl r b [] =
     (case re_match fl r Some (b, [], []) of None \<Rightarrow> None | Some e \<Rightarrow> Some (mk_match [] e))"
| "search_from fl r b (c # cs) =
     (case re_match fl r Some (b, c # cs, []) of
        Some e \<Rightarrow> Some (mk_match (c # cs) e)
      | None \<Rightarrow> search_from fl r (c # b) cs)"

definition re_search :: "flags \<Rightarrow> regex \<Rightarrow> pystr \<Rightarrow> re_m option" where
  "re_search fl r text = search_from fl r [] text"

text \<open>
  The non-overlapping matches from left to right (\<^verbatim>\<open>re.finditer\<close>); \<open>skip\<close> counts the
  characters still covered by the previous match. None of the patterns used with it or
  with \<open>re_sub\<close> matches the empty string; after an empty match the scan moves on by one
  character.
\<close>

fun finditer_from :: "flags \<Rightarrow> regex \<Rightarrow> pystr \<Rightarrow> pystr \<Rightarrow> nat \<Rightarrow> re_m list" where
  "finditer_from fl r b [] skip =
     (if skip = 0
      then (case re_match fl r Some (b, [], []) of None \<Rightarrow> [] | Some e \<Rightarrow> [mk_match [] e])
      else [])"
| "finditer_from fl r b (c # cs) skip =
     (if 0 < skip then finditer_from fl r (c # b) cs (skip - 1)
      else (case re_match fl r Some (b, c # cs, []) of
          None \<Rightarrow> finditer_from fl r (c # b) cs 0
        | Some e \<Rightarrow>
            mk_match (c # cs) e
              # finditer_from fl r (c # b) cs (length (fst (mk_match (c # cs) e)) - 1)))"

text \<open>\<^verbatim>\<open>re.findall\<close> for a pattern without groups, and for a pattern with one group.\<close>

definition findall0 :: "flags \<Rightarrow> regex \<Rightarrow> pystr \<Rightarrow> pystr list" where
  "findall0 fl r text = map fst (finditer_from fl r [] text 0)"

definition findall1 :: "flags \<Rightarrow> regex \<Rightarrow> pystr \<Rightarrow> pystr list" where
  "findall1 fl r text =
     map (\<lambda>m. case group m 1 of None \<Rightarrow> [] | Some g \<Rightarrow> g) (finditer_from fl r [] text 0)"

text \<open>\<^verbatim>\<open>re.sub\<close> with a replacement template of literal text and group references.\<close>

datatype titem = TLit pystr | TGrp nat

definition expand :: "titem list \<Rightarrow> re_m \<Rightarrow> pystr" where
  "expand tmpl m =
     concat (map (\<lambda>t. case t of TLit s \<Rightarrow> s
                       | TGrp n \<Rightarrow> (case group m n of None \<Rightarrow> [] | Some g \<Rightarrow> g)) tmpl)"

fun sub_from :: "flags \<Rightarrow> regex \<Rightarrow> titem list \<Rightarrow> pystr \<Rightarrow> pystr \<Rightarrow> nat \<Rightarrow> pystr" where
  "sub_from fl r tmpl b [] skip =
     (if skip = 0
      then (case re_match fl r Some (b, [], []) of
              None \<Rightarrow> [] | Some e \<Rightarrow> expand tmpl (mk_match [] e))
      else [])"
| "sub_from fl r tmpl b (c # cs) skip =
     (if 0 < skip then sub_from fl r tmpl (c # b) cs (skip - 1)
      else (case re_match fl r Some (b, c # cs, []) of
          None \<Rightarrow> c # sub_from fl r tmpl (c # b) cs 0
        | Some e \<Rightarrow>
            if fst (mk_match (c # cs) e) = []
            then expand tmpl (mk_match (c # cs) e) @ c # sub_from fl r tmpl (c # b) cs 0
            else expand tmpl (mk_match (c # cs) e)
                 @ sub_from fl r tmpl (c # b) cs (length (fst (mk_match (c # cs) e)) - 1)))"

definition re_sub :: "flags \<Rightarrow> regex \<Rightarrow> titem list \<Rightarrow> pystr \<Rightarrow> pystr" where
  "re_sub fl r tmpl text = sub_from fl r tmpl [] text 0"

definition no_flags :: flags where
  "no_flags = \<lparr>ignorecase = False, multiline = False, dotall = False\<rparr>"

definition flags_I :: flags where
  "flags_I = \<lparr>ignorecase = True, multiline = False, dotall = False\<rparr>"

definition flags_M :: flags where
  "flags_M = \<lparr>ignorecase = False, multiline = True, dotall = False\<rparr>"

definition flags_S :: flags where
  "flags_S = \<lparr>ignorecase = False, multiline = False, dotall = True\<rparr>"

definition flags_IM :: flags where
  "flags_IM = \<lparr>ignorecase = True, multiline = True, dotall = False\<rparr>"

definition flags_IS :: flags where
  "flags_IS = \<lparr>ignorecase = True, multiline = False, dotall = True\<rparr>"

section \<open>The deterministic fallback: \<^verbatim>\<open>_fallback_extraction\<close>\<close>

text \<open>
  \<^verbatim>\<open>s.split(sep)\<close> with a separator: the pieces between the non-overlapping occurrences of
  \<open>sep\<close>, leftmost first. Every call passes a non-empty literal (Python raises on an empty
  one).
\<close>

function split_sep_acc :: "pystr \<Rightarrow> pystr \<Rightarrow> pystr \<Rightarrow> pystr list" where
  "split_sep_acc sep cur s =
     (if s = [] then [cur]
      else if sep \<noteq> [] \<and> prefix sep s then cur # split_sep_acc sep [] (drop (length sep) s)
      else split_sep_acc sep (cur @ [hd s]) (tl s))"
  by pat_completeness auto
termination
  by (relation "measure (\<lambda>(sep, cur, s). length s)") (auto simp: neq_Nil_conv)

declare split_sep_acc.simps [simp del]

definition str_split :: "pystr \<Rightarrow> pystr \<Rightarrow> pystr list" where
  "str_split sep s = split_sep_acc sep [] s"

text \<open>
  \<^verbatim>\<open>m.group(n)\<close> used as a string: for a group that took no part the value is \<^verbatim>\<open>None\<close>,
  which has no string methods.
\<close>

definition group_str :: "re_m \<Rightarrow> nat \<Rightarrow> pystr outcome" where
  "group_str m n = (case group m n of None \<Rightarrow> Raised | Some g \<Rightarrow> Returned g)"

text \<open>The three address patterns, searched with \<^verbatim>\<open>re.IGNORECASE | re.MULTILINE\<close>.\<close>

definition street_types :: regex where
  "street_types = re_words
     [''STREET'', ''ST'', ''DRIVE'', ''DR'', ''LANE'', ''LN'', ''AVENUE'', ''AVE'', ''ROAD'', ''RD'',
      ''BOULEVARD'', ''BLVD'', ''CIRCLE'', ''CIR'', ''COURT'', ''CT'', ''PLACE'', ''PL'', ''TRAIL'',
      ''TRL'']"

definition address_patterns :: "regex list" where
  "address_patterns =
     [seq [Lit (lit ''PROPERTY ADDRESS''), re_plus (Cls False [Ch 58, Space]),
           Grp 1 (seq [re_plus (Cls True [Ch 10]),
                       lazy_star (seq [Lit [10], re_plus (Cls True [Ch 10])])]),
           Ahead True (alts [Lit [10, 10],
                             seq [Lit [10], Rep 3 None True (Cls False [Rng 65 90])],
                             Eol])],
      seq [Lit (lit ''PROPERTY''), re_plus (Cls False [Ch 58, Space]),
           Grp 1 (seq [re_plus (Cls True [Ch 10]),
                       lazy_star (seq [Lit [10], re_plus (Cls True [Ch 10, Ch 13])])]),
           Ahead True (alts [Lit [10, 10], Lit (10 # lit ''LEGAL''), Eol])],
      Grp 1 (seq
        [re_plus (Cls False [Digit]), re_star (Cls True [Ch 10]), street_types,
         re_star (Cls True [Ch 10]),
         re_opt (seq [Lit [10], re_star (Cls True [Ch 10]), re_words [''TX'', ''TEXAS''],
                      re_star (Cls True [Ch 10]), Rep 5 (Some 5) True (Cls False [Digit])])])]"

text \<open>
  The loop over the address patterns: the first pattern whose match, stripped, is longer
  than 10 characters gives the address.
\<close>

fun find_address :: "regex list \<Rightarrow> pystr \<Rightarrow> pystr option outcome" where
  "find_address [] pdf_text = Returned None"
| "find_address (pattern # patterns) pdf_text =
     (case re_search flags_IM pattern pdf_text of
        None \<Rightarrow> find_address patterns pdf_text
      | Some m \<Rightarrow>
          (case group_str m 1 of
             Raised \<Rightarrow> Raised
           | Returned g \<Rightarrow>
               if length (strip g) > 10 then Returned (Some (strip g))
               else find_address patterns pdf_text))"

text \<open>The name patterns, searched with \<^verbatim>\<open>re.IGNORECASE\<close>.\<close>

definition name_pattern :: "string \<Rightarrow> regex" where
  "name_pattern label =
     seq [Lit (lit label), re_opt (Cls False [Ch 83]), re_plus (Cls False [Ch 58, Space]),
          Grp 1 (re_plus (Cls True [Ch 10]))]"

definition name_patterns :: "regex list" where
  "name_patterns = [name_pattern ''BORROWER'', name_pattern ''GRANTOR'', name_pattern ''DEBTOR'']"

fun find_names :: "regex list \<Rightarrow> pystr \<Rightarrow> pystr option outcome" where
  "find_names [] pdf_text = Returned None"
| "find_names (pattern # patterns) pdf_text =
     (case re_search flags_I pattern pdf_text of
        None \<Rightarrow> find_names patterns pdf_text
      | Some m \<Rightarrow>
          (case group_str m 1 of
             Raised \<Rightarrow> Raised
           | Returned g \<Rightarrow>
               if strip g \<noteq> [] \<and> length (strip g) > 3 then Returned (Some (strip g))
               else find_names patterns pdf_text))"

text \<open>\<^verbatim>\<open>[name.strip() for name in names.split('AND') if name.strip()]\<close>.\<close>

definition split_borrowers :: "pystr \<Rightarrow> pyval" where
  "split_borrowers names =
     PList (map (\<lambda>name. PStr (strip name))
              (filter (\<lambda>name. strip name \<noteq> []) (str_split (lit ''AND'') names)))"

text \<open>The money patterns: the first has no group, the second has one.\<close>

definition money_pattern_1 :: regex where
  "money_pattern_1 =
     seq [Lit (lit ''$''), re_plus (Cls False [Digit, Ch 44]), re_opt (Lit (lit ''.'')),
          re_star (Cls False [Digit])]"

definition money_pattern_2 :: regex where
  "money_pattern_2 =
     seq [re_words [''AMOUNT'', ''SUM'', ''DEBT''], re_plus (Cls False [Ch 58, Space]),
          re_opt (Lit (lit ''$'')),
          Grp 1 (seq [re_plus (Cls False [Digit, Ch 44]), re_opt (Lit (lit ''.'')),
                      re_star (Cls False [Digit])])]"

text \<open>
  \<^verbatim>\<open>float(s) > 1000\<close> for the strings that reach it: what the two patterns match, without
  commas and dollar signs, is digits with at most one point. \<^verbatim>\<open>float\<close> reads every decimal
  digit of Unicode as the ASCII digit of its value. Such a string is a number when
  it has a digit; anything else makes \<^verbatim>\<open>float\<close> raise, which the loop ignores. \<^verbatim>\<open>float\<close>
  rounds to the nearest double, ties to even; the doubles next to 1000 are \<open>2 ^ 43\<close>-ths
  apart and 1000 is an even multiple, so the rounded value exceeds 1000 exactly when the
  decimal value exceeds \<open>1000 + 1 / 2 ^ 44\<close>.
\<close>

definition decimal_value :: "nat \<Rightarrow> nat option" where
  "decimal_value c =
     (if c < 128 then (if 48 \<le> c \<and> c \<le> 57 then Some (c - 48) else None)
      else (case find (\<lambda>r. fst r \<le> c \<and> c \<le> snd r) unicode_decimal_ranges of
              None \<Rightarrow> None
            | Some r \<Rightarrow> Some ((c - fst r) mod 10)))"

definition ascii_digits :: "pystr \<Rightarrow> pystr" where
  "ascii_digits s = map (\<lambda>c. case decimal_value c of None \<Rightarrow> c | Some v \<Rightarrow> 48 + v) s"

definition float_gt_1000 :: "pystr \<Rightarrow> bool" where
  "float_gt_1000 s =
     (let a = ascii_digits s;
          whole = takeWhile is_digit a;
          after = dropWhile is_digit a;
          frac = (if after = [] then [] else tl after)
      in (after = [] \<or> hd after = 46) \<and> list_all is_digit frac \<and> (whole \<noteq> [] \<or> frac \<noteq> []) \<and>
         (digits_value whole * 10 ^ length frac + digits_value frac) * 2 ^ 44
           > (1000 * 2 ^ 44 + 1) * 10 ^ length frac)"

text \<open>The inner loop over the matches of one pattern: the significant ones are kept.\<close>

definition significant :: "pystr list \<Rightarrow> pystr list" where
  "significant matches =
     filter (\<lambda>m. float_gt_1000 (str_replace (lit ''$'') [] (str_replace (lit '','') [] m))) matches"

definition find_amounts :: "pystr \<Rightarrow> pystr list" where
  "find_amounts pdf_text =
     significant (findall0 flags_I money_pattern_1 pdf_text)
       @ significant (findall1 flags_I money_pattern_2 pdf_text)"

text \<open>The date patterns, each with one group.\<close>

definition month_names :: regex where
  "month_names = re_words
     [''JANUARY'', ''FEBRUARY'', ''MARCH'', ''APRIL'', ''MAY'', ''JUNE'', ''JULY'', ''AUGUST'',
      ''SEPTEMBER'', ''OCTOBER'', ''NOVEMBER'', ''DECEMBER'']"

definition date_patterns :: "regex list" where
  "date_patterns =
     [Grp 1 (seq [Rep 1 (Some 2) True (Cls False [Digit]), Cls False [Ch 47, Ch 45],
                  Rep 1 (Some 2) True (Cls False [Digit]), Cls False [Ch 47, Ch 45],
                  Rep 4 (Some 4) True (Cls False [Digit])]),
      Grp 1 (seq [Rep 4 (Some 4) True (Cls False [Digit]), Cls False [Ch 47, Ch 45],
                  Rep 1 (Some 2) True (Cls False [Digit]), Cls False [Ch 47, Ch 45],
                  Rep 1 (Some 2) True (Cls False [Digit])]),
      Grp 1 (seq [month_names, re_plus (Cls False [Space]),
                  Rep 1 (Some 2) True (Cls False [Digit]), re_opt (Lit (lit '','')),
                  re_plus (Cls False [Space]), Rep 4 (Some 4) True (Cls False [Digit])])]"

definition find_dates :: "pystr \<Rightarrow> pystr list" where
  "find_dates pdf_text = concat (map (\<lambda>pattern. findall1 flags_I pattern pdf_text) date_patterns)"

text \<open>The dictionary the fallback starts from.\<close>

definition fallback_template :: pydict where
  "fallback_template =
     [(lit ''case_number'', PNone), (lit ''filing_date'', PNone),
      (lit ''case_type'', PStr (lit ''FORECLOSURE'')), (lit ''court'', PNone),
      (lit ''plaintiff'', PNone), (lit ''defendant'', PNone), (lit ''trustee'', PNone),
      (lit ''property_address'', PNone), (lit ''legal_description'', PNone),
      (lit ''parcel_number'', PNone), (lit ''lot_block_subdivision'', PNone),
      (lit ''original_loan_amount'', PNone), (lit ''unpaid_balance'', PNone),
      (lit ''total_debt'', PNone), (lit ''deed_of_trust_date'', PNone),
      (lit ''deed_of_trust_recording_date'', PNone),
      (lit ''deed_of_trust_volume_page'', PNone),
      (lit ''deed_of_trust_instrument_number'', PNone), (lit ''deed_of_trust_number'', PNone),
      (lit ''sale_date'', PNone), (lit ''sale_time'', PNone), (lit ''sale_location'', PNone),
      (lit ''borrower_names'', PList []), (lit ''lender_name'', PNone),
      (lit ''attorney_info'', PDict []), (lit ''ai_confidence'', PStr (lit ''LOW''))]"

text \<open>
  \<^verbatim>\<open>_fallback_extraction(pdf_text, pdf_filename)\<close>; the file name is only printed. An
  exception anywhere in the body gives \<^verbatim>\<open>None\<close>.
\<close>

definition fallback_extraction :: "pystr \<Rightarrow> pydict option" where
  "fallback_extraction pdf_text =
     (case find_address address_patterns pdf_text of
        Raised \<Rightarrow> None
      | Returned address \<Rightarrow>
     (case find_names name_patterns pdf_text of
        Raised \<Rightarrow> None
      | Returned names \<Rightarrow>
     (let fallback_data = fallback_template;
          fallback_data =
            (case address of
               None \<Rightarrow> fallback_data
             | Some a \<Rightarrow> AList.update (lit ''property_address'') (PStr a) fallback_data);
          fallback_data =
            (case names of
               None \<Rightarrow> fallback_data
             | Some n \<Rightarrow>
                 AList.update (lit ''borrower_names'') (split_borrowers n)
                   (AList.update (lit ''defendant'') (PStr n) fallback_data));
          amounts = find_amounts pdf_text;
          fallback_data =
            (if amounts \<noteq> [] then
               AList.update (lit ''total_debt'')
                 (PStr (if prefix (lit ''$'') (hd amounts) then hd amounts
                        else lit ''$'' @ hd amounts))
                 fallback_data
             else fallback_data);
          dates_found = find_dates pdf_text;
          fallback_data =
            (if dates_found \<noteq> [] then
               AList.update (lit ''deed_of_trust_date'') (PStr (hd dates_found)) fallback_data
             else fallback_data)
      in if list_ex (\<lambda>field. truthy (dict_get0 fallback_data field))
              [lit ''property_address'', lit ''defendant'', lit ''total_debt'']
         then Some fallback_data else None)))"

section \<open>Manual field extraction: \<^verbatim>\<open>_manual_json_extraction\<close>\<close>

text \<open>
  \<^verbatim>\<open>s.lower()\<close>, as far as the program can tell: it searches the lowered text for an ASCII
  string and compares it with one. The ASCII capitals are lowered; U+0130 becomes \<^verbatim>\<open>i\<close>
  followed by U+0307 (the only character whose lower-case form is longer) and U+212A becomes
  \<^verbatim>\<open>k\<close>; every other character \<^verbatim>\<open>lower()\<close> maps to one character outside ASCII, and is left
  as it is.
\<close>

definition lower_char :: "nat \<Rightarrow> pystr" where
  "lower_char c = (if c = 304 then [105, 775] else if c = 8490 then [107] else [ascii_lower c])"

definition str_lower :: "pystr \<Rightarrow> pystr" where
  "str_lower s = concat (map lower_char s)"

text \<open>The dictionary of results it starts from.\<close>

definition manual_template :: pydict where
  "manual_template =
     [(lit ''case_number'', PNone), (lit ''filing_date'', PNone), (lit ''case_type'', PNone),
      (lit ''court'', PNone), (lit ''plaintiff'', PNone), (lit ''defendant'', PNone),
      (lit ''trustee'', PNone), (lit ''property_address'', PNone),
      (lit ''legal_description'', PNone), (lit ''parcel_number'', PNone),
      (lit ''lot_block_subdivision'', PNone), (lit ''original_loan_amount'', PNone),
      (lit ''unpaid_balance'', PNone), (lit ''total_debt'', PNone),
      (lit ''deed_of_trust_date'', PNone), (lit ''deed_of_trust_recording_date'', PNone),
      (lit ''deed_of_trust_volume_page'', PNone),
      (lit ''deed_of_trust_instrument_number'', PNone), (lit ''deed_of_trust_number'', PNone),
      (lit ''sale_date'', PNone), (lit ''sale_time'', PNone), (lit ''sale_location'', PNone),
      (lit ''borrower_names'', PList []), (lit ''lender_name'', PNone),
      (lit ''attorney_info'', PDict []), (lit ''ai_confidence'', PStr (lit ''LOW''))]"

text \<open>
  The keys of \<^verbatim>\<open>patterns\<close>, in the order of the dictionary, and the pattern of a key:
  \<^verbatim>\<open>"key":\s*"([^"]*)"\<close>, searched with \<^verbatim>\<open>re.IGNORECASE | re.DOTALL\<close>. Code point 34 is
  the double quote.
\<close>

definition manual_keys :: "string list" where
  "manual_keys =
     [''case_number'', ''filing_date'', ''case_type'', ''court'', ''plaintiff'', ''defendant'',
      ''property_address'', ''legal_description'', ''original_loan_amount'',
      ''deed_of_trust_number'', ''sale_date'', ''sale_time'', ''sale_location'', ''lender_name'']"

definition manual_pattern :: "string \<Rightarrow> regex" where
  "manual_pattern key =
     seq [Lit ([34] @ lit key @ [34, 58]), re_star (Cls False [Space]), Lit [34],
          Grp 1 (re_star (Cls True [Ch 34])), Lit [34]]"

text \<open>
  The loop over \<^verbatim>\<open>patterns.items()\<close>, on the result so far and \<^verbatim>\<open>extracted_count\<close>: a
  match whose value, stripped, is neither empty nor \<^verbatim>\<open>null\<close> is stored and counted.
\<close>

fun manual_loop :: "string list \<Rightarrow> pystr \<Rightarrow> pydict \<times> nat \<Rightarrow> (pydict \<times> nat) outcome" where
  "manual_loop [] response_text acc = Returned acc"
| "manual_loop (key # keys) response_text (result, extracted_count) =
     (case re_search flags_IS (manual_pattern key) response_text of
        None \<Rightarrow> manual_loop keys response_text (result, extracted_count)
      | Some m \<Rightarrow>
          (case group_str m 1 of
             Raised \<Rightarrow> Raised
           | Returned g \<Rightarrow>
               if strip g \<noteq> [] \<and> str_lower (strip g) \<noteq> lit ''null''
               then manual_loop keys response_text
                      (AList.update (lit key) (PStr (strip g)) result, extracted_count + 1)
               else manual_loop keys response_text (result, extracted_count)))"

text \<open>
  The borrower array: \<^verbatim>\<open>"borrower_names":\s*\[(.*?)\]\<close> with \<^verbatim>\<open>re.DOTALL\<close>, then every
  \<^verbatim>\<open>"([^"]*)"\<close> inside it. The result is the new value of \<^verbatim>\<open>borrower_names\<close> when the
  array holds a quoted string (the field then counts as extracted), \<open>None\<close> otherwise.
\<close>

definition borrower_pattern :: regex where
  "borrower_pattern =
     seq [Lit ([34] @ lit ''borrower_names'' @ [34, 58]), re_star (Cls False [Space]),
          Lit (lit ''[''), Grp 1 (lazy_star Dot), Lit (lit '']'')]"

definition quoted_pattern :: regex where
  "quoted_pattern = seq [Lit [34], Grp 1 (re_star (Cls True [Ch 34])), Lit [34]]"

definition manual_borrowers :: "pystr \<Rightarrow> pyval option outcome" where
  "manual_borrowers response_text =
     (case re_search flags_S borrower_pattern response_text of
        None \<Rightarrow> Returned None
      | Some borrower_match \<Rightarrow>
          (case group_str borrower_match 1 of
             Raised \<Rightarrow> Raised
           | Returned borrower_content \<Rightarrow>
               (let borrowers = findall1 no_flags quoted_pattern borrower_content in
                if borrowers \<noteq> []
                then Returned (Some (PList (map (\<lambda>b. PStr (strip b))
                                             (filter (\<lambda>b. strip b \<noteq> []) borrowers))))
                else Returned None)))"

text \<open>\<^verbatim>\<open>_manual_json_extraction\<close>: any exception gives \<^verbatim>\<open>None\<close>.\<close>

definition manual_json_extraction :: "pystr \<Rightarrow> pydict option" where
  "manual_json_extraction response_text =
     (case manual_loop manual_keys response_text (manual_template, 0) of
        Raised \<Rightarrow> None
      | Returned (result, extracted_count) \<Rightarrow>
          (case manual_borrowers response_text of
             Raised \<Rightarrow> None
           | Returned None \<Rightarrow> if extracted_count \<ge> 3 then Some result else None
           | Returned (Some names) \<Rightarrow>
               if extracted_count + 1 \<ge> 3
               then Some (AList.update (lit ''borrower_names'') names result) else None))"

section \<open>JSON: \<^verbatim>\<open>json.loads\<close>\<close>

text \<open>
  The decoder of Python's \<^verbatim>\<open>json\<close> module in its default (strict) mode. A parse error
  (\<^verbatim>\<open>JSONDecodeError\<close>) is \<open>None\<close>. An integer becomes \<open>PInt\<close>, any other number keeps its
  lexeme in \<open>PFloat\<close> (as do \<^verbatim>\<open>NaN\<close> and the infinities); a repeated key keeps its first
  position and its last value. The limits of the interpreter (the recursion depth for
  nested values, the number of digits of an integer) are not part of the model.
\<close>

definition json_ws :: "nat \<Rightarrow> bool" where
  "json_ws c \<longleftrightarrow> c = 32 \<or> c = 9 \<or> c = 10 \<or> c = 13"

definition skip_ws :: "pystr \<Rightarrow> pystr" where
  "skip_ws s = dropWhile json_ws s"

definition hex_digit :: "nat \<Rightarrow> nat option" where
  "hex_digit c =
     (if 48 \<le> c \<and> c \<le> 57 then Some (c - 48)
      else if 97 \<le> c \<and> c \<le> 102 then Some (c - 87)
      else if 65 \<le> c \<and> c \<le> 70 then Some (c - 55)
      else None)"

definition hex4 :: "pystr \<Rightarrow> nat option" where
  "hex4 s =
     (case s of
        a # b # c # d # _ \<Rightarrow>
          (case (hex_digit a, hex_digit b, hex_digit c, hex_digit d) of
             (Some a', Some b', Some c', Some d') \<Rightarrow> Some (((a' * 16 + b') * 16 + c') * 16 + d')
           | _ \<Rightarrow> None)
      | _ \<Rightarrow> None)"

text \<open>The character a backslash escape other than \<^verbatim>\<open>\u\<close> stands for.\<close>

definition json_escape :: "nat \<Rightarrow> nat option" where
  "json_escape e =
     (if e = 34 \<or> e = 92 \<or> e = 47 then Some e
      else if e = 98 then Some 8
      else if e = 102 then Some 12
      else if e = 110 then Some 10
      else if e = 114 then Some 13
      else if e = 116 then Some 9
      else None)"

text \<open>
  A string, read from behind its opening quote: the decoded text and what follows the
  closing quote. \<open>skip\<close> counts the characters of an escape still to pass over. A
  \<^verbatim>\<open>\u\<close> escape of a high surrogate directly followed by one of a low surrogate is one
  character; a control character inside a string is an error.
\<close>

fun json_string :: "pystr \<Rightarrow> pystr \<Rightarrow> nat \<Rightarrow> (pystr \<times> pystr) option" where
  "json_string [] acc skip = None"
| "json_string (c # cs) acc skip =
     (if 0 < skip then json_string cs acc (skip - 1)
      else if c = 34 then Some (acc, cs)
      else if c = 92 then
        (case cs of
           [] \<Rightarrow> None
         | e # es \<Rightarrow>
             if e = 117 then
               (case hex4 es of
                  None \<Rightarrow> None
                | Some u \<Rightarrow>
                    if 55296 \<le> u \<and> u \<le> 56319 \<and> take 2 (drop 4 es) = [92, 117] then
                      (case hex4 (drop 6 es) of
                         None \<Rightarrow> json_string cs (acc @ [u]) 5
                       | Some u2 \<Rightarrow>
                           if 56320 \<le> u2 \<and> u2 \<le> 57343
                           then json_string cs
                                  (acc @ [65536 + (u - 55296) * 1024 + (u2 - 56320)]) 11
                           else json_string cs (acc @ [u]) 5)
                    else json_string cs (acc @ [u]) 5)
             else
               (case json_escape e of
                  None \<Rightarrow> None
                | Some ch \<Rightarrow> json_string cs (acc @ [ch]) 1))
      else if c < 32 then None
      else json_string cs (acc @ [c]) 0)"

text \<open>
  A number at the start of the text, by the decoder's pattern
  \<^verbatim>\<open>(-?(?:0|[1-9]\d*))(\.\d+)?([eE][-+]?\d+)?\<close>.
\<close>

definition json_number :: "pystr \<Rightarrow> (pyval \<times> pystr) option" where
  "json_number s =
     (let neg = (s \<noteq> [] \<and> hd s = 45);
          s1 = (if neg then tl s else s);
          whole = (case s1 of
                     [] \<Rightarrow> []
                   | c # cs \<Rightarrow> if c = 48 then [48]
                              else if 49 \<le> c \<and> c \<le> 57 then c # takeWhile is_digit cs else []);
          s2 = drop (length whole) s1;
          frac = (case s2 of
                    [] \<Rightarrow> []
                  | c # cs \<Rightarrow> if c = 46 \<and> takeWhile is_digit cs \<noteq> []
                             then c # takeWhile is_digit cs else []);
          s3 = drop (length frac) s2;
          ex = (case s3 of
                  [] \<Rightarrow> []
                | c # cs \<Rightarrow>
                    if c = 101 \<or> c = 69 then
                      (let sign = (if cs \<noteq> [] \<and> (hd cs = 43 \<or> hd cs = 45) then [hd cs] else []);
                           ds = takeWhile is_digit (drop (length sign) cs)
                       in if ds \<noteq> [] then c # sign @ ds else [])
                    else []);
          s4 = drop (length ex) s3
      in if whole = [] then None
         else if frac = [] \<and> ex = []
         then Some (PInt (if neg then - int (digits_value whole) else int (digits_value whole)), s4)
         else Some (PFloat ((if neg then [45] else []) @ whole @ frac @ ex), s4))"

text \<open>
  A value at the start of the text, the members of an object from the opening quote of a
  key, and the elements of an array from the start of an element. The first argument
  bounds the nesting and the number of members; \<open>json_loads\<close> starts it above the length of
  the text, which no text uses up, every step consuming a character.
\<close>

fun json_value :: "nat \<Rightarrow> pystr \<Rightarrow> (pyval \<times> pystr) option"
  and json_members :: "nat \<Rightarrow> pystr \<Rightarrow> pydict \<Rightarrow> (pyval \<times> pystr) option"
  and json_elements :: "nat \<Rightarrow> pystr \<Rightarrow> pyval list \<Rightarrow> (pyval \<times> pystr) option" where
  "json_value 0 s = None"
| "json_value (Suc n) [] = None"
| "json_value (Suc n) (c # cs) =
     (if c = 34 then
        (case json_string cs [] 0 of None \<Rightarrow> None | Some (str, rest) \<Rightarrow> Some (PStr str, rest))
      else if c = 123 then
        (case skip_ws cs of
           [] \<Rightarrow> None
         | d # ds \<Rightarrow> if d = 125 then Some (PDict [], ds)
                    else if d = 34 then json_members n (d # ds) [] else None)
      else if c = 91 then
        (case skip_ws cs of
           [] \<Rightarrow> None
         | d # ds \<Rightarrow> if d = 93 then Some (PList [], ds) else json_elements n (d # ds) [])
      else if prefix (lit ''null'') (c # cs) then Some (PNone, drop 4 (c # cs))
      else if prefix (lit ''true'') (c # cs) then Some (PBool True, drop 4 (c # cs))
      else if prefix (lit ''false'') (c # cs) then Some (PBool False, drop 5 (c # cs))
      else (case json_number (c # cs) of
          Some v \<Rightarrow> Some v
        | None \<Rightarrow>
            if prefix (lit ''NaN'') (c # cs) then Some (PFloat (lit ''NaN''), drop 3 (c # cs))
            else if prefix (lit ''Infinity'') (c # cs)
            then Some (PFloat (lit ''Infinity''), drop 8 (c # cs))
            else if prefix (lit ''-Infinity'') (c # cs)
            then Some (PFloat (lit ''-Infinity''), drop 9 (c # cs))
            else None))"
| "json_members 0 s acc = None"
| "json_members (Suc n) [] acc = None"
| "json_members (Suc n) (q # s1) acc =
     (if q \<noteq> 34 then None
      else (case json_string s1 [] 0 of
          None \<Rightarrow> None
        | Some (key, s2) \<Rightarrow>
            (case skip_ws s2 of
               [] \<Rightarrow> None
             | colon # s3 \<Rightarrow>
                 if colon \<noteq> 58 then None
                 else (case json_value n (skip_ws s3) of
                     None \<Rightarrow> None
                   | Some (v, s4) \<Rightarrow>
                       (case skip_ws s4 of
                          [] \<Rightarrow> None
                        | d # s5 \<Rightarrow>
                            if d = 125 then Some (PDict (AList.update key v acc), s5)
                            else if d = 44
                            then json_members n (skip_ws s5) (AList.update key v acc)
                            else None)))))"
| "json_elements 0 s acc = None"
| "json_elements (Suc n) s acc =
     (case json_value n s of
        None \<Rightarrow> None
      | Some (v, s1) \<Rightarrow>
          (case skip_ws s1 of
             [] \<Rightarrow> None
           | d # s2 \<Rightarrow>
               if d = 93 then Some (PList (acc @ [v]), s2)
               else if d = 44 then json_elements n (skip_ws s2) (acc @ [v])
               else None))"

definition json_loads :: "pystr \<Rightarrow> pyval option" where
  "json_loads s =
     (case json_value (Suc (length s)) (skip_ws s) of
        None \<Rightarrow> None
      | Some (v, rest) \<Rightarrow> if skip_ws rest = [] then Some v else None)"

section \<open>Recovering a record from a response: \<^verbatim>\<open>_extract_json_from_response\<close>\<close>

text \<open>\<^verbatim>\<open>s.find(sub)\<close>, \<^verbatim>\<open>s.find(sub, start)\<close> and \<^verbatim>\<open>s.rfind(sub)\<close>; \<open>None\<close> is \<^verbatim>\<open>-1\<close>.\<close>

fun find_at :: "pystr \<Rightarrow> pystr \<Rightarrow> nat \<Rightarrow> nat option" where
  "find_at sub [] i = (if sub = [] then Some i else None)"
| "find_at sub (c # cs) i = (if prefix sub (c # cs) then Some i else find_at sub cs (i + 1))"

definition str_find :: "pystr \<Rightarrow> pystr \<Rightarrow> nat option" where
  "str_find sub s = find_at sub s 0"

definition str_find_from :: "pystr \<Rightarrow> pystr \<Rightarrow> nat \<Rightarrow> nat option" where
  "str_find_from sub s start = (if start > length s then None else find_at sub (drop start s) start)"

fun rfind_at :: "pystr \<Rightarrow> pystr \<Rightarrow> nat \<Rightarrow> nat option \<Rightarrow> nat option" where
  "rfind_at sub [] i found = (if sub = [] then Some i else found)"
| "rfind_at sub (c # cs) i found =
     rfind_at sub cs (i + 1) (if prefix sub (c # cs) then Some i else found)"

definition str_rfind :: "pystr \<Rightarrow> pystr \<Rightarrow> nat option" where
  "str_rfind sub s = rfind_at sub s 0 None"

text \<open>The slice \<^verbatim>\<open>s[start:end]\<close> for indices inside the string.\<close>

definition slice :: "pystr \<Rightarrow> nat \<Rightarrow> nat \<Rightarrow> pystr" where
  "slice s start stop = take (stop - start) (drop start s)"

text \<open>
  The code fences: a \<^verbatim>\<open>```json\<close> fence (found in the lowered text) up to the next fence, or
  else the text between the first and the last \<^verbatim>\<open>```\<close>. Code point 96 is the backquote.
\<close>

definition strip_fences :: "pystr \<Rightarrow> pystr" where
  "strip_fences response_text =
     (case str_find ([96, 96, 96] @ lit ''json'') (str_lower response_text) of
        Some i \<Rightarrow>
          (case str_find_from [96, 96, 96] response_text (i + 7) of
             Some e \<Rightarrow> strip (slice response_text (i + 7) e)
           | None \<Rightarrow> response_text)
      | None \<Rightarrow>
          (case str_find [96, 96, 96] response_text of
             Some i \<Rightarrow>
               (case str_rfind [96, 96, 96] response_text of
                  Some e \<Rightarrow> if e > i + 3 then strip (slice response_text (i + 3) e)
                            else response_text
                | None \<Rightarrow> response_text)
           | None \<Rightarrow> response_text))"

text \<open>
  The span from the first \<^verbatim>\<open>{\<close> to the last \<^verbatim>\<open>}\<close>, when there is one
  (\<^verbatim>\<open>json_end = rfind('}') + 1\<close> is 0 without a closing brace).
\<close>

definition brace_span :: "pystr \<Rightarrow> pystr option" where
  "brace_span s =
     (case str_find (lit ''{'') s of
        None \<Rightarrow> None
      | Some json_start \<Rightarrow>
          (let json_end = (case str_rfind (lit ''}'') s of None \<Rightarrow> 0 | Some e \<Rightarrow> e + 1)
           in if json_end > json_start then Some (slice s json_start json_end) else None))"

definition json_attempts :: "pystr \<Rightarrow> pystr list" where
  "json_attempts response_text =
     (case brace_span response_text of None \<Rightarrow> [] | Some a \<Rightarrow> [a])
     @ (if str_find (lit ''JSON:'') response_text \<noteq> None
        then (case brace_span (strip (last (str_split (lit ''JSON:'') response_text))) of
                None \<Rightarrow> [] | Some a \<Rightarrow> [a])
        else [])
     @ [response_text]"

text \<open>
  The repairs, applied to every attempt before it is parsed: single quotes to double
  quotes, trailing commas, a backslash inside a string value, keys without quotes, keys
  quoted twice, a line break inside a string. Code point 39 is the single quote, 92 the
  backslash.
\<close>

definition repair :: "pystr \<Rightarrow> pystr" where
  "repair json_str =
     (let s = strip json_str;
          s = str_replace [39] [34] s;
          s = re_sub no_flags (seq [Lit (lit '',''), re_star (Cls False [Space]), Lit (lit ''}'')])
                [TLit (lit ''}'')] s;
          s = re_sub no_flags (seq [Lit (lit '',''), re_star (Cls False [Space]), Lit (lit '']'')])
                [TLit (lit '']'')] s;
          s = re_sub no_flags
                (seq [Behind False [Ch 92], Lit [34], Grp 1 (lazy_star (Cls True [Ch 34])),
                      Lit [92], Grp 2 (lazy_star (Cls True [Ch 34])), Lit [34],
                      Ahead False (seq [re_star (Cls False [Space]), Lit (lit '':'')])])
                [TLit [34], TGrp 1, TLit [92, 92], TGrp 2, TLit [34]] s;
          s = re_sub no_flags (seq [Grp 1 (re_plus (Cls False [Word])), Lit (lit '':'')])
                [TLit [34], TGrp 1, TLit [34, 58]] s;
          s = re_sub no_flags
                (seq [Lit [34, 34], Grp 1 (re_plus (Cls False [Word])), Lit [34, 34, 58]])
                [TLit [34], TGrp 1, TLit [34, 58]] s;
          s = re_sub flags_M
                (seq [Lit [34], re_star (Cls False [Space]), Grp 1 (lazy_star (Cls True [Ch 34])),
                      re_star (Cls False [Space]), Lit [10], re_star (Cls False [Space]),
                      Grp 2 (lazy_star (Cls True [Ch 34])), re_star (Cls False [Space]), Lit [34]])
                [TLit [34], TGrp 1, TLit [32], TGrp 2, TLit [34]] s
      in s)"

text \<open>The more aggressive cleaning, tried on the first attempt only.\<close>

definition aggressive_clean :: "pystr \<Rightarrow> pystr" where
  "aggressive_clean json_str =
     (let cleaned = re_sub no_flags (re_plus (Cls True [Rng 0 127])) [TLit [32]] json_str;
          cleaned = re_sub no_flags (re_plus (Cls False [Space])) [TLit [32]] cleaned;
          cleaned = re_sub no_flags
                      (seq [Lit (lit '',''), re_star (Cls False [Space]),
                            Grp 1 (Cls False [Ch 125, Ch 93])])
                      [TGrp 1] cleaned
      in cleaned)"

text \<open>
  The loop over the attempts (\<open>attempt_num\<close> counts from 1): a parse that gives a
  dictionary is the result; a parse that gives something else goes on to the next attempt;
  a parse error on the first attempt tries the aggressive cleaning of the repaired text.
\<close>

fun try_attempts :: "nat \<Rightarrow> pystr list \<Rightarrow> pydict option" where
  "try_attempts attempt_num [] = None"
| "try_attempts attempt_num (json_str # rest) =
     (case json_loads (repair json_str) of
        Some (PDict parsed) \<Rightarrow> Some parsed
      | Some _ \<Rightarrow> try_attempts (attempt_num + 1) rest
      | None \<Rightarrow>
          if attempt_num = 1 then
            (case json_loads (aggressive_clean (repair json_str)) of
               Some (PDict parsed) \<Rightarrow> Some parsed
             | _ \<Rightarrow> try_attempts (attempt_num + 1) rest)
          else try_attempts (attempt_num + 1) rest)"

text \<open>
  \<^verbatim>\<open>_extract_json_from_response\<close>. The manual extraction runs on the text without its
  fences, and its result is returned when it is a non-empty dictionary.
\<close>

definition extract_json_from_response :: "pystr \<Rightarrow> pydict option" where
  "extract_json_from_response response_text =
     (if response_text = [] then None
      else
        (let response_text = strip_fences (strip response_text) in
         case try_attempts 1 (json_attempts response_text) of
           Some parsed \<Rightarrow> Some parsed
         | None \<Rightarrow>
             (case manual_json_extraction response_text of
                Some manual_json \<Rightarrow> if manual_json \<noteq> [] then Some manual_json else None
              | None \<Rightarrow> None)))"

section \<open>The generative request: \<^verbatim>\<open>_make_api_request\<close>\<close>

text \<open>
  An attribute of a collaborator's object: it is not there (\<^verbatim>\<open>hasattr\<close> is false),
  reading it raises, or it has a value.
\<close>

datatype 'a attr = NoAttr | AttrRaises | Attr 'a

text \<open>
  What the code reads from a response of \<^verbatim>\<open>generate_content\<close>: whether the prompt feedback
  carries a block reason, the parts with the text attribute of each, and the text.
\<close>

record gen_response =
  resp_blocked :: bool
  resp_parts :: "pystr attr list attr"
  resp_text :: "pystr attr"

text \<open>
  The parser's counters, and the log of what it did to the outside: every call of
  \<^verbatim>\<open>generate_content\<close> and every \<^verbatim>\<open>time.sleep\<close>, the one before a call (rate limiting) and
  the one after a failed attempt told apart.
\<close>

datatype event = Generate | Rate_limit_sleep nat | Backoff_sleep nat

record parser =
  api_requests :: nat
  successful_requests :: nat
  failed_requests :: nat
  events :: "event list"

text \<open>
  The generative collaborator, seen through the prompt template: what the call number \<open>n\<close>
  (counting all calls logged so far) does for a document text: it raises, or returns no
  response object (\<open>None\<close>) or a response.
\<close>

type_synonym generator = "nat \<Rightarrow> pystr \<Rightarrow> gen_response option outcome"

fun parts_text :: "pystr attr list \<Rightarrow> pystr \<Rightarrow> pystr outcome" where
  "parts_text [] response_text = Returned response_text"
| "parts_text (NoAttr # parts) response_text = parts_text parts response_text"
| "parts_text (AttrRaises # parts) response_text = Raised"
| "parts_text (Attr t # parts) response_text =
     parts_text parts (if t \<noteq> [] then response_text @ t else response_text)"

text \<open>The text of a response whose parts are \<open>parts\<close>.\<close>

definition get_response_text :: "gen_response \<Rightarrow> pystr attr list \<Rightarrow> pystr outcome" where
  "get_response_text response parts =
     (case resp_text response of
        AttrRaises \<Rightarrow> Raised
      | Attr t \<Rightarrow>
          if t \<noteq> [] then Returned (strip t)
          else (case parts_text parts [] of Raised \<Rightarrow> Raised | Returned r \<Rightarrow> Returned (strip r))
      | NoAttr \<Rightarrow>
          (case parts_text parts [] of Raised \<Rightarrow> Raised | Returned r \<Rightarrow> Returned (strip r)))"

definition log_event :: "event \<Rightarrow> parser \<Rightarrow> parser" where
  "log_event e self = self\<lparr>events := events self @ [e]\<rparr>"

text \<open>
  The body of the \<^verbatim>\<open>try\<close> block of one attempt: \<open>Raised\<close> when it is left by an exception,
  the parsed dictionary when it returns.
\<close>

definition api_attempt :: "generator \<Rightarrow> pystr \<Rightarrow> parser \<Rightarrow> pydict outcome \<times> parser" where
  "api_attempt generate pdf_text self =
     (let self = (if api_requests self > 0 then log_event (Rate_limit_sleep 2) self else self);
          response = generate (length (filter (\<lambda>e. e = Generate) (events self))) pdf_text;
          self = log_event Generate self
      in case response of
           Raised \<Rightarrow> (Raised, self)
         | Returned response \<Rightarrow>
             (let self = self\<lparr>api_requests := api_requests self + 1\<rparr> in
              case response of
                None \<Rightarrow> (Raised, self)
              | Some response \<Rightarrow>
                  if resp_blocked response then (Raised, self)
                  else (case resp_parts response of
                      Attr parts \<Rightarrow>
                        if parts = [] then (Raised, self)
                        else (case get_response_text response parts of
                            Raised \<Rightarrow> (Raised, self)
                          | Returned response_text \<Rightarrow>
                              if response_text = [] then (Raised, self)
                              else (case extract_json_from_response response_text of
                                  None \<Rightarrow> (Raised, self)
                                | Some parsed_data \<Rightarrow>
                                    if parsed_data \<noteq> []
                                    then (Returned parsed_data,
                                          self\<lparr>successful_requests := successful_requests self + 1\<rparr>)
                                    else (Raised, self)))
                    | _ \<Rightarrow> (Raised, self))))"

definition max_retries :: nat where
  "max_retries = 3"

definition max_length :: nat where
  "max_length = 45000"

text \<open>The loop \<^verbatim>\<open>for attempt in range(max_retries)\<close> and what follows it.\<close>

fun attempt_loop :: "generator \<Rightarrow> pystr \<Rightarrow> nat list \<Rightarrow> parser \<Rightarrow> pydict option \<times> parser" where
  "attempt_loop generate pdf_text [] self =
     (None, self\<lparr>failed_requests := failed_requests self + 1\<rparr>)"
| "attempt_loop generate pdf_text (attempt # attempts) self =
     (case api_attempt generate pdf_text self of
        (Returned parsed_data, self) \<Rightarrow> (Some parsed_data, self)
      | (Raised, self) \<Rightarrow>
          attempt_loop generate pdf_text attempts
            (if attempt < max_retries - 1 then log_event (Backoff_sleep (3 * (attempt + 1))) self
             else self))"

definition make_api_request :: "generator \<Rightarrow> pystr \<Rightarrow> parser \<Rightarrow> pydict option \<times> parser" where
  "make_api_request generate pdf_text self =
     (let pdf_text =
            (if length pdf_text > max_length
             then take max_length pdf_text @ [10] @ lit ''[TRUNCATED DUE TO LENGTH]''
             else pdf_text)
      in attempt_loop generate pdf_text [0..<max_retries] self)"

section \<open>Parsing one document: \<^verbatim>\<open>parse_pdf\<close>\<close>

text \<open>The record built from the dictionary of either path.\<close>

definition record_of :: "pydict \<Rightarrow> pystr \<Rightarrow> pystr \<Rightarrow> ForeClosureData" where
  "record_of ai_response now pdf_filename =
     new_ForeClosureData
       \<lparr>case_number = dict_get0 ai_response (lit ''case_number''),
        filing_date = dict_get0 ai_response (lit ''filing_date''),
        case_type = dict_get0 ai_response (lit ''case_type''),
        court = dict_get0 ai_response (lit ''court''),
        plaintiff = dict_get0 ai_response (lit ''plaintiff''),
        defendant = dict_get0 ai_response (lit ''defendant''),
        trustee = dict_get0 ai_response (lit ''trustee''),
        property_address = dict_get0 ai_response (lit ''property_address''),
        legal_description = dict_get0 ai_response (lit ''legal_description''),
        parcel_number = dict_get0 ai_response (lit ''parcel_number''),
        lot_block_subdivision = dict_get0 ai_response (lit ''lot_block_subdivision''),
        original_loan_amount = dict_get0 ai_response (lit ''original_loan_amount''),
        unpaid_balance = dict_get0 ai_response (lit ''unpaid_balance''),
        total_debt = dict_get0 ai_response (lit ''total_debt''),
        deed_of_trust_date = dict_get0 ai_response (lit ''deed_of_trust_date''),
        deed_of_trust_recording_date = dict_get0 ai_response (lit ''deed_of_trust_recording_date''),
        deed_of_trust_volume_page = dict_get0 ai_response (lit ''deed_of_trust_volume_page''),
        deed_of_trust_instrument_number = dict_get0 ai_response (lit ''deed_of_trust_instrument_number''),
        deed_of_trust_number = dict_get0 ai_response (lit ''deed_of_trust_number''),
        sale_date = dict_get0 ai_response (lit ''sale_date''),
        sale_time = dict_get0 ai_response (lit ''sale_time''),
        sale_location = dict_get0 ai_response (lit ''sale_location''),
        borrower_names = dict_get ai_response (lit ''borrower_names'') (PList []),
        lender_name = dict_get0 ai_response (lit ''lender_name''),
        attorney_info = dict_get ai_response (lit ''attorney_info'') (PDict []),
        ai_confidence = dict_get0 ai_response (lit ''ai_confidence''),
        extraction_timestamp = PStr now,
        source_pdf_file = PStr pdf_filename\<rparr>"

text \<open>
  \<^verbatim>\<open>parse_pdf\<close>, given what the libraries do on the document, the generative collaborator,
  the base name of the file and the clock reading for the time stamp. Nothing in the body
  catches an exception, so one out of the text extraction would leave the function.
\<close>

definition parse_pdf ::
  "pystr option outcome list \<Rightarrow> pystr option outcome list \<Rightarrow> pystr outcome list outcome
     \<Rightarrow> generator \<Rightarrow> pystr \<Rightarrow> pystr \<Rightarrow> parser \<Rightarrow> ForeClosureData option outcome \<times> parser" where
  "parse_pdf plumber pypdf ocr generate pdf_filename now self =
     (case extract_pdf_text plumber pypdf ocr of
        Raised \<Rightarrow> (Raised, self)
      | Returned pdf_text \<Rightarrow>
          if strip pdf_text = [] then (Returned None, self)
          else (case make_api_request generate pdf_text self of
              (Some ai_response, self) \<Rightarrow> (Returned (Some (record_of ai_response now pdf_filename)), self)
            | (None, self) \<Rightarrow>
                (case fallback_extraction pdf_text of
                   None \<Rightarrow> (Returned None, self)
                 | Some ai_response \<Rightarrow>
                     if ai_response = [] then (Returned None, self)
                     else (Returned (Some (record_of ai_response now pdf_filename)), self))))"

text \<open>
  What one call of \<^verbatim>\<open>_make_api_request\<close> adds to the log, and the sleeps that are the
  rate limiting between calls rather than the backoff after a failure.
\<close>

definition is_rate_limit :: "event \<Rightarrow> bool" where
  "is_rate_limit e = (case e of Rate_limit_sleep _ \<Rightarrow> True | _ \<Rightarrow> False)"

definition new_events :: "generator \<Rightarrow> pystr \<Rightarrow> parser \<Rightarrow> event list" where
  "new_events generate pdf_text self =
     drop (length (events self)) (events (snd (make_api_request generate pdf_text self)))"

text \<open>A parser that has made no request yet.\<close>

definition quiet_parser :: parser where
  "quiet_parser = \<lparr>api_requests = 0, successful_requests = 0, failed_requests = 0, events = []\<rparr>"

text \<open>
  What one attempt makes of what the service did: the dictionary the \<^verbatim>\<open>try\<close> block returns,
  \<open>None\<close> when an exception leaves it (the service raised, there is no response object, the
  content was blocked, there are no parts or no text, or no non-empty dictionary could be
  recovered from the text).
\<close>

definition attempt_answer :: "gen_response option outcome \<Rightarrow> pydict option" where
  "attempt_answer response =
     (case response of
        Raised \<Rightarrow> None
      | Returned None \<Rightarrow> None
      | Returned (Some r) \<Rightarrow>
          if resp_blocked r then None
          else (case resp_parts r of
              Attr parts \<Rightarrow>
                if parts = [] then None
                else (case get_response_text r parts of
                    Raised \<Rightarrow> None
                  | Returned response_text \<Rightarrow>
                      if response_text = [] then None
                      else (case extract_json_from_response response_text of
                          None \<Rightarrow> None
                        | Some parsed_data \<Rightarrow> if parsed_data \<noteq> [] then Some parsed_data else None))
            | _ \<Rightarrow> None))"

text \<open>
  The number of calls of the service logged so far, the text the prompt is built from
  (truncated above 45000 characters), and whether attempt number \<open>i\<close> (from 0) of a call of
  \<^verbatim>\<open>_make_api_request\<close> fails, which depends only on what the service does at that call.
\<close>

definition calls_made :: "parser \<Rightarrow> nat" where
  "calls_made self = length (filter (\<lambda>e. e = Generate) (events self))"

definition sent_text :: "pystr \<Rightarrow> pystr" where
  "sent_text pdf_text =
     (if length pdf_text > max_length
      then take max_length pdf_text @ [10] @ lit ''[TRUNCATED DUE TO LENGTH]''
      else pdf_text)"

definition attempt_result :: "generator \<Rightarrow> pystr \<Rightarrow> parser \<Rightarrow> nat \<Rightarrow> pydict option" where
  "attempt_result generate pdf_text self i =
     attempt_answer (generate (calls_made self + i) (sent_text pdf_text))"

text \<open>The calls and backoff sleeps of one call of \<^verbatim>\<open>_make_api_request\<close>, in order.\<close>

definition backoff_trace :: "generator \<Rightarrow> pystr \<Rightarrow> parser \<Rightarrow> event list" where
  "backoff_trace generate pdf_text self =
     filter (\<lambda>e. \<not> is_rate_limit e) (new_events generate pdf_text self)"

text \<open>
  What the loop of \<^verbatim>\<open>_manual_json_extraction\<close> finds for one key: the stripped value of the
  first match of the key's pattern, when it is neither empty nor \<^verbatim>\<open>null\<close>; and what the code
  stores for the borrower array, when the array holds a quoted string.
\<close>

definition field_value :: "string \<Rightarrow> pystr \<Rightarrow> pystr option" where
  "field_value key response_text =
     (case re_search flags_IS (manual_pattern key) response_text of
        None \<Rightarrow> None
      | Some m \<Rightarrow>
          (case group_str m 1 of
             Raised \<Rightarrow> None
           | Returned g \<Rightarrow>
               if strip g \<noteq> [] \<and> str_lower (strip g) \<noteq> lit ''null'' then Some (strip g)
               else None))"

definition borrower_value :: "pystr \<Rightarrow> pyval option" where
  "borrower_value response_text =
     (case manual_borrowers response_text of Raised \<Rightarrow> None | Returned names \<Rightarrow> names)"

text \<open>
  The value of \<^verbatim>\<open>extracted_count\<close> after the two searches, and the number of fields
  recovered from the text: the patterned fields with a value, and \<^verbatim>\<open>borrower_names\<close> when a
  name was found.
\<close>

definition counted_fields :: "pystr \<Rightarrow> nat" where
  "counted_fields response_text =
     length (filter (\<lambda>key. field_value key response_text \<noteq> None) manual_keys)
       + (if borrower_value response_text \<noteq> None then 1 else 0)"

definition borrowers_recovered :: "pystr \<Rightarrow> bool" where
  "borrowers_recovered response_text =
     (case borrower_value response_text of Some (PList (name # names)) \<Rightarrow> True | _ \<Rightarrow> False)"

definition recovered_count :: "pystr \<Rightarrow> nat" where
  "recovered_count response_text =
     length (filter (\<lambda>key. field_value key response_text \<noteq> None) manual_keys)
       + (if borrowers_recovered response_text then 1 else 0)"

text \<open>
  A quoted literal, and a response that is not JSON: two fields and a borrower array that
  holds one blank string.
\<close>

definition quoted :: "string \<Rightarrow> pystr" where
  "quoted s = [34] @ lit s @ [34]"

definition blank_borrowers_example :: pystr where
  "blank_borrowers_example =
     quoted ''court'' @ lit '': '' @ quoted ''x'' @ lit '', '' @
     quoted ''plaintiff'' @ lit '': '' @ quoted ''y'' @ lit '', '' @
     quoted ''borrower_names'' @ lit '': ['' @ quoted '' '' @ lit '']''"

definition blank_borrowers_result :: pydict where
  "blank_borrowers_result =
     AList.update (lit ''plaintiff'') (PStr (lit ''y''))
       (AList.update (lit ''court'') (PStr (lit ''x'')) manual_template)"

text \<open>
  A response that is a JSON object, a service that always raises, and one that raises at
  the first call and answers with that response afterwards.
\<close>

definition court_json :: pystr where
  "court_json = lit ''{'' @ quoted ''court'' @ lit '': '' @ quoted ''x'' @ lit ''}''"


definition dead_service :: generator where
  "dead_service n prompt_text = Raised"

definition flaky_service :: generator where
  "flaky_service n prompt_text =
     (if n = 0 then Raised
      else Returned (Some \<lparr>resp_blocked = False, resp_parts = Attr [Attr court_json],
                            resp_text = Attr court_json\<rparr>))"

text \<open>
  Whether the fallback finds a meaningful field: both searches return, and there is an
  address, a name block or a significant amount.
\<close>

definition fallback_finds :: "pystr \<Rightarrow> bool" where
  "fallback_finds pdf_text =
     (case find_address address_patterns pdf_text of
        Raised \<Rightarrow> False
      | Returned address \<Rightarrow>
          (case find_names name_patterns pdf_text of
             Raised \<Rightarrow> False
           | Returned names \<Rightarrow> address \<noteq> None \<or> names \<noteq> None \<or> find_amounts pdf_text \<noteq> []))"

text \<open>
  What is stored as \<^verbatim>\<open>total_debt\<close> and as \<^verbatim>\<open>deed_of_trust_date\<close> for the lists \<^verbatim>\<open>amounts\<close> and
  \<^verbatim>\<open>dates_found\<close>: the first element of the list, the amount with a dollar sign in front
  when it has none.
\<close>

definition debt_of :: "pystr list \<Rightarrow> pyval" where
  "debt_of amounts =
     (case amounts of
        [] \<Rightarrow> PNone
      | a # _ \<Rightarrow> PStr (if prefix (lit ''$'') a then a else lit ''$'' @ a))"

definition date_of :: "pystr list \<Rightarrow> pyval" where
  "date_of dates_found = (case dates_found of [] \<Rightarrow> PNone | d # _ \<Rightarrow> PStr d)"

text \<open>
  Three texts: a notice with an address, two amounts and two dates; the OCR text of a page
  without any labelled field; the OCR text of a page that names the borrowers. And what the
  fallback makes of the first and the third.
\<close>

definition amounts_example :: pystr where
  "amounts_example =
     lit ''PROPERTY ADDRESS: 1 Main Street'' @ [10] @ lit ''$2,000'' @ [10] @ lit ''$5,000'' @ [10]
       @ lit ''12/31/2024'' @ [10] @ lit ''1/1/2020''"

definition noise_page :: pystr where
  "noise_page = lit ''this scan shows no labelled field and no figure at all''"

definition noise_text :: pystr where
  "noise_text = lit ''PAGE 1:'' @ [10] @ noise_page @ [10, 10]"

definition borrower_page :: pystr where
  "borrower_page = lit ''BORROWER: John Smith AND Jane Smith of Plano, Texas''"

definition borrower_text :: pystr where
  "borrower_text = lit ''PAGE 1:'' @ [10] @ borrower_page @ [10, 10]"

definition amounts_result :: pydict where
  "amounts_result =
     AList.update (lit ''deed_of_trust_date'') (PStr (lit ''12/31/2024''))
       (AList.update (lit ''total_debt'') (PStr (lit ''$2,000''))
          (AList.update (lit ''property_address'') (PStr (lit ''1 Main Street'')) fallback_template))"

definition borrower_result :: pydict where
  "borrower_result =
     AList.update (lit ''borrower_names'')
         (PList [PStr (lit ''John Smith''), PStr (lit ''Jane Smith of Plano, Texas'')])
       (AList.update (lit ''defendant'') (PStr (lit ''John Smith AND Jane Smith of Plano, Texas''))
          fallback_template)"

text \<open>A response that is one JSON object whose value holds a time of day.\<close>

definition sale_time_json :: pystr where
  "sale_time_json = lit ''{'' @ quoted ''sale_time'' @ lit '': '' @ quoted ''10:00 AM'' @ lit ''}''"

section \<open>Properties of the record constructor\<close>

text \<open>
  C10. After construction \<open>borrower_names\<close> and \<open>attorney_info\<close> are never \<^verbatim>\<open>None\<close>,
  whatever was passed; when the constructor receives \<^verbatim>\<open>None\<close> or a value of the declared
  type (a list, a mapping) for them, the fields hold a list and a mapping, and a \<^verbatim>\<open>None\<close>
  argument becomes the empty list and the empty mapping.
\<close>

theorem post_init_never_none:
  "borrower_names (new_ForeClosureData args) \<noteq> PNone \<and>
   attorney_info (new_ForeClosureData args) \<noteq> PNone \<and>
   (borrower_names args = PNone \<longrightarrow> borrower_names (new_ForeClosureData args) = PList []) \<and>
   (attorney_info args = PNone \<longrightarrow> attorney_info (new_ForeClosureData args) = PDict []) \<and>
   (borrower_names args = PNone \<or> is_list (borrower_names args) \<longrightarrow>
      is_list (borrower_names (new_ForeClosureData args))) \<and>
   (attorney_info args = PNone \<or> is_dict (attorney_info args) \<longrightarrow>
      is_dict (attorney_info (new_ForeClosureData args)))"
  by (simp add: new_ForeClosureData_def post_init_def Let_def is_list_def is_dict_def)

theorem post_init_never_none_witness:
  "borrower_names (new_ForeClosureData default_args) = PList [] \<and>
   attorney_info (new_ForeClosureData default_args) = PDict [] \<and>
   is_list (borrower_names (new_ForeClosureData default_args)) \<and>
   is_dict (attorney_info (new_ForeClosureData default_args))"
proof -
  have b: "borrower_names default_args = PNone" and a: "attorney_info default_args = PNone"
    by (simp_all add: default_args_def)
  from post_init_never_none [of default_args] b a show ?thesis
    by blast
qed

section \<open>Evaluating the model\<close>

text \<open>The definitions that a concrete run of the matcher and of the decoder unfolds.\<close>

lemma lit_inj: "lit a = lit b \<longleftrightarrow> a = b"
  unfolding lit_def by (simp add: inj_map_eq_map inj_on_def)

lemmas regex_eval =
  re_search_def findall0_def findall1_def re_sub_def lit_def in_class_def mk_match_def
  ascii_lower_def ascii_upper_def fold_case_def group_def group_str_def expand_def is_space_def
  no_flags_def flags_I_def flags_M_def flags_S_def flags_IM_def flags_IS_def

lemma json_fuel:
  "json_value (numeral k) s = json_value (Suc (pred_numeral k)) s"
  "json_members (numeral k) s acc = json_members (Suc (pred_numeral k)) s acc"
  "json_elements (numeral k) s vs = json_elements (Suc (pred_numeral k)) s vs"
  by (simp_all only: numeral_eq_Suc)

lemmas json_eval =
  extract_json_from_response_def strip_fences_def json_attempts_def brace_span_def repair_def
  aggressive_clean_def json_loads_def json_fuel skip_ws_def json_ws_def json_number_def
  json_escape_def hex4_def hex_digit_def str_find_def str_find_from_def str_rfind_def slice_def
  str_lower_def lower_char_def str_split_def strip_def str_replace.simps split_sep_acc.simps
  is_digit_def
  digits_value_def


lemma court_json_recovered:
  "extract_json_from_response court_json = Some [(lit ''court'', PStr (lit ''x''))]"
  by (simp add: court_json_def quoted_def json_eval regex_eval)

lemma significant_Nil: "significant [] = []"
  by (simp add: significant_def)

lemma significant_Cons:
  "significant (m # ms) =
     (if float_gt_1000 (str_replace (lit ''$'') [] (str_replace (lit '','') [] m))
      then m # significant ms else significant ms)"
  by (simp add: significant_def)

lemmas fallback_eval =
  find_amounts_def find_dates_def significant_Nil significant_Cons
  float_gt_1000_def ascii_digits_def decimal_value_def
  digits_value_def is_digit_def money_pattern_1_def money_pattern_2_def date_patterns_def
  month_names_def address_patterns_def street_types_def name_patterns_def name_pattern_def
  split_borrowers_def str_split_def strip_def
  str_replace.simps split_sep_acc.simps

lemma amounts_address: "find_address address_patterns amounts_example = Returned (Some (lit ''1 Main Street''))"
  by (simp add: amounts_example_def fallback_eval regex_eval)

lemma amounts_names: "find_names name_patterns amounts_example = Returned None"
  by (simp add: amounts_example_def fallback_eval regex_eval)

lemma amounts_found: "find_amounts amounts_example = [lit ''$2,000'', lit ''$5,000'']"
  by (simp add: amounts_example_def fallback_eval regex_eval)

lemma amounts_dates: "find_dates amounts_example = [lit ''12/31/2024'', lit ''1/1/2020'']"
  by (simp add: amounts_example_def fallback_eval regex_eval)

lemma noise_address: "find_address address_patterns noise_text = Returned None"
  by (simp add: noise_text_def noise_page_def fallback_eval regex_eval)

lemma noise_names: "find_names name_patterns noise_text = Returned None"
  by (simp add: noise_text_def noise_page_def fallback_eval regex_eval)

lemma noise_amounts: "find_amounts noise_text = []"
  by (simp add: noise_text_def noise_page_def fallback_eval regex_eval)

lemma borrower_address: "find_address address_patterns borrower_text = Returned None"
  by (simp add: borrower_text_def borrower_page_def fallback_eval regex_eval)

lemma borrower_names_found:
  "find_names name_patterns borrower_text
     = Returned (Some (lit ''John Smith AND Jane Smith of Plano, Texas''))"
  by (simp add: borrower_text_def borrower_page_def fallback_eval regex_eval)

lemma borrower_amounts: "find_amounts borrower_text = []"
  by (simp add: borrower_text_def borrower_page_def fallback_eval regex_eval)

lemma borrower_dates: "find_dates borrower_text = []"
  by (simp add: borrower_text_def borrower_page_def fallback_eval regex_eval)

section \<open>Properties of text extraction\<close>

text \<open>
  C4. Whatever the three libraries do on the document (raise at any point or return
  anything), \<open>extract_pdf_text\<close> returns a string and raises nothing. The string can be
  non-empty although every strategy fails: \<^verbatim>\<open>text\<close> is not reset before the PyPDF2 block, so
  when pdfplumber reads 60 letters (not acceptable), PyPDF2 reads 60 letters (not
  acceptable) and the OCR chain raises, all three strategies fail and the result is the
  122 characters the two parsers read together.
\<close>

theorem extract_pdf_text_carry_over:
  "(\<exists>text. extract_pdf_text plumber pypdf ocr = Returned text) \<and>
   plumber_accepts short_pages = False \<and>
   pypdf_accepts short_pages = False \<and>
   ocr_accepts Raised = False \<and>
   extract_pdf_text short_pages short_pages Raised
     = Returned (replicate 60 120 @ [10] @ replicate 60 120 @ [10])"
proof -
  obtain t1 r1 where p1: "plumber_loop [] plumber = (t1, r1)" by (cases "plumber_loop [] plumber")
  obtain t2 r2 where p2: "pypdf_loop t1 pypdf = (t2, r2)" by (cases "pypdf_loop t1 pypdf")
  have total: "\<exists>text. extract_pdf_text plumber pypdf ocr = Returned text"
    by (cases ocr) (simp_all add: extract_pdf_text_def p1 p2 Let_def)
  have a: "plumber_accepts short_pages = False"
    by (simp add: plumber_accepts_def plumber_text_def short_pages_def meaningful_def strip_def
        is_space_def)
  have b: "pypdf_accepts short_pages = False"
    by (simp add: pypdf_accepts_def pypdf_text_def short_pages_def meaningful_def strip_def
        is_space_def)
  have c: "ocr_accepts Raised = False"
    by (simp add: ocr_accepts_def)
  have d: "extract_pdf_text short_pages short_pages Raised
     = Returned (replicate 60 120 @ [10] @ replicate 60 120 @ [10])"
    by (simp add: extract_pdf_text_def short_pages_def meaningful_def strip_def is_space_def)
  from total a b c d show ?thesis by blast
qed




section \<open>Properties of the checkpoint key\<close>

lemma split_acc_spaces0:
  "\<forall>c\<in>set ws. is_space c \<Longrightarrow> split_acc [] (ws @ s) = split_acc [] s"
  by (induction ws) auto

lemma split_acc_spaces:
  "\<forall>c\<in>set ws. is_space c \<Longrightarrow> ws \<noteq> [] \<Longrightarrow>
     split_acc cur (ws @ s) = (if cur = [] then [] else [cur]) @ split_acc [] s"
  by (cases ws) (simp_all add: split_acc_spaces0)

lemma split_acc_dropWhile: "split_acc [] (dropWhile is_space s) = split_acc [] s"
  by (induction s) auto

lemma split_acc_only_spaces:
  "\<forall>c\<in>set ws. is_space c \<Longrightarrow> split_acc cur ws = (if cur = [] then [] else [cur])"
  by (induction ws arbitrary: cur) auto

lemma split_acc_trailing:
  "\<forall>c\<in>set ws. is_space c \<Longrightarrow> split_acc cur (s @ ws) = split_acc cur s"
  by (induction s arbitrary: cur) (auto simp: split_acc_only_spaces)

lemma py_split_strip: "py_split (strip s) = py_split s"
proof -
  define t where "t = dropWhile is_space s"
  define u where "u = rev t"
  have "rev u = rev (dropWhile is_space u) @ rev (takeWhile is_space u)"
    by (simp flip: rev_append)
  moreover have "\<forall>c\<in>set (rev (takeWhile is_space u)). is_space c"
    by (auto dest: set_takeWhileD)
  ultimately have "split_acc [] (rev u) = split_acc [] (rev (dropWhile is_space u))"
    using split_acc_trailing [of "rev (takeWhile is_space u)" "[]" "rev (dropWhile is_space u)"]
    by simp
  then show ?thesis
    by (simp add: py_split_def strip_def t_def u_def split_acc_dropWhile)
qed

lemma split_acc_replace:
  assumes "old \<noteq> []" "\<forall>c\<in>set old. is_space c" "new \<noteq> []" "\<forall>c\<in>set new. is_space c"
  shows "split_acc cur (str_replace old new s) = split_acc cur s"
proof (induction "length s" arbitrary: s cur rule: less_induct)
  case less
  show ?case
  proof (cases "s = []")
    case True
    with assms show ?thesis by (simp add: str_replace.simps)
  next
    case ne: False
    show ?thesis
    proof (cases "prefix old s")
      case True
      then obtain rest where s: "s = old @ rest" by (auto simp: prefix_def)
      have len: "length rest < length s" using assms(1) s by simp
      have r: "str_replace old new s = new @ str_replace old new rest"
        using assms(1) ne True s by (subst str_replace.simps) simp
      have "split_acc cur (new @ str_replace old new rest)
          = (if cur = [] then [] else [cur]) @ split_acc [] (str_replace old new rest)"
        using assms(3,4) by (rule split_acc_spaces [rotated])
      also have "split_acc [] (str_replace old new rest) = split_acc [] rest"
        using less [OF len] .
      also have "(if cur = [] then [] else [cur]) @ split_acc [] rest = split_acc cur s"
        unfolding s using assms(1,2) by (rule split_acc_spaces [rotated, symmetric])
      finally show ?thesis using r by simp
    next
      case False
      obtain c cs where s: "s = c # cs" using ne by (cases s) auto
      have r: "str_replace old new s = c # str_replace old new cs"
        using assms(1) ne False s by (subst str_replace.simps) simp
      have ih: "\<And>cur. split_acc cur (str_replace old new cs) = split_acc cur cs"
        using less [of cs] s by simp
      have "split_acc cur (c # str_replace old new cs) = split_acc cur (c # cs)"
        by (simp add: ih)
      then show ?thesis using r s by simp
    qed
  qed
qed

lemma split_acc_tokens:
  "\<forall>c\<in>set cur. \<not> is_space c \<Longrightarrow> w \<in> set (split_acc cur s) \<Longrightarrow>
     w \<noteq> [] \<and> (\<forall>c\<in>set w. \<not> is_space c)"
proof (induction s arbitrary: cur)
  case Nil
  then show ?case by (cases "cur = []") simp_all
next
  case (Cons a s)
  show ?case
  proof (cases "is_space a")
    case True
    have e: "\<forall>c\<in>set ([]::nat list). \<not> is_space c" by simp
    from Cons.prems(2) True have "w = cur \<and> cur \<noteq> [] \<or> w \<in> set (split_acc [] s)"
      by (cases "cur = []") simp_all
    then show ?thesis
    proof
      assume "w = cur \<and> cur \<noteq> []"
      then show ?thesis using Cons.prems(1) by simp
    next
      assume "w \<in> set (split_acc [] s)"
      then show ?thesis using Cons.IH [OF e] by simp
    qed
  next
    case False
    have e: "\<forall>c\<in>set (cur @ [a]). \<not> is_space c" using Cons.prems(1) False by simp
    from Cons.prems(2) False have "w \<in> set (split_acc (cur @ [a]) s)" by simp
    then show ?thesis using Cons.IH [OF e] by simp
  qed
qed

lemma split_acc_word:
  "\<forall>c\<in>set w. \<not> is_space c \<Longrightarrow> split_acc cur (w @ s) = split_acc (cur @ w) s"
  by (induction w arbitrary: cur) auto

lemma py_split_join:
  "\<forall>w\<in>set ws. w \<noteq> [] \<and> (\<forall>c\<in>set w. \<not> is_space c) \<Longrightarrow> split_acc [] (str_join [32] ws) = ws"
proof (induction ws)
  case Nil
  then show ?case by simp
next
  case (Cons x ws)
  have x: "\<forall>c\<in>set x. \<not> is_space c" and xne: "x \<noteq> []" using Cons.prems by simp_all
  show ?case
  proof (cases ws)
    case Nil
    then show ?thesis using split_acc_word [OF x, of "[]" "[]"] xne by simp
  next
    case (Cons y ys)
    have "split_acc [] (x @ 32 # str_join [32] ws) = split_acc x (32 # str_join [32] ws)"
      using split_acc_word [OF x, of "[]"] by simp
    also have "\<dots> = x # split_acc [] (str_join [32] ws)"
      using xne by (simp add: is_space_def)
    also have "split_acc [] (str_join [32] ws) = ws"
      using Cons.IH Cons.prems by simp
    finally show ?thesis using Cons by simp
  qed
qed

lemma normalize_address_eq: "normalize_address a = str_join [32] (py_split a)"
  by (simp add: normalize_address_def py_split_def split_acc_replace is_space_def)

lemma py_split_normalize: "py_split (normalize_address a) = py_split a"
proof -
  have "\<forall>w\<in>set (py_split a). w \<noteq> [] \<and> (\<forall>c\<in>set w. \<not> is_space c)"
    using split_acc_tokens [of "[]" _ a] by (simp add: py_split_def)
  then show ?thesis
    using py_split_join [of "py_split a"] by (simp add: normalize_address_eq py_split_def)
qed

lemma normalize_address_idem: "normalize_address (normalize_address a) = normalize_address a"
proof -
  have "normalize_address (normalize_address a) = str_join [32] (py_split (normalize_address a))"
    by (rule normalize_address_eq)
  also have "\<dots> = str_join [32] (py_split a)"
    by (simp only: py_split_normalize)
  also have "\<dots> = normalize_address a"
    by (rule normalize_address_eq [symmetric])
  finally show ?thesis .
qed

lemma normalize_address_strip: "normalize_address (strip a) = normalize_address a"
  by (simp only: normalize_address_eq py_split_strip)

lemma normalize_address_inj:
  "normalize_address a = normalize_address b \<longleftrightarrow> py_split a = py_split b"
proof
  assume "normalize_address a = normalize_address b"
  then have "py_split (normalize_address a) = py_split (normalize_address b)" by (rule arg_cong)
  then show "py_split a = py_split b" by (simp only: py_split_normalize)
next
  assume "py_split a = py_split b"
  then show "normalize_address a = normalize_address b" by (simp only: normalize_address_eq)
qed

lemma strip_fixed:
  assumes "s = [] \<or> (\<not> is_space (hd s) \<and> \<not> is_space (last s))"
  shows "strip s = s"
proof (cases "s = []")
  case True
  then show ?thesis by (simp add: strip_def)
next
  case False
  with assms have h: "\<not> is_space (hd s)" and l: "\<not> is_space (last s)" by simp_all
  have 1: "dropWhile is_space s = s" using False h by (simp add: dropWhile_eq_self_iff)
  have "hd (rev s) = last s" using False by (simp add: hd_rev)
  then have 2: "dropWhile is_space (rev s) = rev s" using False l by (simp add: dropWhile_eq_self_iff)
  show ?thesis by (simp add: strip_def 1 2)
qed

lemma strip_ends:
  "strip s = [] \<or> (\<not> is_space (hd (strip s)) \<and> \<not> is_space (last (strip s)))"
proof (cases "strip s = []")
  case True
  then show ?thesis by simp
next
  case False
  define t where "t = dropWhile is_space s"
  define r where "r = dropWhile is_space (rev t)"
  have s: "strip s = rev r" by (simp add: strip_def t_def r_def)
  have rne: "r \<noteq> []" using False s by simp
  have 1: "\<not> is_space (hd r)" using rne unfolding r_def by (rule hd_dropWhile)
  have "rev t = takeWhile is_space (rev t) @ r" by (simp add: r_def)
  then have "last (rev t) = last r" using rne by (metis last_appendR)
  moreover have tne: "t \<noteq> []" using rne r_def by auto
  ultimately have "last r = hd t" by (simp add: last_rev)
  moreover have "\<not> is_space (hd t)" using tne unfolding t_def by (rule hd_dropWhile)
  ultimately have 2: "\<not> is_space (last r)" by simp
  show ?thesis using 1 2 rne by (simp add: s hd_rev last_rev)
qed

lemma strip_idem: "strip (strip s) = strip s"
  using strip_ends [of s] by (rule strip_fixed)

lemma val_strip_Returned:
  "val_strip v = Returned s \<Longrightarrow> (\<exists>x. v = PStr x \<and> s = strip x)"
  by (cases v) (auto simp: val_strip_def)

lemma val_strip_fixed: "val_strip v = Returned s \<Longrightarrow> strip s = s"
  by (auto dest!: val_strip_Returned simp: strip_idem)

lemma create_checkpoint_key_idem:
  assumes h: "create_checkpoint_key snap = Returned key"
  shows "create_checkpoint_key key = Returned key \<and> load_normalize key = Returned key"
proof -
  from h obtain a c sd fd pt where
    va: "val_strip (dict_get snap (lit ''address'') (PStr [])) = Returned a" and
    vc: "val_strip (dict_get snap (lit ''city'') (PStr [])) = Returned c" and
    vs: "val_strip (dict_get snap (lit ''sale_date'') (PStr [])) = Returned sd" and
    vf: "val_strip (dict_get snap (lit ''file_date'') (PStr [])) = Returned fd" and
    vp: "val_strip (dict_get snap (lit ''property_type'') (PStr [])) = Returned pt" and
    key: "key = [(lit ''address'', PStr (normalize_address a)), (lit ''city'', PStr c),
       (lit ''sale_date'', PStr sd), (lit ''file_date'', PStr fd),
       (lit ''property_type'', PStr pt),
       (lit ''pdf_downloaded'', dict_get snap (lit ''pdf_downloaded'') (PBool False))]"
    by (auto simp: create_checkpoint_key_def Let_def split: outcome.splits)
  note fixed = val_strip_fixed [OF vc] val_strip_fixed [OF vs] val_strip_fixed [OF vf]
    val_strip_fixed [OF vp]
  have 1: "create_checkpoint_key key = Returned key"
    unfolding key
    by (simp add: create_checkpoint_key_def dict_get_def lit_def val_strip_def
        normalize_address_strip normalize_address_idem fixed)
  have 2: "load_normalize key = Returned key"
    unfolding key
    by (simp add: load_normalize_def lit_def normalize_address_idem)
  from 1 2 show ?thesis by simp
qed

lemma dict_get_skip_address:
  "k \<noteq> lit ''address'' \<Longrightarrow> dict_get ((lit ''address'', v) # rest) k d = dict_get rest k d"
  by (simp add: dict_get_def)

lemma dict_get_address: "dict_get ((lit ''address'', v) # rest) (lit ''address'') d = v"
  by (simp add: dict_get_def)

lemma create_checkpoint_key_whitespace:
  assumes "py_split a = py_split b"
  shows "create_checkpoint_key ((lit ''address'', PStr a) # rest)
       = create_checkpoint_key ((lit ''address'', PStr b) # rest)"
proof -
  have n: "normalize_address (strip a) = normalize_address (strip b)"
    using assms by (simp add: normalize_address_strip normalize_address_inj)
  have k: "lit ''city'' \<noteq> lit ''address''" "lit ''sale_date'' \<noteq> lit ''address''"
    "lit ''file_date'' \<noteq> lit ''address''" "lit ''property_type'' \<noteq> lit ''address''"
    "lit ''pdf_downloaded'' \<noteq> lit ''address''"
    by (simp_all add: lit_def)
  show ?thesis
    by (simp add: create_checkpoint_key_def dict_get_skip_address [OF k(1)]
        dict_get_skip_address [OF k(2)] dict_get_skip_address [OF k(3)]
        dict_get_skip_address [OF k(4)] dict_get_skip_address [OF k(5)]
        dict_get_address val_strip_def n
        cong: outcome.case_cong)
qed

lemma fingerprint_eq_iff: "fingerprint a = fingerprint b \<longleftrightarrow> py_split a = py_split b"
  by (simp add: fingerprint_def create_checkpoint_key_def dict_get_def lit_def val_strip_def
      normalize_address_strip normalize_address_inj)

text \<open>
  C3, amended. Building the key of a key gives the same key, and so does the address
  normalisation \<^verbatim>\<open>load_processed_checkpoints\<close> applies to a stored key. Two listings
  whose addresses have the same whitespace-separated words (they differ only in
  whitespace and line breaks) and that agree elsewhere get the same key; the fingerprints
  of two addresses are equal exactly when their word sequences are equal, so letter case
  is kept.
\<close>

theorem checkpoint_key_normalization:
  "(create_checkpoint_key snap = Returned key \<longrightarrow>
      create_checkpoint_key key = Returned key \<and> load_normalize key = Returned key) \<and>
   (py_split a = py_split b \<longrightarrow>
      create_checkpoint_key ((lit ''address'', PStr a) # rest)
        = create_checkpoint_key ((lit ''address'', PStr b) # rest)) \<and>
   (fingerprint a = fingerprint b \<longleftrightarrow> py_split a = py_split b)"
  using create_checkpoint_key_idem [of snap key] create_checkpoint_key_whitespace [of a b rest]
    fingerprint_eq_iff [of a b]
  by blast

text \<open>
  C3 as stated fails for letter case: nothing in the key construction folds case, and two
  addresses that differ only in case get different fingerprints.
\<close>

theorem checkpoint_key_case_counterexample:
  "fingerprint (lit ''123 Main St'') \<noteq> fingerprint (lit ''123 MAIN ST'')"
  by (simp add: fingerprint_eq_iff py_split_def lit_def is_space_def)

theorem checkpoint_key_normalization_witness:
  "fingerprint (lit '' 123  Main  St'' @ [10]) = fingerprint (lit ''123 Main St'') \<and>
   create_checkpoint_key
     [(lit ''address'', PStr (lit ''123 Main St'')), (lit ''city'', PStr []),
      (lit ''sale_date'', PStr []), (lit ''file_date'', PStr []),
      (lit ''property_type'', PStr []), (lit ''pdf_downloaded'', PBool False)]
   = Returned
     [(lit ''address'', PStr (lit ''123 Main St'')), (lit ''city'', PStr []),
      (lit ''sale_date'', PStr []), (lit ''file_date'', PStr []),
      (lit ''property_type'', PStr []), (lit ''pdf_downloaded'', PBool False)]"
proof -
  define x where "x = lit '' 123  Main  St'' @ [10]"
  have s: "py_split x = py_split (lit ''123 Main St'')"
    by (simp add: x_def py_split_def lit_def is_space_def)
  have n: "normalize_address (strip x) = lit ''123 Main St''"
    by (simp add: normalize_address_eq py_split_strip)
      (simp add: x_def py_split_def lit_def is_space_def)
  have k: "create_checkpoint_key [(lit ''address'', PStr x)]
    = Returned
     [(lit ''address'', PStr (lit ''123 Main St'')), (lit ''city'', PStr []),
      (lit ''sale_date'', PStr []), (lit ''file_date'', PStr []),
      (lit ''property_type'', PStr []), (lit ''pdf_downloaded'', PBool False)]"
    using n by (simp add: create_checkpoint_key_def dict_get_def val_strip_def lit_def strip_def)
  from checkpoint_key_normalization
    [of "[(lit ''address'', PStr x)]" _ x "lit ''123 Main St''"] s k
  show ?thesis unfolding x_def by blast
qed

section \<open>Properties of the ledger\<close>

lemma save_checkpoints_processed:
  "processed_pdfs (snd (save_checkpoints w self)) = processed_pdfs self"
  by (cases w) (simp_all add: save_checkpoints_def)

lemma save_parsed_data_processed:
  "processed_pdfs (save_parsed_data w data self) = processed_pdfs self"
  by (cases w) (simp_all add: save_parsed_data_def)

lemma save_parsed_pdf_data_mono:
  "processed_pdfs self \<subseteq> processed_pdfs (snd (save_parsed_pdf_data create w_data w_ckpt fd self))"
proof -
  have *: "\<And>u. processed_pdfs (snd (case save_checkpoints w_ckpt u of
                 (Raised, self) \<Rightarrow> (False, self) | (Returned _, self) \<Rightarrow> (True, self)))
             = processed_pdfs u"
    by (cases w_ckpt) (simp_all add: save_checkpoints_def)
  show ?thesis
    by (auto simp: save_parsed_pdf_data_def Let_def * save_parsed_data_processed
        split: outcome.splits bool.splits pyval.splits)
qed

lemma save_parsed_pdf_data_marks:
  assumes "save_parsed_pdf_data create w_data w_ckpt fd self = (True, self')"
    and "check_if_already_parsed fd (load_parsed_data self) = Returned False"
  shows "source_pdf_file fd \<in> processed_pdfs self'"
proof -
  have *: "\<And>u. processed_pdfs (snd (case save_checkpoints w_ckpt u of
                 (Raised, self) \<Rightarrow> (False, self) | (Returned _, self) \<Rightarrow> (True, self)))
             = processed_pdfs u"
    by (cases w_ckpt) (simp_all add: save_checkpoints_def)
  from assms(1) have "self' = snd (save_parsed_pdf_data create w_data w_ckpt fd self)"
    and t: "fst (save_parsed_pdf_data create w_data w_ckpt fd self)" by simp_all
  then show ?thesis using assms(2)
    by (auto simp: save_parsed_pdf_data_def Let_def * split: outcome.splits pyval.splits if_splits)
qed

lemma new_updater_processed:
  "processed_pdfs (new_updater parsed checkpoints)
     = (case checkpoints of Holds data \<Rightarrow> data | Missing \<Rightarrow> {} | Unreadable \<Rightarrow> {})"
  by (simp add: new_updater_def load_checkpoints_def Let_def)

lemma ledger_step_mono:
  "keeps_instance op \<Longrightarrow> processed_pdfs self \<subseteq> processed_pdfs (ledger_step create self op)"
  by (cases op)
    (simp_all add: keeps_instance_def save_checkpoints_processed save_parsed_data_processed
      save_parsed_pdf_data_mono)

lemma ledger_run_mono:
  "list_all keeps_instance ops \<Longrightarrow>
   processed_pdfs self \<subseteq> processed_pdfs (ledger_run create self ops)"
  unfolding ledger_run_def
proof (induction ops arbitrary: self)
  case Nil
  show ?case by simp
next
  case (Cons op ops)
  from Cons.prems have k: "keeps_instance op" and ks: "list_all keeps_instance ops" by simp_all
  have "processed_pdfs self \<subseteq> processed_pdfs (ledger_step create self op)"
    by (rule ledger_step_mono [OF k])
  also have "\<dots> \<subseteq> processed_pdfs (foldl (ledger_step create) (ledger_step create self op) ops)"
    by (rule Cons.IH [OF ks])
  finally show ?case by simp
qed

lemma save_parsed_pdf_data_synced:
  "synced self \<Longrightarrow> synced (snd (save_parsed_pdf_data create w_data Written fd self))"
  by (cases w_data)
    (auto simp: save_parsed_pdf_data_def Let_def synced_def load_checkpoints_def
      save_parsed_data_def save_checkpoints_def
      split: outcome.splits bool.splits pyval.splits json_file.splits)

lemma ledger_step_synced:
  assumes "synced self" and "checkpoint_written op"
  shows "processed_pdfs self \<subseteq> processed_pdfs (ledger_step create self op) \<and>
         synced (ledger_step create self op)"
proof (cases op)
  case Reopen
  then show ?thesis
    using assms(1)
    by (auto simp: synced_def new_updater_def load_checkpoints_def Let_def split: json_file.splits)
next
  case (Save_checkpoints w)
  with assms(2) have "w = Written" by (simp add: checkpoint_written_def)
  with Save_checkpoints show ?thesis
    by (simp add: synced_def save_checkpoints_def load_checkpoints_def)
next
  case Load_parsed_data
  then show ?thesis using assms(1) by simp
next
  case (Save_parsed_data w data)
  then show ?thesis
    using assms(1)
    by (cases w) (auto simp: synced_def save_parsed_data_def load_checkpoints_def)
next
  case (Save_parsed_pdf_data w_data w_ckpt fd)
  with assms(2) have "w_ckpt = Written" by (simp add: checkpoint_written_def)
  with Save_parsed_pdf_data show ?thesis
    using save_parsed_pdf_data_mono [of self create w_data Written fd]
      save_parsed_pdf_data_synced [OF assms(1), of create w_data fd]
    by simp
qed

lemma ledger_run_synced:
  "synced self \<Longrightarrow> list_all checkpoint_written ops \<Longrightarrow>
   processed_pdfs self \<subseteq> processed_pdfs (ledger_run create self ops)"
  unfolding ledger_run_def
proof (induction ops arbitrary: self)
  case Nil
  show ?case by simp
next
  case (Cons op ops)
  from Cons.prems have w: "checkpoint_written op" and ws: "list_all checkpoint_written ops"
    by simp_all
  from ledger_step_synced [OF Cons.prems(1) w, of create]
  have m: "processed_pdfs self \<subseteq> processed_pdfs (ledger_step create self op)"
    and s: "synced (ledger_step create self op)" by simp_all
  note m
  also have "processed_pdfs (ledger_step create self op)
      \<subseteq> processed_pdfs (foldl (ledger_step create) (ledger_step create self op) ops)"
    by (rule Cons.IH [OF s ws])
  finally show ?case by simp
qed

lemma mark_listing_mono:
  "processed_checkpoints st \<subseteq> processed_checkpoints (snd (mark_listing w snap st))"
  by (cases w; cases "create_checkpoint_key snap")
    (auto simp: mark_listing_def save_checkpoint_def)

text \<open>
  C9, as the specification words it, fails: the load of the program replaces the set by
  what the checkpoint file gives, and a checkpoint write that fails after truncating the
  file leaves nothing to read. A first document is stored and marked, with both writes
  succeeding; the checkpoint write of a second document fails; an updater constructed on
  the files afterwards reports neither document processed.
\<close>

theorem ledger_reload_counterexample:
  "is_processed
     (ledger_run plain_record (new_updater Missing Missing)
        [Save_parsed_pdf_data Written Written (document_named ''1.pdf'')])
     (PStr (lit ''1.pdf'')) = True \<and>
   is_processed
     (ledger_run plain_record (new_updater Missing Missing)
        [Save_parsed_pdf_data Written Written (document_named ''1.pdf''),
         Save_parsed_pdf_data Written Truncated (document_named ''2.pdf''),
         Reopen])
     (PStr (lit ''1.pdf'')) = False"
  by (simp add: ledger_run_def is_processed_def new_updater_def load_checkpoints_def Let_def
      save_parsed_pdf_data_def load_parsed_data_def check_if_already_parsed_def py_iter_def
      document_named_def plain_record_def default_args_def dict_get_def
      save_parsed_data_def save_checkpoints_def hashable_def str_replace.simps lit_def)

text \<open>
  C9, amended. On one updater, without a reload, no run of operations removes a file name
  from the set, whatever the outcomes of the writes and whatever \<^verbatim>\<open>create_parsed_record\<close>
  does. With reloads this holds for an updater whose set is contained in what its
  checkpoint file gives (as it is after construction) when every checkpoint write of the
  run succeeds. Marking a listing in the scraper's set removes no key from it.
\<close>

theorem ledger_monotone:
  "(list_all keeps_instance ops \<and> is_processed self k \<longrightarrow>
      is_processed (ledger_run create self ops) k) \<and>
   (synced self \<and> list_all checkpoint_written ops \<and> is_processed self k \<longrightarrow>
      is_processed (ledger_run create self ops) k) \<and>
   (key \<in> processed_checkpoints st \<longrightarrow>
      key \<in> processed_checkpoints (snd (mark_listing w snap st)))"
  using ledger_run_mono [of ops self create] ledger_run_synced [of self ops create]
    mark_listing_mono [of st w snap]
  unfolding is_processed_def by blast

theorem ledger_monotone_witness:
  "is_processed
     (ledger_run plain_record (new_updater Missing (Holds {PStr (lit ''1.pdf'')}))
        [Save_checkpoints Truncated,
         Save_parsed_pdf_data Written OpenFailed (document_named ''2.pdf'')])
     (PStr (lit ''1.pdf'')) \<and>
   is_processed
     (ledger_run plain_record (new_updater Missing (Holds {PStr (lit ''1.pdf'')}))
        [Save_parsed_pdf_data Truncated Written (document_named ''2.pdf''), Reopen,
         Save_checkpoints Written, Reopen])
     (PStr (lit ''1.pdf'')) \<and>
   [] \<in> processed_checkpoints
     (snd (mark_listing Written [] \<lparr>processed_checkpoints = {[]}, checkpoints_stored = Missing\<rparr>))"
proof -
  define u where "u = new_updater Missing (Holds {PStr (lit ''1.pdf'')})"
  have h1: "is_processed u (PStr (lit ''1.pdf''))"
    by (simp add: u_def is_processed_def new_updater_def load_checkpoints_def Let_def)
  have s: "synced u"
    by (simp add: u_def synced_def new_updater_def load_checkpoints_def Let_def)
  have k: "list_all keeps_instance
      [Save_checkpoints Truncated,
       Save_parsed_pdf_data Written OpenFailed (document_named ''2.pdf'')]"
    by (simp add: keeps_instance_def)
  have w: "list_all checkpoint_written
      [Save_parsed_pdf_data Truncated Written (document_named ''2.pdf''), Reopen,
       Save_checkpoints Written, Reopen]"
    by (simp add: checkpoint_written_def)
  have h3: "[] \<in> processed_checkpoints \<lparr>processed_checkpoints = {[]}, checkpoints_stored = Missing\<rparr>"
    by simp
  from ledger_monotone
    [where ops = "[Save_checkpoints Truncated,
       Save_parsed_pdf_data Written OpenFailed (document_named ''2.pdf'')]"
      and self = u and k = "PStr (lit ''1.pdf'')" and create = plain_record] k h1
  have c1: "is_processed
     (ledger_run plain_record u
        [Save_checkpoints Truncated,
         Save_parsed_pdf_data Written OpenFailed (document_named ''2.pdf'')])
     (PStr (lit ''1.pdf''))"
    by blast
  from ledger_monotone
    [where ops = "[Save_parsed_pdf_data Truncated Written (document_named ''2.pdf''), Reopen,
       Save_checkpoints Written, Reopen]"
      and self = u and k = "PStr (lit ''1.pdf'')" and create = plain_record] s w h1
  have c2: "is_processed
     (ledger_run plain_record u
        [Save_parsed_pdf_data Truncated Written (document_named ''2.pdf''), Reopen,
         Save_checkpoints Written, Reopen])
     (PStr (lit ''1.pdf''))"
    by blast
  from ledger_monotone
    [where key = "[]" and st = "\<lparr>processed_checkpoints = {[]}, checkpoints_stored = Missing\<rparr>"
      and w = Written and snap = "[]"] h3
  have c3: "[] \<in> processed_checkpoints
     (snd (mark_listing Written [] \<lparr>processed_checkpoints = {[]}, checkpoints_stored = Missing\<rparr>))"
    by blast
  from c1 c2 c3 show ?thesis unfolding u_def by blast
qed

section \<open>The request loop\<close>

lemma api_attempt_events:
  "events (snd (api_attempt g t p))
     = events p @ (if api_requests p > 0 then [Rate_limit_sleep 2] else []) @ [Generate] \<and>
   failed_requests (snd (api_attempt g t p)) = failed_requests p"
  unfolding api_attempt_def Let_def
  by (auto simp add: log_event_def split: outcome.split option.split attr.split)

lemma range_max_retries: "[0..<max_retries] = [0, 1, 2]"
  by (simp add: max_retries_def upt_rec)

lemma api_attempt_result:
  "fst (api_attempt g t p)
     = (case attempt_answer (g (calls_made p) t) of None \<Rightarrow> Raised | Some d \<Rightarrow> Returned d)"
  unfolding api_attempt_def attempt_answer_def calls_made_def Let_def
  by (auto simp add: log_event_def split: outcome.split option.split attr.split)

lemma api_attempt_calls:
  "calls_made (snd (api_attempt g t p)) = calls_made p + 1"
  using api_attempt_events [of g t p] by (simp add: calls_made_def)

lemma backoff_calls: "calls_made (log_event (Backoff_sleep n) p) = calls_made p"
  by (simp add: calls_made_def log_event_def)


lemma rate_limit_filter:
  "filter (\<lambda>e. \<not> is_rate_limit e) (if 0 < n then [Rate_limit_sleep 2] else []) = []"
  "filter (\<lambda>e. e = Generate) (if 0 < n then [Rate_limit_sleep 2] else []) = []"
  by (simp_all add: is_rate_limit_def)

lemma is_rate_limit_simps:
  "is_rate_limit Generate = False" "is_rate_limit (Backoff_sleep n) = False"
  "is_rate_limit (Rate_limit_sleep n) = True"
  by (simp_all add: is_rate_limit_def)

text \<open>
  C7. Whatever the generative service does, one call of \<^verbatim>\<open>_make_api_request\<close> only appends
  to the log and calls the service at most three times. The first attempt that does not
  fail gives the result, and no further call is made. Before the second attempt the wrapper
  sleeps 3 seconds and before the third 6 seconds. When all three attempts fail the result
  is \<^verbatim>\<open>None\<close> and one failed request is counted. The function is total: it returns, and no
  exception leaves it.
\<close>

theorem make_api_request_bounded:
  "events (snd (make_api_request generate pdf_text self))
     = events self @ new_events generate pdf_text self \<and>
   length (filter (\<lambda>e. e = Generate) (new_events generate pdf_text self)) \<le> 3 \<and>
   (attempt_result generate pdf_text self 0 \<noteq> None \<longrightarrow>
      fst (make_api_request generate pdf_text self) = attempt_result generate pdf_text self 0 \<and>
      backoff_trace generate pdf_text self = [Generate] \<and>
      failed_requests (snd (make_api_request generate pdf_text self)) = failed_requests self) \<and>
   (attempt_result generate pdf_text self 0 = None \<and>
    attempt_result generate pdf_text self 1 \<noteq> None \<longrightarrow>
      fst (make_api_request generate pdf_text self) = attempt_result generate pdf_text self 1 \<and>
      backoff_trace generate pdf_text self = [Generate, Backoff_sleep 3, Generate] \<and>
      failed_requests (snd (make_api_request generate pdf_text self)) = failed_requests self) \<and>
   (attempt_result generate pdf_text self 0 = None \<and>
    attempt_result generate pdf_text self 1 = None \<and>
    attempt_result generate pdf_text self 2 \<noteq> None \<longrightarrow>
      fst (make_api_request generate pdf_text self) = attempt_result generate pdf_text self 2 \<and>
      backoff_trace generate pdf_text self
        = [Generate, Backoff_sleep 3, Generate, Backoff_sleep 6, Generate] \<and>
      failed_requests (snd (make_api_request generate pdf_text self)) = failed_requests self) \<and>
   (attempt_result generate pdf_text self 0 = None \<and>
    attempt_result generate pdf_text self 1 = None \<and>
    attempt_result generate pdf_text self 2 = None \<longrightarrow>
      fst (make_api_request generate pdf_text self) = None \<and>
      backoff_trace generate pdf_text self
        = [Generate, Backoff_sleep 3, Generate, Backoff_sleep 6, Generate] \<and>
      failed_requests (snd (make_api_request generate pdf_text self)) = failed_requests self + 1)"
proof -
  define t where "t = sent_text pdf_text"
  define c where "c = calls_made self"
  define L where "L = attempt_loop generate t [0, 1, 2] self"
  have m: "make_api_request generate pdf_text self = L"
    by (simp only: make_api_request_def Let_def t_def L_def range_max_retries sent_text_def)
  obtain r0 q0 where a0: "api_attempt generate t self = (r0, q0)"
    by (cases "api_attempt generate t self")
  define p1 where "p1 = log_event (Backoff_sleep 3) q0"
  obtain r1 q1 where a1: "api_attempt generate t p1 = (r1, q1)"
    by (cases "api_attempt generate t p1")
  define p2 where "p2 = log_event (Backoff_sleep 6) q1"
  obtain r2 q2 where a2: "api_attempt generate t p2 = (r2, q2)"
    by (cases "api_attempt generate t p2")
  define rl0 where "rl0 = (if 0 < api_requests self then [Rate_limit_sleep 2] else [])"
  define rl1 where "rl1 = (if 0 < api_requests p1 then [Rate_limit_sleep 2] else [])"
  define rl2 where "rl2 = (if 0 < api_requests p2 then [Rate_limit_sleep 2] else [])"
  have rlf: "filter (\<lambda>e. \<not> is_rate_limit e) rl0 = []" "filter (\<lambda>e. e = Generate) rl0 = []"
    "filter (\<lambda>e. \<not> is_rate_limit e) rl1 = []" "filter (\<lambda>e. e = Generate) rl1 = []"
    "filter (\<lambda>e. \<not> is_rate_limit e) rl2 = []" "filter (\<lambda>e. e = Generate) rl2 = []"
    unfolding rl0_def rl1_def rl2_def by (rule rate_limit_filter)+
  have q0s: "q0 = snd (api_attempt generate t self)" "r0 = fst (api_attempt generate t self)"
    using a0 by simp_all
  have q1s: "q1 = snd (api_attempt generate t p1)" "r1 = fst (api_attempt generate t p1)"
    using a1 by simp_all
  have q2s: "q2 = snd (api_attempt generate t p2)" "r2 = fst (api_attempt generate t p2)"
    using a2 by simp_all
  have e0: "events q0 = events self @ rl0 @ [Generate]"
    and f0: "failed_requests q0 = failed_requests self"
    unfolding q0s using api_attempt_events [of generate t self] by (simp_all add: rl0_def)
  have k0: "calls_made q0 = c + 1"
    unfolding q0s using api_attempt_calls [of generate t self] by (simp add: c_def)
  have v0: "r0 = (case attempt_result generate pdf_text self 0 of
                    None \<Rightarrow> Raised | Some d \<Rightarrow> Returned d)"
    unfolding q0s attempt_result_def t_def [symmetric]
    using api_attempt_result [of generate t self] by simp
  have ep1: "events p1 = events q0 @ [Backoff_sleep 3]"
    "failed_requests p1 = failed_requests q0" "calls_made p1 = calls_made q0"
    by (simp_all add: p1_def log_event_def calls_made_def)
  have e1: "events q1 = events self @ rl0 @ [Generate, Backoff_sleep 3] @ rl1 @ [Generate]"
    and f1: "failed_requests q1 = failed_requests self"
    unfolding q1s using api_attempt_events [of generate t p1]
    by (simp_all add: rl1_def ep1 e0 f0)
  have k1: "calls_made q1 = c + 2"
    unfolding q1s using api_attempt_calls [of generate t p1] by (simp add: ep1 k0)
  have v1: "r1 = (case attempt_result generate pdf_text self 1 of
                    None \<Rightarrow> Raised | Some d \<Rightarrow> Returned d)"
    unfolding q1s attempt_result_def t_def [symmetric]
    using api_attempt_result [of generate t p1] by (simp add: ep1 k0 c_def)
  have ep2: "events p2 = events q1 @ [Backoff_sleep 6]"
    "failed_requests p2 = failed_requests q1" "calls_made p2 = calls_made q1"
    by (simp_all add: p2_def log_event_def calls_made_def)
  have e2: "events q2 = events self @ rl0 @ [Generate, Backoff_sleep 3] @ rl1
              @ [Generate, Backoff_sleep 6] @ rl2 @ [Generate]"
    and f2: "failed_requests q2 = failed_requests self"
    unfolding q2s using api_attempt_events [of generate t p2]
    by (simp_all add: rl2_def ep2 e1 f1)
  have v2: "r2 = (case attempt_result generate pdf_text self 2 of
                    None \<Rightarrow> Raised | Some d \<Rightarrow> Returned d)"
    unfolding q2s attempt_result_def t_def [symmetric]
    using api_attempt_result [of generate t p2] by (simp add: ep2 k1 c_def)
  have loop: "L = (case r0 of
        Returned d \<Rightarrow> (Some d, q0)
      | Raised \<Rightarrow>
          (case r1 of
             Returned d \<Rightarrow> (Some d, q1)
           | Raised \<Rightarrow>
               (case r2 of
                  Returned d \<Rightarrow> (Some d, q2)
                | Raised \<Rightarrow> (None, q2\<lparr>failed_requests := failed_requests q2 + 1\<rparr>))))"
  proof -
    have l0: "attempt_loop generate t [0, 1, 2] self
        = (case r0 of Returned d \<Rightarrow> (Some d, q0)
           | Raised \<Rightarrow> attempt_loop generate t [1, 2] p1)"
      by (simp add: a0 p1_def max_retries_def split: outcome.split)
    have l1: "attempt_loop generate t [1, 2] p1
        = (case r1 of Returned d \<Rightarrow> (Some d, q1)
           | Raised \<Rightarrow> attempt_loop generate t [2] p2)"
      by (simp add: a1 p2_def max_retries_def split: outcome.split)
    have l2: "attempt_loop generate t [2] p2
        = (case r2 of Returned d \<Rightarrow> (Some d, q2)
           | Raised \<Rightarrow> (None, q2\<lparr>failed_requests := failed_requests q2 + 1\<rparr>))"
      by (simp add: a2 max_retries_def split: outcome.split)
    show ?thesis
      by (simp only: L_def l0 l1 l2)
  qed
  define new where "new = drop (length (events self)) (events (snd L))"
  have ne: "new_events generate pdf_text self = new"
    by (simp only: new_events_def m new_def)
  have bt: "backoff_trace generate pdf_text self = filter (\<lambda>e. \<not> is_rate_limit e) new"
    by (simp only: backoff_trace_def ne)
  consider
      (s0) d where "attempt_result generate pdf_text self 0 = Some d"
    | (s1) d where "attempt_result generate pdf_text self 0 = None"
        "attempt_result generate pdf_text self 1 = Some d"
    | (s2) d where "attempt_result generate pdf_text self 0 = None"
        "attempt_result generate pdf_text self 1 = None"
        "attempt_result generate pdf_text self 2 = Some d"
    | (s3) "attempt_result generate pdf_text self 0 = None"
        "attempt_result generate pdf_text self 1 = None"
        "attempt_result generate pdf_text self 2 = None"
    by (cases "attempt_result generate pdf_text self 0";
        cases "attempt_result generate pdf_text self 1";
        cases "attempt_result generate pdf_text self 2") auto
  then show ?thesis
  proof cases
    case s0
    have l: "L = (Some d, q0)" using loop v0 s0 by simp
    have n: "new = rl0 @ [Generate]" by (simp add: new_def l e0)
    show ?thesis
      unfolding m bt ne using s0 by (simp add: n l e0 f0 rlf is_rate_limit_simps)
  next
    case s1
    have l: "L = (Some d, q1)" using loop v0 v1 s1 by simp
    have n: "new = rl0 @ [Generate, Backoff_sleep 3] @ rl1 @ [Generate]" by (simp add: new_def l e1)
    show ?thesis
      unfolding m bt ne using s1 by (simp add: n l e1 f1 rlf is_rate_limit_simps)
  next
    case s2
    have l: "L = (Some d, q2)" using loop v0 v1 v2 s2 by simp
    have n: "new = rl0 @ [Generate, Backoff_sleep 3] @ rl1 @ [Generate, Backoff_sleep 6] @ rl2
        @ [Generate]" by (simp add: new_def l e2)
    show ?thesis
      unfolding m bt ne using s2 by (simp add: n l e2 f2 rlf is_rate_limit_simps)
  next
    case s3
    have l: "L = (None, q2\<lparr>failed_requests := failed_requests q2 + 1\<rparr>)"
      using loop v0 v1 v2 s3 by simp
    have n: "new = rl0 @ [Generate, Backoff_sleep 3] @ rl1 @ [Generate, Backoff_sleep 6] @ rl2
        @ [Generate]" by (simp add: new_def l e2)
    show ?thesis
      unfolding m bt ne using s3 by (simp add: n l e2 f2 rlf is_rate_limit_simps)
  qed
qed

theorem make_api_request_bounded_witness:
  "fst (make_api_request dead_service (lit ''NOTICE OF SALE'') quiet_parser) = None \<and>
   backoff_trace dead_service (lit ''NOTICE OF SALE'') quiet_parser
     = [Generate, Backoff_sleep 3, Generate, Backoff_sleep 6, Generate] \<and>
   failed_requests (snd (make_api_request dead_service (lit ''NOTICE OF SALE'') quiet_parser)) = 1 \<and>
   fst (make_api_request flaky_service (lit ''NOTICE OF SALE'') quiet_parser)
     = Some [(lit ''court'', PStr (lit ''x''))] \<and>
   backoff_trace flaky_service (lit ''NOTICE OF SALE'') quiet_parser
     = [Generate, Backoff_sleep 3, Generate]"
proof -
  have d: "attempt_result dead_service (lit ''NOTICE OF SALE'') quiet_parser 0 = None"
    "attempt_result dead_service (lit ''NOTICE OF SALE'') quiet_parser 1 = None"
    "attempt_result dead_service (lit ''NOTICE OF SALE'') quiet_parser 2 = None"
    by (simp_all add: attempt_result_def attempt_answer_def dead_service_def)
  have f: "failed_requests quiet_parser = 0"
    by (simp add: quiet_parser_def)
  have c: "calls_made quiet_parser = 0"
    by (simp add: calls_made_def quiet_parser_def)
  have s: "strip court_json = court_json" "court_json \<noteq> []"
    by (simp_all add: court_json_def quoted_def strip_def lit_def is_space_def)
  have f0: "attempt_result flaky_service (lit ''NOTICE OF SALE'') quiet_parser 0 = None"
    by (simp add: attempt_result_def attempt_answer_def flaky_service_def c)
  have f1: "attempt_result flaky_service (lit ''NOTICE OF SALE'') quiet_parser 1
      = Some [(lit ''court'', PStr (lit ''x''))]"
    by (simp add: attempt_result_def attempt_answer_def flaky_service_def c
        get_response_text_def s court_json_recovered)
  from make_api_request_bounded [of dead_service "lit ''NOTICE OF SALE''" quiet_parser] d f
  have a: "fst (make_api_request dead_service (lit ''NOTICE OF SALE'') quiet_parser) = None \<and>
   backoff_trace dead_service (lit ''NOTICE OF SALE'') quiet_parser
     = [Generate, Backoff_sleep 3, Generate, Backoff_sleep 6, Generate] \<and>
   failed_requests (snd (make_api_request dead_service (lit ''NOTICE OF SALE'') quiet_parser)) = 1"
    by simp
  from make_api_request_bounded [of flaky_service "lit ''NOTICE OF SALE''" quiet_parser] f0 f1
  have b: "fst (make_api_request flaky_service (lit ''NOTICE OF SALE'') quiet_parser)
     = Some [(lit ''court'', PStr (lit ''x''))] \<and>
   backoff_trace flaky_service (lit ''NOTICE OF SALE'') quiet_parser
     = [Generate, Backoff_sleep 3, Generate]"
    by simp
  from a b show ?thesis by blast
qed

section \<open>Manual field extraction\<close>

lemma manual_loop_step:
  "manual_loop (key # keys) t (res, n) = Returned out \<Longrightarrow>
   manual_loop keys t
     (case field_value key t of None \<Rightarrow> (res, n)
      | Some v \<Rightarrow> (AList.update (lit key) (PStr v) res, n + 1)) = Returned out"
  by (auto simp add: field_value_def split: option.splits outcome.splits if_splits)

lemma manual_loop_count:
  "manual_loop keys t (res, n) = Returned (res', n') \<Longrightarrow>
   n' = n + length (filter (\<lambda>key. field_value key t \<noteq> None) keys)"
proof (induction keys arbitrary: res n)
  case Nil
  then show ?case by simp
next
  case (Cons key keys)
  show ?case
  proof (cases "field_value key t")
    case None
    with manual_loop_step [OF Cons.prems] have "manual_loop keys t (res, n) = Returned (res', n')"
      by simp
    from Cons.IH [OF this] None show ?thesis by simp
  next
    case (Some v)
    with manual_loop_step [OF Cons.prems]
    have "manual_loop keys t (AList.update (lit key) (PStr v) res, n + 1) = Returned (res', n')"
      by simp
    from Cons.IH [OF this] Some show ?thesis by simp
  qed
qed

lemma manual_loop_keys:
  "manual_loop keys t (res, n) = Returned (res', n') \<Longrightarrow>
   lit ` set keys \<subseteq> fst ` set res \<Longrightarrow> map fst res' = map fst res"
proof (induction keys arbitrary: res n)
  case Nil
  then show ?case by simp
next
  case (Cons key keys)
  from Cons.prems(2) have k: "lit key \<in> fst ` set res" and ks: "lit ` set keys \<subseteq> fst ` set res"
    by simp_all
  show ?case
  proof (cases "field_value key t")
    case None
    with manual_loop_step [OF Cons.prems(1)] have "manual_loop keys t (res, n) = Returned (res', n')"
      by simp
    from Cons.IH [OF this ks] show ?thesis .
  next
    case (Some v)
    have u: "map fst (AList.update (lit key) (PStr v) res) = map fst res"
      using k by (simp add: update_keys)
    from Some manual_loop_step [OF Cons.prems(1)]
    have l: "manual_loop keys t (AList.update (lit key) (PStr v) res, n + 1) = Returned (res', n')"
      by simp
    have "lit ` set keys \<subseteq> fst ` set (AList.update (lit key) (PStr v) res)"
      using ks u by (metis set_map)
    from Cons.IH [OF l this] u show ?thesis by simp
  qed
qed

lemma manual_loop_default:
  "manual_loop keys t (res, n) = Returned (res', n') \<Longrightarrow>
   \<forall>key \<in> set keys. lit key = p \<longrightarrow> field_value key t = None \<Longrightarrow>
   map_of res' p = map_of res p"
proof (induction keys arbitrary: res n)
  case Nil
  then show ?case by simp
next
  case (Cons key keys)
  from Cons.prems(2) have ks: "\<forall>key \<in> set keys. lit key = p \<longrightarrow> field_value key t = None"
    by simp
  show ?case
  proof (cases "field_value key t")
    case None
    with manual_loop_step [OF Cons.prems(1)] have "manual_loop keys t (res, n) = Returned (res', n')"
      by simp
    from Cons.IH [OF this ks] show ?thesis .
  next
    case (Some v)
    with Cons.prems(2) have ne: "lit key \<noteq> p" by auto
    from Some manual_loop_step [OF Cons.prems(1)]
    have l: "manual_loop keys t (AList.update (lit key) (PStr v) res, n + 1) = Returned (res', n')"
      by simp
    from Cons.IH [OF l ks] ne show ?thesis by (simp add: update_conv')
  qed
qed

lemma manual_loop_found:
  "manual_loop keys t (res, n) = Returned (res', n') \<Longrightarrow>
   key \<in> set keys \<Longrightarrow> field_value key t = Some v \<Longrightarrow>
   map_of res' (lit key) = Some (PStr v)"
proof (induction keys arbitrary: res n)
  case Nil
  then show ?case by simp
next
  case (Cons k keys)
  define acc where "acc = (case field_value k t of None \<Rightarrow> (res, n)
      | Some v \<Rightarrow> (AList.update (lit k) (PStr v) res, n + 1))"
  have l: "manual_loop keys t (fst acc, snd acc) = Returned (res', n')"
    using manual_loop_step [OF Cons.prems(1)] by (simp add: acc_def)
  show ?case
  proof (cases "key \<in> set keys")
    case True
    from Cons.IH [OF l True Cons.prems(3)] show ?thesis .
  next
    case False
    with Cons.prems(2) have kk: "k = key" by simp
    have "\<forall>k' \<in> set keys. lit k' = lit key \<longrightarrow> field_value k' t = None"
      using False by (auto simp add: lit_inj)
    from manual_loop_default [OF l this]
    show ?thesis using Cons.prems(3) by (simp add: acc_def kk update_conv')
  qed
qed

lemma manual_keys_template: "lit ` set manual_keys \<subseteq> fst ` set manual_template"
  by (simp add: manual_keys_def manual_template_def)

lemma borrower_not_manual_key: "\<forall>key \<in> set manual_keys. lit key \<noteq> lit ''borrower_names''"
  by (simp add: manual_keys_def lit_inj)

lemma template_borrowers: "map_of manual_template (lit ''borrower_names'') = Some (PList [])"
  by (simp add: manual_template_def lit_inj)

lemma template_patterned: "\<forall>key \<in> set manual_keys. map_of manual_template (lit key) = Some PNone"
  by (simp add: manual_keys_def manual_template_def lit_inj)

text \<open>
  What holds of \<^verbatim>\<open>_manual_json_extraction\<close> for every response: it returns \<^verbatim>\<open>None\<close> when
  its counter stays below three, and a dictionary it returns has exactly the keys of the
  initial dictionary; under a patterned key it holds the value found, or \<^verbatim>\<open>None\<close> when the
  pattern found nothing; under \<^verbatim>\<open>borrower_names\<close> what was stored for the array, or the
  empty list; under every other key what the initial dictionary holds.
\<close>

lemma manual_json_extraction_defaults:
  "(counted_fields t < 3 \<longrightarrow> manual_json_extraction t = None) \<and>
   (manual_json_extraction t = Some result \<longrightarrow>
      3 \<le> counted_fields t \<and>
      map fst result = map fst manual_template \<and>
      (\<forall>key \<in> set manual_keys.
         map_of result (lit key)
           = Some (case field_value key t of None \<Rightarrow> PNone | Some v \<Rightarrow> PStr v)) \<and>
      map_of result (lit ''borrower_names'')
        = Some (case borrower_value t of None \<Rightarrow> PList [] | Some names \<Rightarrow> names) \<and>
      (\<forall>key. key \<notin> lit ` set manual_keys \<and> key \<noteq> lit ''borrower_names''
         \<longrightarrow> map_of result key = map_of manual_template key))"
proof -
  have main: "3 \<le> counted_fields t \<and>
      map fst r = map fst manual_template \<and>
      (\<forall>key \<in> set manual_keys.
         map_of r (lit key)
           = Some (case field_value key t of None \<Rightarrow> PNone | Some v \<Rightarrow> PStr v)) \<and>
      map_of r (lit ''borrower_names'')
        = Some (case borrower_value t of None \<Rightarrow> PList [] | Some names \<Rightarrow> names) \<and>
      (\<forall>key. key \<notin> lit ` set manual_keys \<and> key \<noteq> lit ''borrower_names''
         \<longrightarrow> map_of r key = map_of manual_template key)"
    if a: "manual_json_extraction t = Some r" for r
  proof -
    from a obtain res n where
      l: "manual_loop manual_keys t (manual_template, 0) = Returned (res, n)"
      by (auto simp add: manual_json_extraction_def split: outcome.splits)
    from a l obtain names where b: "manual_borrowers t = Returned names"
      by (auto simp add: manual_json_extraction_def split: outcome.splits)
    have n: "n = length (filter (\<lambda>key. field_value key t \<noteq> None) manual_keys)"
      using manual_loop_count [OF l] by simp
    have keys: "map fst res = map fst manual_template"
      by (rule manual_loop_keys [OF l manual_keys_template])
    have patterned: "map_of res (lit key)
           = Some (case field_value key t of None \<Rightarrow> PNone | Some v \<Rightarrow> PStr v)"
      if k: "key \<in> set manual_keys" for key
    proof (cases "field_value key t")
      case None
      have "\<forall>k \<in> set manual_keys. lit k = lit key \<longrightarrow> field_value k t = None"
        using None by (simp add: lit_inj)
      from manual_loop_default [OF l this] template_patterned k None
      show ?thesis by simp
    next
      case (Some v)
      from manual_loop_found [OF l k Some] Some show ?thesis by simp
    qed
    have other: "map_of res key = map_of manual_template key"
      if "key \<notin> lit ` set manual_keys" for key
    proof -
      have "\<forall>k \<in> set manual_keys. lit k = key \<longrightarrow> field_value k t = None"
        using that by auto
      from manual_loop_default [OF l this] show ?thesis .
    qed
    have bk: "lit ''borrower_names'' \<notin> lit ` set manual_keys"
      using borrower_not_manual_key by auto
    have bmem: "lit ''borrower_names'' \<in> set (map fst res)"
      unfolding keys by (simp add: manual_template_def)
    show ?thesis
    proof (cases names)
      case None
      with a l b have r: "r = res" and c: "3 \<le> n"
        by (auto simp add: manual_json_extraction_def split: if_splits)
      have bv: "borrower_value t = None"
        by (simp add: borrower_value_def b None)
      show ?thesis
        unfolding r using c n keys patterned other [OF bk] other template_borrowers
        by (simp add: counted_fields_def bv)
    next
      case (Some v)
      with a l b have r: "r = AList.update (lit ''borrower_names'') v res" and c: "3 \<le> n + 1"
        by (auto simp add: manual_json_extraction_def split: if_splits)
      have bv: "borrower_value t = Some v"
        by (simp add: borrower_value_def b Some)
      have k2: "map fst r = map fst manual_template"
        unfolding r using bmem keys by (simp add: update_keys)
      have p2: "\<forall>key \<in> set manual_keys. map_of r (lit key)
           = Some (case field_value key t of None \<Rightarrow> PNone | Some v \<Rightarrow> PStr v)"
        unfolding r using patterned borrower_not_manual_key by (simp add: update_conv')
      have o2: "\<forall>key. key \<notin> lit ` set manual_keys \<and> key \<noteq> lit ''borrower_names''
         \<longrightarrow> map_of r key = map_of manual_template key"
        unfolding r using other by (simp add: update_conv')
      have b2: "map_of r (lit ''borrower_names'') = Some v"
        unfolding r by (simp add: update_conv')
      show ?thesis
        using c n k2 p2 o2 b2 by (simp add: counted_fields_def bv)
    qed
  qed
  from main [of result] have second: "manual_json_extraction t = Some result \<longrightarrow>
      3 \<le> counted_fields t \<and>
      map fst result = map fst manual_template \<and>
      (\<forall>key \<in> set manual_keys.
         map_of result (lit key)
           = Some (case field_value key t of None \<Rightarrow> PNone | Some v \<Rightarrow> PStr v)) \<and>
      map_of result (lit ''borrower_names'')
        = Some (case borrower_value t of None \<Rightarrow> PList [] | Some names \<Rightarrow> names) \<and>
      (\<forall>key. key \<notin> lit ` set manual_keys \<and> key \<noteq> lit ''borrower_names''
         \<longrightarrow> map_of result key = map_of manual_template key)"
    by blast
  have first: "counted_fields t < 3 \<longrightarrow> manual_json_extraction t = None"
  proof
    assume lt: "counted_fields t < 3"
    show "manual_json_extraction t = None"
    proof (cases "manual_json_extraction t")
      case None
      then show ?thesis .
    next
      case (Some r)
      from main [OF Some] lt show ?thesis by simp
    qed
  qed
  from first second show ?thesis by (rule conjI)
qed

text \<open>
  C8. The counter is not the number of fields recovered: a borrower array whose strings are
  all blank adds one to it and stores no name. On a response with two fields and such an
  array a dictionary is returned, with \<^verbatim>\<open>borrower_names\<close> empty, although only two fields
  were recovered.
\<close>

theorem manual_json_extraction_blank_borrowers:
  "manual_json_extraction blank_borrowers_example = Some blank_borrowers_result \<and>
   map_of blank_borrowers_result (lit ''borrower_names'') = Some (PList []) \<and>
   recovered_count blank_borrowers_example = 2"
proof -
  have a: "manual_json_extraction blank_borrowers_example = Some blank_borrowers_result"
    by (simp add: manual_json_extraction_def blank_borrowers_example_def
        blank_borrowers_result_def quoted_def manual_keys_def manual_pattern_def
        manual_borrowers_def borrower_pattern_def quoted_pattern_def manual_template_def
        str_lower_def lower_char_def strip_def regex_eval)
  have b: "map_of blank_borrowers_result (lit ''borrower_names'') = Some (PList [])"
    by (simp add: blank_borrowers_result_def manual_template_def lit_def)
  have c: "recovered_count blank_borrowers_example = 2"
    by (simp add: recovered_count_def borrowers_recovered_def field_value_def
        borrower_value_def blank_borrowers_example_def quoted_def manual_keys_def
        manual_pattern_def manual_borrowers_def borrower_pattern_def quoted_pattern_def
        str_lower_def lower_char_def strip_def regex_eval)
  from a b c show ?thesis by blast
qed

section \<open>Properties of the fallback\<close>

lemma find_address_nonempty:
  "find_address patterns t = Returned (Some a) \<Longrightarrow> a \<noteq> []"
  by (induction patterns) (auto split: option.splits outcome.splits if_splits)

lemma find_names_nonempty:
  "find_names patterns t = Returned (Some n) \<Longrightarrow> n \<noteq> []"
  by (induction patterns) (auto split: option.splits outcome.splits if_splits)

lemma template_keys:
  "map_of fallback_template (lit ''property_address'') = Some PNone"
  "map_of fallback_template (lit ''defendant'') = Some PNone"
  "map_of fallback_template (lit ''total_debt'') = Some PNone"
  "map_of fallback_template (lit ''deed_of_trust_date'') = Some PNone"
  "map_of fallback_template (lit ''ai_confidence'') = Some (PStr (lit ''LOW''))"
  by (simp_all add: fallback_template_def lit_inj)

lemma fallback_dict:
  assumes a: "find_address address_patterns t = Returned address"
    and n: "find_names name_patterns t = Returned names"
  obtains d where
    "fallback_extraction t =
      (if list_ex (\<lambda>field. truthy (dict_get0 d field))
            [lit ''property_address'', lit ''defendant'', lit ''total_debt'']
       then Some d else None)"
    "map_of d (lit ''property_address'') = Some (case address of None \<Rightarrow> PNone | Some a \<Rightarrow> PStr a)"
    "map_of d (lit ''defendant'') = Some (case names of None \<Rightarrow> PNone | Some n \<Rightarrow> PStr n)"
    "map_of d (lit ''total_debt'') = Some (debt_of (find_amounts t))"
    "map_of d (lit ''deed_of_trust_date'') = Some (date_of (find_dates t))"
    "map_of d (lit ''ai_confidence'') = Some (PStr (lit ''LOW''))"
proof -
  define d1 where "d1 = (case address of None \<Rightarrow> fallback_template
      | Some a \<Rightarrow> AList.update (lit ''property_address'') (PStr a) fallback_template)"
  define d2 where "d2 = (case names of None \<Rightarrow> d1
      | Some n \<Rightarrow> AList.update (lit ''borrower_names'') (split_borrowers n)
                   (AList.update (lit ''defendant'') (PStr n) d1))"
  define d3 where "d3 = (if find_amounts t \<noteq> [] then
               AList.update (lit ''total_debt'')
                 (PStr (if prefix (lit ''$'') (hd (find_amounts t)) then hd (find_amounts t)
                        else lit ''$'' @ hd (find_amounts t))) d2
             else d2)"
  define d4 where "d4 = (if find_dates t \<noteq> [] then
               AList.update (lit ''deed_of_trust_date'') (PStr (hd (find_dates t))) d3
             else d3)"
  have f: "fallback_extraction t =
      (if list_ex (\<lambda>field. truthy (dict_get0 d4 field))
            [lit ''property_address'', lit ''defendant'', lit ''total_debt'']
       then Some d4 else None)"
    unfolding fallback_extraction_def a d4_def d3_def d2_def d1_def
    by (simp add: n Let_def)
  have m1: "map_of d1 = (case address of None \<Rightarrow> map_of fallback_template
      | Some a \<Rightarrow> (map_of fallback_template)(lit ''property_address'' \<mapsto> PStr a))"
    by (simp add: d1_def update_conv' split: option.split)
  have m2: "map_of d2 = (case names of None \<Rightarrow> map_of d1
      | Some n \<Rightarrow> (map_of d1)(lit ''defendant'' \<mapsto> PStr n, lit ''borrower_names'' \<mapsto> split_borrowers n))"
    by (simp add: d2_def update_conv' split: option.split)
  have m3: "map_of d3 = (if find_amounts t \<noteq> [] then
      (map_of d2)(lit ''total_debt'' \<mapsto> debt_of (find_amounts t)) else map_of d2)"
    by (cases "find_amounts t") (simp_all add: d3_def update_conv' debt_of_def)
  have m4: "map_of d4 = (if find_dates t \<noteq> [] then
      (map_of d3)(lit ''deed_of_trust_date'' \<mapsto> date_of (find_dates t)) else map_of d3)"
    by (cases "find_dates t") (simp_all add: d4_def update_conv' date_of_def)
  have e: "debt_of [] = PNone" "date_of [] = PNone"
    by (simp_all add: debt_of_def date_of_def)
  show ?thesis
  proof (rule that [OF f])
    show "map_of d4 (lit ''property_address'') = Some (case address of None \<Rightarrow> PNone | Some a \<Rightarrow> PStr a)"
      by (simp add: m4 m3 m2 m1 template_keys lit_inj split: option.split)
    show "map_of d4 (lit ''defendant'') = Some (case names of None \<Rightarrow> PNone | Some n \<Rightarrow> PStr n)"
      by (simp add: m4 m3 m2 m1 template_keys lit_inj split: option.split)
    show "map_of d4 (lit ''total_debt'') = Some (debt_of (find_amounts t))"
      by (simp add: m4 m3 m2 m1 template_keys lit_inj e split: option.split)
    show "map_of d4 (lit ''deed_of_trust_date'') = Some (date_of (find_dates t))"
      by (simp add: m4 m3 m2 m1 template_keys lit_inj e split: option.split)
    show "map_of d4 (lit ''ai_confidence'') = Some (PStr (lit ''LOW''))"
      by (simp add: m4 m3 m2 m1 template_keys lit_inj split: option.split)
  qed
qed

lemma truthy_debt_of: "truthy (debt_of amounts) \<longleftrightarrow> amounts \<noteq> []"
  by (cases amounts) (auto simp add: debt_of_def lit_def)

lemma fallback_extraction_finds: "fallback_extraction t \<noteq> None \<longleftrightarrow> fallback_finds t"
proof (cases "find_address address_patterns t")
  case Raised
  then show ?thesis by (simp add: fallback_extraction_def fallback_finds_def)
next
  case a: (Returned address)
  show ?thesis
  proof (cases "find_names name_patterns t")
    case Raised
    then show ?thesis by (simp add: fallback_extraction_def fallback_finds_def a)
  next
    case n: (Returned names)
    from fallback_dict [OF a n] obtain d where
      f: "fallback_extraction t =
        (if list_ex (\<lambda>field. truthy (dict_get0 d field))
              [lit ''property_address'', lit ''defendant'', lit ''total_debt'']
         then Some d else None)"
      and m: "map_of d (lit ''property_address'') = Some (case address of None \<Rightarrow> PNone | Some a \<Rightarrow> PStr a)"
        "map_of d (lit ''defendant'') = Some (case names of None \<Rightarrow> PNone | Some n \<Rightarrow> PStr n)"
        "map_of d (lit ''total_debt'') = Some (debt_of (find_amounts t))"
      by blast
    have ta: "truthy (case address of None \<Rightarrow> PNone | Some a \<Rightarrow> PStr a) \<longleftrightarrow> address \<noteq> None"
      using find_address_nonempty [of address_patterns t] a by (cases address) simp_all
    have tn: "truthy (case names of None \<Rightarrow> PNone | Some n \<Rightarrow> PStr n) \<longleftrightarrow> names \<noteq> None"
      using find_names_nonempty [of name_patterns t] n by (cases names) simp_all
    show ?thesis
      by (simp add: f fallback_finds_def a n dict_get_def m ta tn truthy_debt_of)
  qed
qed

lemma fallback_extraction_cases:
  assumes "fallback_extraction t = Some d"
  shows "map_of d (lit ''total_debt'') = Some (debt_of (find_amounts t))"
    and "map_of d (lit ''deed_of_trust_date'') = Some (date_of (find_dates t))"
    and "map_of d (lit ''ai_confidence'') = Some (PStr (lit ''LOW''))"
proof -
  from assms obtain address where a: "find_address address_patterns t = Returned address"
    by (cases "find_address address_patterns t") (simp_all add: fallback_extraction_def)
  from assms a obtain names where n: "find_names name_patterns t = Returned names"
    by (cases "find_names name_patterns t") (simp_all add: fallback_extraction_def)
  from fallback_dict [OF a n] obtain d' where
    f: "fallback_extraction t =
        (if list_ex (\<lambda>field. truthy (dict_get0 d' field))
              [lit ''property_address'', lit ''defendant'', lit ''total_debt'']
         then Some d' else None)"
    and m: "map_of d' (lit ''total_debt'') = Some (debt_of (find_amounts t))"
      "map_of d' (lit ''deed_of_trust_date'') = Some (date_of (find_dates t))"
      "map_of d' (lit ''ai_confidence'') = Some (PStr (lit ''LOW''))"
    by blast
  from f assms have "d = d'" by (simp split: if_splits)
  with m show "map_of d (lit ''total_debt'') = Some (debt_of (find_amounts t))"
    and "map_of d (lit ''deed_of_trust_date'') = Some (date_of (find_dates t))"
    and "map_of d (lit ''ai_confidence'') = Some (PStr (lit ''LOW''))"
    by simp_all
qed

lemma significant_all:
  "list_all (\<lambda>a. float_gt_1000 (str_replace (lit ''$'') [] (str_replace (lit '','') [] a)))
     (find_amounts t)"
  by (auto simp add: find_amounts_def significant_def list_all_iff)

lemma amounts_fallback: "fallback_extraction amounts_example = Some amounts_result"
  by (simp add: fallback_extraction_def amounts_address amounts_names amounts_found amounts_dates amounts_result_def
      fallback_template_def dict_get_def lit_def)

lemma borrower_fallback: "fallback_extraction borrower_text = Some borrower_result"
  by (simp add: fallback_extraction_def borrower_address borrower_names_found borrower_amounts
      borrower_dates borrower_result_def fallback_template_def dict_get_def split_borrowers_def
      str_split_def split_sep_acc.simps strip_def is_space_def lit_def)

lemma noise_fallback: "fallback_extraction noise_text = None"
  using fallback_extraction_finds [of noise_text]
  by (simp add: fallback_finds_def noise_address noise_names noise_amounts)

lemma dead_service_fails: "fst (make_api_request dead_service t self) = None"
  by (simp add: make_api_request_def range_max_retries api_attempt_def Let_def dead_service_def)

lemma noise_extracted:
  "extract_pdf_text [Raised] [Raised] (Returned [Returned noise_page]) = Returned noise_text"
  "(strip noise_text = []) = False"
  by (simp_all add: extract_pdf_text_def meaningful_def noise_text_def noise_page_def strip_def
      is_space_def lit_def)

lemma borrower_extracted:
  "extract_pdf_text [Raised] [Raised] (Returned [Returned borrower_page]) = Returned borrower_text"
  "(strip borrower_text = []) = False"
  by (simp_all add: extract_pdf_text_def meaningful_def borrower_text_def borrower_page_def
      strip_def is_space_def lit_def)

text \<open>
  C6, as the specification words it, fails: the fallback stores the first significant
  amount and the first date it finds, not the largest and the earliest. In a notice that
  names $2,000 before $5,000 and 12/31/2024 before 1/1/2020, both amounts are found and
  $2,000 is stored; both dates are matched and 12/31/2024 is stored.
\<close>

theorem fallback_extraction_counterexample:
  "fallback_extraction amounts_example = Some amounts_result \<and>
   map_of amounts_result (lit ''total_debt'') = Some (PStr (lit ''$2,000'')) \<and>
   find_amounts amounts_example = [lit ''$2,000'', lit ''$5,000''] \<and>
   map_of amounts_result (lit ''deed_of_trust_date'') = Some (PStr (lit ''12/31/2024'')) \<and>
   find_dates amounts_example = [lit ''12/31/2024'', lit ''1/1/2020'']"
proof -
  have a: "map_of amounts_result (lit ''total_debt'') = Some (PStr (lit ''$2,000''))"
    "map_of amounts_result (lit ''deed_of_trust_date'') = Some (PStr (lit ''12/31/2024''))"
    by (simp_all add: amounts_result_def update_conv' lit_inj)
  from amounts_fallback a amounts_found amounts_dates show ?thesis by blast
qed

text \<open>
  C6, amended. In the dictionary the fallback returns, \<^verbatim>\<open>total_debt\<close> is the first element of
  the list of amounts (the matches of the dollar-sign pattern in the order of the text,
  then those of the labelled pattern, each kept when it is a number above 1000), with a
  dollar sign in front, or \<^verbatim>\<open>None\<close> when the list is empty; \<^verbatim>\<open>deed_of_trust_date\<close> is the first
  element of the list of dates (the matches of the three formats, format after format), or
  \<^verbatim>\<open>None\<close>; and every amount of the list is above 1000.
\<close>

theorem fallback_extraction_first_match:
  "fallback_extraction pdf_text = Some d \<longrightarrow>
     map_of d (lit ''total_debt'') = Some (debt_of (find_amounts pdf_text)) \<and>
     map_of d (lit ''deed_of_trust_date'') = Some (date_of (find_dates pdf_text)) \<and>
     list_all (\<lambda>a. float_gt_1000 (str_replace (lit ''$'') [] (str_replace (lit '','') [] a)))
       (find_amounts pdf_text)"
  using fallback_extraction_cases [of pdf_text d] significant_all [of pdf_text] by blast

theorem fallback_extraction_first_match_witness:
  "map_of amounts_result (lit ''total_debt'') = Some (debt_of (find_amounts amounts_example)) \<and>
   map_of amounts_result (lit ''deed_of_trust_date'') = Some (date_of (find_dates amounts_example)) \<and>
   debt_of (find_amounts amounts_example) = PStr (lit ''$2,000'') \<and>
   date_of (find_dates amounts_example) = PStr (lit ''12/31/2024'')"
proof -
  have v: "debt_of (find_amounts amounts_example) = PStr (lit ''$2,000'')"
    "date_of (find_dates amounts_example) = PStr (lit ''12/31/2024'')"
    by (simp_all add: amounts_found amounts_dates debt_of_def date_of_def lit_def)
  from fallback_extraction_first_match [of amounts_example amounts_result] amounts_fallback v
  show ?thesis by blast
qed

lemma record_of_confidence:
  "ai_confidence (record_of d now pdf_filename) = dict_get0 d (lit ''ai_confidence'')"
  by (simp add: record_of_def new_ForeClosureData_def post_init_def Let_def)

text \<open>
  C1, as the specification words it, fails: on a document whose text names no address, no
  borrower and no amount, the fallback returns \<^verbatim>\<open>None\<close> and so does \<^verbatim>\<open>parse_pdf\<close>. The
  document is one scanned page of 54 characters, read by OCR; the service raises at every
  call.
\<close>

theorem parse_pdf_fallback_counterexample:
  "extract_pdf_text [Raised] [Raised] (Returned [Returned noise_page]) = Returned noise_text \<and>
   (strip noise_text = []) = False \<and>
   fst (make_api_request dead_service noise_text quiet_parser) = None \<and>
   fst (parse_pdf [Raised] [Raised] (Returned [Returned noise_page]) dead_service
          (lit ''1.pdf'') (lit ''2024-01-01T00:00:00'') quiet_parser) = Returned None"
proof -
  obtain r p' where m: "make_api_request dead_service noise_text quiet_parser = (r, p')"
    by (cases "make_api_request dead_service noise_text quiet_parser")
  with dead_service_fails [of noise_text quiet_parser] have r: "r = None" by simp
  have "fst (parse_pdf [Raised] [Raised] (Returned [Returned noise_page]) dead_service
          (lit ''1.pdf'') (lit ''2024-01-01T00:00:00'') quiet_parser) = Returned None"
    using noise_extracted by (simp add: parse_pdf_def m r noise_fallback)
  with noise_extracted dead_service_fails [of noise_text quiet_parser] show ?thesis by blast
qed

text \<open>
  C1, amended. When text extraction returns a text that is not blank and the request to the
  generative service returns \<^verbatim>\<open>None\<close>, \<^verbatim>\<open>parse_pdf\<close> returns the record built from the
  dictionary of the fallback when the fallback returns one, and \<^verbatim>\<open>None\<close> otherwise; the
  fallback returns a dictionary exactly when it finds an address, a name block or a
  significant amount; and the record is tagged \<^verbatim>\<open>LOW\<close>.
\<close>

theorem parse_pdf_fallback:
  "extract_pdf_text plumber pypdf ocr = Returned pdf_text \<and> strip pdf_text \<noteq> [] \<and>
   fst (make_api_request generate pdf_text self) = None \<longrightarrow>
     fst (parse_pdf plumber pypdf ocr generate pdf_filename now self)
       = Returned (map_option (\<lambda>d. record_of d now pdf_filename) (fallback_extraction pdf_text)) \<and>
     (fallback_extraction pdf_text \<noteq> None \<longleftrightarrow> fallback_finds pdf_text) \<and>
     (\<forall>d. fallback_extraction pdf_text = Some d \<longrightarrow>
          ai_confidence (record_of d now pdf_filename) = PStr (lit ''LOW''))"
proof (intro impI conjI allI)
  assume h: "extract_pdf_text plumber pypdf ocr = Returned pdf_text \<and> strip pdf_text \<noteq> [] \<and>
   fst (make_api_request generate pdf_text self) = None"
  obtain r p' where m: "make_api_request generate pdf_text self = (r, p')"
    by (cases "make_api_request generate pdf_text self")
  with h have r: "r = None" by simp
  show "fst (parse_pdf plumber pypdf ocr generate pdf_filename now self)
       = Returned (map_option (\<lambda>d. record_of d now pdf_filename) (fallback_extraction pdf_text))"
  proof (cases "fallback_extraction pdf_text")
    case None
    then show ?thesis using h by (simp add: parse_pdf_def m r)
  next
    case (Some d)
    from fallback_extraction_cases(3) [OF Some] have "d \<noteq> []" by auto
    then show ?thesis using h Some by (simp add: parse_pdf_def m r)
  qed
next
  show "fallback_extraction pdf_text \<noteq> None \<longleftrightarrow> fallback_finds pdf_text"
    by (rule fallback_extraction_finds)
next
  fix d
  assume "fallback_extraction pdf_text = Some d"
  from fallback_extraction_cases(3) [OF this]
  show "ai_confidence (record_of d now pdf_filename) = PStr (lit ''LOW'')"
    by (simp add: record_of_confidence dict_get_def)
qed
theorem parse_pdf_fallback_witness:
  "fst (parse_pdf [Raised] [Raised] (Returned [Returned borrower_page]) dead_service
          (lit ''1.pdf'') (lit ''2024-01-01T00:00:00'') quiet_parser)
     = Returned (Some (record_of borrower_result (lit ''2024-01-01T00:00:00'') (lit ''1.pdf''))) \<and>
   fallback_finds borrower_text \<and>
   ai_confidence (record_of borrower_result (lit ''2024-01-01T00:00:00'') (lit ''1.pdf''))
     = PStr (lit ''LOW'')"
proof -
  have h: "extract_pdf_text [Raised] [Raised] (Returned [Returned borrower_page])
      = Returned borrower_text \<and> strip borrower_text \<noteq> [] \<and>
     fst (make_api_request dead_service borrower_text quiet_parser) = None"
    using borrower_extracted dead_service_fails [of borrower_text quiet_parser] by simp
  from parse_pdf_fallback [of "[Raised]" "[Raised]" "Returned [Returned borrower_page]"
      borrower_text dead_service quiet_parser "lit ''1.pdf''" "lit ''2024-01-01T00:00:00''"] h
  show ?thesis by (simp add: borrower_fallback)
qed

section \<open>Properties of the recovery of a record from a response\<close>

text \<open>
  C2. The repairs are applied to every candidate before it is parsed, also to one that is
  valid JSON. The response \<^verbatim>\<open>{"sale_time": "10:00 AM"}\<close> is a JSON object; the repair of keys
  without quotes takes \<^verbatim>\<open>10:\<close> inside the value for a key and quotes it, the result is not
  JSON, the manual extraction finds one field, and nothing is returned.
\<close>

theorem extract_json_breaks_valid_object:
  "json_loads sale_time_json = Some (PDict [(lit ''sale_time'', PStr (lit ''10:00 AM''))]) \<and>
   repair sale_time_json
     = lit ''{'' @ quoted ''sale_time'' @ lit '': '' @ [34] @ quoted ''10'' @ lit '':00 AM'' @ [34]
         @ lit ''}'' \<and>
   extract_json_from_response sale_time_json = None"
proof -
  have a: "json_loads sale_time_json = Some (PDict [(lit ''sale_time'', PStr (lit ''10:00 AM''))])"
    by (simp add: sale_time_json_def quoted_def json_eval lit_def)
  have b: "repair sale_time_json
     = lit ''{'' @ quoted ''sale_time'' @ lit '': '' @ [34] @ quoted ''10'' @ lit '':00 AM'' @ [34]
         @ lit ''}''"
    by (simp add: sale_time_json_def quoted_def json_eval regex_eval)
  have c: "extract_json_from_response sale_time_json = None"
    by (simp add: sale_time_json_def quoted_def json_eval regex_eval manual_json_extraction_def
        manual_keys_def manual_pattern_def manual_borrowers_def borrower_pattern_def
        quoted_pattern_def manual_template_def)
  from a b c show ?thesis by blast
qed

end
